theory Spec2Isabelle
  imports Complex_Main "HOL-Library.List_Lexorder" "HOL-Library.FSet"
begin

section \<open>Python text\<close>

text \<open>
  A Python \<open>str\<close> is a sequence of Unicode code points; it is modelled as a list of
  natural numbers. ASCII literals of the source are written through \<open>ascii\<close>.
\<close>

type_synonym pystr = "nat list"

definition ascii :: "string \<Rightarrow> pystr" where
  "ascii s = map of_char s"

text \<open>
  \<open>str.isspace\<close> on one code point: the 29 code points for which CPython answers true.
\<close>

definition py_isspace :: "nat \<Rightarrow> bool" where
  "py_isspace c \<longleftrightarrow>
     (9 \<le> c \<and> c \<le> 13) \<or> (28 \<le> c \<and> c \<le> 32) \<or> c = 0x85 \<or> c = 0xA0 \<or> c = 0x1680 \<or>
     (0x2000 \<le> c \<and> c \<le> 0x200A) \<or> c = 0x2028 \<or> c = 0x2029 \<or> c = 0x202F \<or>
     c = 0x205F \<or> c = 0x3000"

definition py_strip :: "pystr \<Rightarrow> pystr" where
  "py_strip s = rev (dropWhile py_isspace (rev (dropWhile py_isspace s)))"

text \<open>
  The tables of the Unicode character database that CPython consults outside ASCII are
  not part of the repository; they are a parameter of the model. \<open>lower_at s i\<close> is the
  lowercase image of the code point at index \<open>i\<close> of \<open>s\<close> (the context is passed because
  the final-sigma rule looks at the neighbours), \<open>isdigit_cp\<close> is the property behind
  \<open>str.isdigit\<close>, and \<open>int_nonascii\<close> is \<open>int(s)\<close> on a string that holds a
  non-ASCII code point (\<open>None\<close> when it raises \<open>ValueError\<close>).
\<close>

record ucd =
  lower_at :: "pystr \<Rightarrow> nat \<Rightarrow> nat list"
  isdigit_cp :: "nat \<Rightarrow> bool"
  int_nonascii :: "pystr \<Rightarrow> int option"

text \<open>
  \<open>str.lower\<close>. ASCII is mapped as CPython does; so are the four non-ASCII code points
  that \<open>re.IGNORECASE\<close> relates to ASCII letters: U+0130 lowers to \<open>i\<close> followed by
  U+0307, U+0131 and U+017F are lowercase already, U+212A lowers to \<open>k\<close>. Every other
  code point is left to the table.
\<close>

definition lower_cp :: "ucd \<Rightarrow> pystr \<Rightarrow> nat \<Rightarrow> nat \<Rightarrow> nat list" where
  "lower_cp U s i c =
     (if 65 \<le> c \<and> c \<le> 90 then [c + 32]
      else if c < 128 then [c]
      else if c = 0x130 then [0x69, 0x307]
      else if c = 0x131 \<or> c = 0x17F then [c]
      else if c = 0x212A then [0x6B]
      else lower_at U s i)"

fun lower_from :: "ucd \<Rightarrow> pystr \<Rightarrow> nat \<Rightarrow> pystr \<Rightarrow> pystr" where
  "lower_from U s i [] = []"
| "lower_from U s i (c # cs) = lower_cp U s i c @ lower_from U s (Suc i) cs"

definition py_lower :: "ucd \<Rightarrow> pystr \<Rightarrow> pystr" where
  "py_lower U s = lower_from U s 0 s"

section \<open>The email pattern\<close>

text \<open>
  \<open>FIZMAT_EMAIL_RE = re.compile(r"^[A-Za-z0-9._%+-]+@fizmat\.kz$", re.IGNORECASE)\<close>.
  The pattern is kept as data: a list of items, an item being an anchor, one atom, or an
  atom under \<open>+\<close>; an atom is a literal or a bracket class of ranges.
\<close>

datatype atom = Chr nat | Cls "(nat \<times> nat) list"

datatype rx_item = Bol | Eol | One atom | Plus atom

definition FIZMAT_EMAIL_RE :: "rx_item list" where
  "FIZMAT_EMAIL_RE =
     [Bol,
      Plus (Cls [(65, 90), (97, 122), (48, 57), (46, 46), (95, 95), (37, 37), (43, 43), (45, 45)]),
      One (Chr 64),
      One (Chr 102), One (Chr 105), One (Chr 122), One (Chr 109), One (Chr 97), One (Chr 116),
      One (Chr 46),
      One (Chr 107), One (Chr 122),
      Eol]"

text \<open>
  Matching under \<open>re.IGNORECASE\<close> on a \<open>str\<close> pattern: the engine lowers the subject's
  code point and looks it up in the lowered set of the atom, to which the compiler has
  added the other lowercase code points with the same uppercase (\<open>i\<close> and U+0131,
  \<open>s\<close> and U+017F). \<open>sre_lower\<close> is the engine's one-to-one lowering on the code points
  whose image is ASCII; on the others it is the identity here, which gives the same
  answers against a pattern of ASCII characters, since no other code point lowers to
  ASCII, to U+0131 or to U+017F.
\<close>

definition sre_lower :: "nat \<Rightarrow> nat" where
  "sre_lower c =
     (if 65 \<le> c \<and> c \<le> 90 then c + 32
      else if c = 0x130 then 0x69
      else if c = 0x212A then 0x6B
      else c)"

definition sre_fixes :: "nat \<Rightarrow> nat list" where
  "sre_fixes lo =
     (if lo = 0x69 \<or> lo = 0x131 then [0x69, 0x131]
      else if lo = 0x73 \<or> lo = 0x17F then [0x73, 0x17F]
      else [lo])"

text \<open>
  \<open>ic_variants c\<close> lists the pattern characters that the subject's code point \<open>c\<close>
  matches: the code points whose lowering lies in the class of the lowering of \<open>c\<close>.
\<close>

definition sre_unlower :: "nat \<Rightarrow> nat list" where
  "sre_unlower lo =
     lo # (if 97 \<le> lo \<and> lo \<le> 122 then [lo - 32] else []) @
          (if lo = 0x69 then [0x130] else []) @ (if lo = 0x6B then [0x212A] else [])"

definition ic_variants :: "nat \<Rightarrow> nat list" where
  "ic_variants c = concat (map sre_unlower (sre_fixes (sre_lower c)))"

definition in_ranges :: "(nat \<times> nat) list \<Rightarrow> nat \<Rightarrow> bool" where
  "in_ranges rs p = list_ex (\<lambda>(lo, hi). lo \<le> p \<and> p \<le> hi) rs"

fun atom_accepts :: "atom \<Rightarrow> nat \<Rightarrow> bool" where
  "atom_accepts (Chr p) c = (p \<in> set (ic_variants c))"
| "atom_accepts (Cls rs) c = list_ex (in_ranges rs) (ic_variants c)"

text \<open>
  \<open>Pattern.fullmatch\<close>: the items are matched from the start of the string and the
  match must end at its end. The flag says whether the position is the start of the
  string. \<open>$\<close> holds at the end and before a final newline.
\<close>

fun rx_fullmatch :: "rx_item list \<Rightarrow> bool \<Rightarrow> pystr \<Rightarrow> bool" where
  "rx_fullmatch [] b s = (s = [])"
| "rx_fullmatch (Bol # p) b s = (b \<and> rx_fullmatch p b s)"
| "rx_fullmatch (Eol # p) b s = ((s = [] \<or> s = [10]) \<and> rx_fullmatch p b s)"
| "rx_fullmatch (One a # p) b [] = False"
| "rx_fullmatch (One a # p) b (c # s) = (atom_accepts a c \<and> rx_fullmatch p False s)"
| "rx_fullmatch (Plus a # p) b [] = False"
| "rx_fullmatch (Plus a # p) b (c # s) =
     (atom_accepts a c \<and> (rx_fullmatch (Plus a # p) False s \<or> rx_fullmatch p False s))"

text \<open>
  \<open>is_valid_fizmat_email\<close>: the empty string is refused before the pattern is tried.
\<close>

definition is_valid_fizmat_email :: "ucd \<Rightarrow> pystr \<Rightarrow> bool" where
  "is_valid_fizmat_email U email =
     (if email = [] then False
      else rx_fullmatch FIZMAT_EMAIL_RE True (py_lower U (py_strip email)))"

text \<open>
  \<open>str.split()\<close> with no separator cuts at runs of whitespace and yields no empty word;
  \<open>str.split(maxsplit=1)\<close> cuts once and keeps the rest with its leading whitespace
  removed.
\<close>

fun split_ws :: "pystr \<Rightarrow> pystr \<Rightarrow> pystr list" where
  "split_ws cur [] = (if cur = [] then [] else [cur])"
| "split_ws cur (c # cs) =
     (if py_isspace c then (if cur = [] then split_ws [] cs else cur # split_ws [] cs)
      else split_ws (cur @ [c]) cs)"

definition py_split :: "pystr \<Rightarrow> pystr list" where
  "py_split s = split_ws [] s"

definition py_split_max1 :: "pystr \<Rightarrow> pystr list" where
  "py_split_max1 s =
     (let s1 = dropWhile py_isspace s;
          w = takeWhile (\<lambda>c. \<not> py_isspace c) s1;
          rest = dropWhile py_isspace (dropWhile (\<lambda>c. \<not> py_isspace c) s1)
      in if s1 = [] then [] else if rest = [] then [w] else [w, rest])"

text \<open>\<open>s.split(sep, 1)\<close> for a separator of one character.\<close>

definition py_split_sep1 :: "nat \<Rightarrow> pystr \<Rightarrow> pystr list" where
  "py_split_sep1 sep s =
     (if sep \<in> set s then [takeWhile (\<lambda>c. c \<noteq> sep) s, tl (dropWhile (\<lambda>c. c \<noteq> sep) s)]
      else [s])"

definition py_startswith :: "pystr \<Rightarrow> pystr \<Rightarrow> bool" where
  "py_startswith s pre = (take (length pre) s = pre)"

text \<open>
  \<open>str.isdigit\<close>: a non-empty string of digits. Outside ASCII the property comes from
  the table; it holds of more code points than \<open>int\<close> accepts.
\<close>

definition py_isdigit :: "ucd \<Rightarrow> pystr \<Rightarrow> bool" where
  "py_isdigit U s \<longleftrightarrow>
     s \<noteq> [] \<and> list_all (\<lambda>c. if c < 128 then 48 \<le> c \<and> c \<le> 57 else isdigit_cp U c) s"

text \<open>
  \<open>int(s)\<close> in base ten on an ASCII string: surrounding blanks are dropped (the C
  locale's six), one sign may lead, and the digits may be separated by single
  underscores. \<open>None\<close> stands for \<open>ValueError\<close>. The interpreter's limit of 4300 digits
  is above the length of any message of the platform and is left out.
\<close>

definition c_isspace :: "nat \<Rightarrow> bool" where
  "c_isspace c \<longleftrightarrow> (9 \<le> c \<and> c \<le> 13) \<or> c = 32"

definition is_ascii_digit :: "nat \<Rightarrow> bool" where
  "is_ascii_digit c \<longleftrightarrow> 48 \<le> c \<and> c \<le> 57"

fun digits_ok :: "pystr \<Rightarrow> bool" where
  "digits_ok [] = False"
| "digits_ok [c] = is_ascii_digit c"
| "digits_ok (c # d # cs) =
     (if is_ascii_digit c then digits_ok (d # cs)
      else c = 95 \<and> is_ascii_digit d \<and> digits_ok (d # cs))"

definition digits_value :: "pystr \<Rightarrow> int" where
  "digits_value s = foldl (\<lambda>acc c. if c = 95 then acc else 10 * acc + (int c - 48)) 0 s"

definition ascii_int :: "pystr \<Rightarrow> int option" where
  "ascii_int s =
     (let t = rev (dropWhile c_isspace (rev (dropWhile c_isspace s)));
          neg = (t \<noteq> [] \<and> hd t = 45);
          ds = (if t \<noteq> [] \<and> (hd t = 45 \<or> hd t = 43) then tl t else t)
      in if ds \<noteq> [] \<and> is_ascii_digit (hd ds) \<and> digits_ok ds
         then Some (if neg then - digits_value ds else digits_value ds)
         else None)"

definition py_int :: "ucd \<Rightarrow> pystr \<Rightarrow> int option" where
  "py_int U s = (if list_all (\<lambda>c. c < 128) s then ascii_int s else int_nonascii U s)"

section \<open>Exceptions\<close>

text \<open>
  The exception classes that the handlers meet. The three classes of platform errors
  that the source names in its \<open>except\<close> clauses are kept apart from every other error of
  the platform (network, flood control, server).
\<close>

datatype tg_error =
  TelegramForbiddenError | TelegramBadRequest | TelegramNotFound | TelegramOtherError

datatype exn =
  ValueError | IntegrityError | OverflowError | AttributeError | IndexError
  | TelegramError tg_error

section \<open>DB layer\<close>

text \<open>
  The two tables of \<open>SCHEMA_SQL\<close>, each a list of rows, and whether the unique index
  \<open>idx_profiles_email_unique\<close> exists. The column \<open>email\<close> is nullable. \<open>created_at\<close> is
  the text of \<open>datetime.utcnow().isoformat()\<close>; SQLite orders text by code point, which
  on lists is the lexicographic order.
\<close>

record profile_row =
  p_user_id :: int
  p_first_name :: pystr
  p_last_name :: pystr
  p_school_cls :: pystr
  p_email :: "pystr option"
  p_created_at :: pystr

record pending_row =
  q_user_id :: int
  q_chat_id :: int
  q_created_at :: pystr

record database =
  profiles :: "profile_row list"
  pending :: "pending_row list"
  idx_profiles_email_unique :: bool

definition stored_emails :: "database \<Rightarrow> pystr list" where
  "stored_emails d = List.map_filter p_email (profiles d)"

text \<open>
  \<open>ensure_schema_upgrade\<close>: the tables exist already in the model; the unique index is
  created unless two rows share an email, in which case SQLite refuses, the source logs
  a warning and goes on without the index. SQLite allows several NULLs.
\<close>

definition ensure_schema_upgrade :: "database \<Rightarrow> database" where
  "ensure_schema_upgrade d =
     (if idx_profiles_email_unique d then d
      else if distinct (stored_emails d) then d\<lparr>idx_profiles_email_unique := True\<rparr>
      else d)"

definition init_db :: "database \<Rightarrow> database" where
  "init_db d = ensure_schema_upgrade d"

definition empty_database :: database where
  "empty_database = \<lparr>profiles = [], pending = [], idx_profiles_email_unique = False\<rparr>"

text \<open>The binding of a Python integer to an SQLite parameter raises outside 64 bits.\<close>

definition sqlite_int_ok :: "int \<Rightarrow> bool" where
  "sqlite_int_ok n \<longleftrightarrow> - (2 ^ 63) \<le> n \<and> n < 2 ^ 63"

definition is_registered :: "int \<Rightarrow> database \<Rightarrow> bool" where
  "is_registered user_id d = list_ex (\<lambda>r. p_user_id r = user_id) (profiles d)"

text \<open>
  \<open>save_profile\<close>. The statement is an insert that turns into an update of every
  column when the row of \<open>user_id\<close> exists. The clause \<open>ON CONFLICT(user_id)\<close> covers the
  primary key only: when the unique index exists and another row holds the email, SQLite
  aborts the statement and the driver raises \<open>sqlite3.IntegrityError\<close>. \<open>now\<close> is the text
  of the clock at the call.
\<close>

definition email_taken :: "int \<Rightarrow> pystr \<Rightarrow> database \<Rightarrow> bool" where
  "email_taken user_id e d =
     list_ex (\<lambda>r. p_user_id r \<noteq> user_id \<and> p_email r = Some e) (profiles d)"

definition upsert_profile :: "profile_row \<Rightarrow> profile_row list \<Rightarrow> profile_row list" where
  "upsert_profile row rs =
     (if list_ex (\<lambda>r. p_user_id r = p_user_id row) rs
      then map (\<lambda>r. if p_user_id r = p_user_id row then row else r) rs
      else rs @ [row])"

definition save_profile ::
  "ucd \<Rightarrow> pystr \<Rightarrow> int \<Rightarrow> pystr \<Rightarrow> pystr \<Rightarrow> pystr \<Rightarrow> pystr \<Rightarrow> database \<Rightarrow> exn + database" where
  "save_profile U now user_id first_name last_name school_cls email d =
     (let email_norm = py_lower U (py_strip email) in
      if \<not> is_valid_fizmat_email U email_norm then Inl ValueError
      else if idx_profiles_email_unique d \<and> email_taken user_id email_norm d
        then Inl IntegrityError
      else Inr (d\<lparr>profiles :=
             upsert_profile
               \<lparr>p_user_id = user_id, p_first_name = py_strip first_name,
                p_last_name = py_strip last_name, p_school_cls = py_strip school_cls,
                p_email = Some email_norm, p_created_at = now\<rparr>
               (profiles d)\<rparr>))"

text \<open>\<open>add_pending\<close>: \<open>REPLACE INTO\<close> removes the row of the same key and inserts.\<close>

definition add_pending :: "pystr \<Rightarrow> int \<Rightarrow> int \<Rightarrow> database \<Rightarrow> database" where
  "add_pending now user_id chat_id d =
     d\<lparr>pending :=
         filter (\<lambda>r. \<not> (q_user_id r = user_id \<and> q_chat_id r = chat_id)) (pending d)
         @ [\<lparr>q_user_id = user_id, q_chat_id = chat_id, q_created_at = now\<rparr>]\<rparr>"

text \<open>
  \<open>consume_pending\<close>: \<open>ORDER BY created_at DESC LIMIT 1\<close> takes a row of the user whose
  \<open>created_at\<close> is greatest. Among rows of equal \<open>created_at\<close> SQLite promises no order;
  the model takes the first such row of the table.
\<close>

fun latest :: "pending_row list \<Rightarrow> pending_row option" where
  "latest [] = None"
| "latest (r # rs) =
     (case latest rs of
        None \<Rightarrow> Some r
      | Some m \<Rightarrow> if q_created_at m \<le> q_created_at r then Some r else Some m)"

definition consume_pending :: "int \<Rightarrow> database \<Rightarrow> database \<times> int option" where
  "consume_pending user_id d =
     (case latest (filter (\<lambda>r. q_user_id r = user_id) (pending d)) of
        None \<Rightarrow> (d, None)
      | Some row \<Rightarrow>
          (d\<lparr>pending :=
               filter (\<lambda>r. \<not> (q_user_id r = user_id \<and> q_chat_id r = q_chat_id row)) (pending d)\<rparr>,
           Some (q_chat_id row)))"

definition get_profile_row :: "int \<Rightarrow> database \<Rightarrow> profile_row option" where
  "get_profile_row user_id d = find (\<lambda>r. p_user_id r = user_id) (profiles d)"

definition delete_profile :: "int \<Rightarrow> database \<Rightarrow> database" where
  "delete_profile user_id d = d\<lparr>profiles := filter (\<lambda>r. p_user_id r \<noteq> user_id) (profiles d)\<rparr>"

text \<open>
  The query of the export, \<open>ORDER BY created_at\<close>, and the line that \<open>csv.writer\<close> gets
  for a row, a missing email written as the empty string.
\<close>

definition select_all_profiles :: "database \<Rightarrow> profile_row list" where
  "select_all_profiles d = sort_key p_created_at (profiles d)"

definition csv_line :: "profile_row \<Rightarrow> int \<times> pystr \<times> pystr \<times> pystr \<times> pystr \<times> pystr" where
  "csv_line r =
     (p_user_id r, p_first_name r, p_last_name r, p_school_cls r,
      (case p_email r of None \<Rightarrow> [] | Some e \<Rightarrow> e), p_created_at r)"

section \<open>The registration form and the platform\<close>

datatype reg_state = Reg_first_name | Reg_last_name | Reg_school_cls | Reg_email | Reg_confirm

text \<open>
  The form's context of one user in one chat: the current state and the dictionary of
  collected values, keyed by the names the source uses.
\<close>

record session =
  s_state :: "reg_state option"
  s_data :: "string \<rightharpoonup> pystr"

definition dict_get :: "(string \<rightharpoonup> pystr) \<Rightarrow> string \<Rightarrow> pystr \<Rightarrow> pystr" where
  "dict_get m k dflt = (case m k of None \<Rightarrow> dflt | Some v \<Rightarrow> v)"

datatype chat_type = PRIVATE | GROUP | SUPERGROUP | CHANNEL

record ChatPermissions =
  can_send_messages :: bool
  can_send_audios :: bool
  can_send_documents :: bool
  can_send_photos :: bool
  can_send_videos :: bool
  can_send_video_notes :: bool
  can_send_voice_notes :: bool
  can_send_polls :: bool
  can_send_other_messages :: bool
  can_add_web_page_previews :: bool

definition locked_perms :: ChatPermissions where
  "locked_perms =
     \<lparr>can_send_messages = False, can_send_audios = False, can_send_documents = False,
      can_send_photos = False, can_send_videos = False, can_send_video_notes = False,
      can_send_voice_notes = False, can_send_polls = False, can_send_other_messages = False,
      can_add_web_page_previews = False\<rparr>"

definition open_perms :: ChatPermissions where
  "open_perms =
     \<lparr>can_send_messages = True, can_send_audios = True, can_send_documents = True,
      can_send_photos = True, can_send_videos = True, can_send_video_notes = True,
      can_send_voice_notes = True, can_send_polls = True, can_send_other_messages = True,
      can_add_web_page_previews = True\<rparr>"

text \<open>
  The texts the bot sends, one constructor for each literal of the source, with the
  values that are formatted into it.
\<close>

datatype text_msg =
    DmFormInvite bool
  | NeedDmNotice
  | AlreadyRegistered bool
  | AskFirstName | AskLastName | AskClass | AskEmail
  | InvalidEmailFormat
  | CheckData pystr pystr pystr pystr
  | ReenterFirstName | ReenterLastName | ReenterClass | ReenterEmail
  | DomainRetry
  | DoneUnlocked | DoneNoChat
  | UserAllowed int
  | WhoAdminsOnly | WhoUsage | WhoProfile profile_row | WhoNotFound
  | RemoveAdminsOnly | RemoveUsage | RemoveDone int
  | InfoText
  | ExportDenied
  | SetupNotInGroup | SetupAdminsOnly | SetupInstructions bool

datatype msg_ref = Incoming | OwnMessage

datatype api_call =
    RestrictChatMember int int ChatPermissions
  | SendMessage int text_msg
  | DeleteMessage int msg_ref
  | AnswerCallbackQuery int
  | GetChatMember int int
  | SendDocument int "(int \<times> pystr \<times> pystr \<times> pystr \<times> pystr \<times> pystr) list"
  | PinChatMessage int

text \<open>
  What a handler reads from outside the process: the Unicode tables, the allow-list of
  the configuration, the platform's answer to each request (\<open>None\<close> when it accepts), the
  member status it reports, whether a deep link can be built for a chat, and the two
  clocks.
\<close>

record env =
  unicode :: ucd
  ALLOWED_ADMINS :: "int set"
  telegram :: "api_call \<Rightarrow> tg_error option"
  chat_member_status :: "int \<Rightarrow> int \<Rightarrow> string"
  start_link_ok :: "int \<Rightarrow> bool"
  utcnow :: pystr
  time_time :: real

text \<open>
  The state: the database, the form contexts keyed by chat and user, the two throttle
  dictionaries, and on the platform's side the permissions it holds for a member of a
  chat, the requests it has received with its answers, and the export files written.
\<close>

record world =
  db :: database
  fsm :: "int \<times> int \<Rightarrow> session"
  NEED_DM_CACHE :: "int \<Rightarrow> int fset"
  LAST_NOTICE_AT :: "int \<rightharpoonup> real"
  chat_perms :: "int \<times> int \<rightharpoonup> ChatPermissions"
  api_log :: "(api_call \<times> tg_error option) list"
  written_files :: "(int \<times> pystr \<times> pystr \<times> pystr \<times> pystr \<times> pystr) list list"

definition NOTICE_COOLDOWN :: real where
  "NOTICE_COOLDOWN = 60"

definition BATCH_THRESHOLD :: nat where
  "BATCH_THRESHOLD = 20"

subsection \<open>Requests to the platform\<close>

fun granted :: "api_call \<Rightarrow> (int \<times> int \<rightharpoonup> ChatPermissions) \<Rightarrow> (int \<times> int \<rightharpoonup> ChatPermissions)" where
  "granted (RestrictChatMember chat_id user_id perms) m = m((chat_id, user_id) \<mapsto> perms)"
| "granted _ m = m"

definition api :: "env \<Rightarrow> api_call \<Rightarrow> world \<Rightarrow> world \<times> tg_error option" where
  "api E c w =
     (let r = telegram E c in
      (w\<lparr>api_log := api_log w @ [(c, r)],
         chat_perms := (if r = None then granted c (chat_perms w) else chat_perms w)\<rparr>, r))"

text \<open>
  A handler returns the state it leaves and the exception it raised, if any. \<open>must\<close> is a
  request outside any \<open>try\<close>; \<open>attempt\<close> is a request inside a \<open>try\<close> whose \<open>except\<close>
  clause names the classes \<open>caught\<close> and does nothing.
\<close>

type_synonym handler = "world \<Rightarrow> world \<times> exn option"

definition must :: "env \<Rightarrow> api_call \<Rightarrow> handler" where
  "must E c w = (case api E c w of (w', None) \<Rightarrow> (w', None) | (w', Some e) \<Rightarrow> (w', Some (TelegramError e)))"

definition attempt :: "env \<Rightarrow> api_call \<Rightarrow> tg_error list \<Rightarrow> handler" where
  "attempt E c caught w =
     (case api E c w of
        (w', None) \<Rightarrow> (w', None)
      | (w', Some e) \<Rightarrow> if e \<in> set caught then (w', None) else (w', Some (TelegramError e)))"

definition pure :: "(world \<Rightarrow> world) \<Rightarrow> handler" where
  "pure f w = (f w, None)"

fun run_steps :: "handler list \<Rightarrow> handler" where
  "run_steps [] w = (w, None)"
| "run_steps (f # fs) w = (case f w of (w', None) \<Rightarrow> run_steps fs w' | (w', Some e) \<Rightarrow> (w', Some e))"

definition caught3 :: "tg_error list" where
  "caught3 = [TelegramForbiddenError, TelegramBadRequest, TelegramNotFound]"

subsection \<open>Operations of the form context\<close>

definition set_state :: "int \<times> int \<Rightarrow> reg_state option \<Rightarrow> world \<Rightarrow> world" where
  "set_state key st w = w\<lparr>fsm := (fsm w)(key := (fsm w key)\<lparr>s_state := st\<rparr>)\<rparr>"

definition update_data :: "int \<times> int \<Rightarrow> string \<Rightarrow> pystr \<Rightarrow> world \<Rightarrow> world" where
  "update_data key k v w = w\<lparr>fsm := (fsm w)(key := (fsm w key)\<lparr>s_data := (s_data (fsm w key))(k \<mapsto> v)\<rparr>)\<rparr>"

definition get_data :: "int \<times> int \<Rightarrow> world \<Rightarrow> (string \<rightharpoonup> pystr)" where
  "get_data key w = s_data (fsm w key)"

definition clear :: "int \<times> int \<Rightarrow> world \<Rightarrow> world" where
  "clear key w = w\<lparr>fsm := (fsm w)(key := \<lparr>s_state = None, s_data = Map.empty\<rparr>)\<rparr>"

subsection \<open>Updates\<close>

text \<open>
  A message: the chat, the sender with its bot flag (absent for some service
  messages), the text, and the command that the framework's command filter reads from
  the text, if it reads one.
\<close>

record message =
  m_chat_type :: chat_type
  m_chat_id :: int
  m_from_user :: "(int \<times> bool) option"
  m_text :: "pystr option"
  m_command :: "string option"

record callback_query =
  cb_from_user_id :: int
  cb_chat_id :: int
  cb_data :: string

record chat_member_updated =
  j_chat_type :: chat_type
  j_chat_id :: int
  j_user_id :: int
  j_is_bot :: bool
  j_new_status :: string

datatype update =
  MessageUpdate message | CallbackUpdate callback_query | ChatMemberUpdate chat_member_updated

definition text_or_empty :: "message \<Rightarrow> pystr" where
  "text_or_empty m = (case m_text m of None \<Rightarrow> [] | Some t \<Rightarrow> t)"

definition answer :: "env \<Rightarrow> message \<Rightarrow> text_msg \<Rightarrow> handler" where
  "answer E m t = must E (SendMessage (m_chat_id m) t)"

section \<open>Group handlers\<close>

definition lock_member :: "env \<Rightarrow> int \<Rightarrow> int \<Rightarrow> handler" where
  "lock_member E chat_id user_id = attempt E (RestrictChatMember chat_id user_id locked_perms) caught3"

definition record_pending :: "env \<Rightarrow> int \<Rightarrow> int \<Rightarrow> handler" where
  "record_pending E user_id chat_id = pure (\<lambda>w. w\<lparr>db := add_pending (utcnow E) user_id chat_id (db w)\<rparr>)"

definition on_user_join :: "env \<Rightarrow> chat_member_updated \<Rightarrow> handler" where
  "on_user_join E ev w =
     (if j_chat_type ev \<noteq> GROUP \<and> j_chat_type ev \<noteq> SUPERGROUP then (w, None)
      else if j_is_bot ev then (w, None)
      else if \<not> is_registered (j_user_id ev) (db w) then
        run_steps
          [lock_member E (j_chat_id ev) (j_user_id ev),
           record_pending E (j_user_id ev) (j_chat_id ev),
           attempt E (SendMessage (j_user_id ev) (DmFormInvite (start_link_ok E (j_chat_id ev)))) caught3]
          w
      else (w, None))"

text \<open>
  The throttle of \<open>guard_group_messages\<close>, entered when the private message was
  refused: the user joins the chat's set; the notice goes out when the cooldown has
  passed since the recorded time (zero when none is recorded) or the set has reached
  the threshold, and then the time is recorded and the set emptied before the request
  is made.
\<close>

definition throttle_notice :: "env \<Rightarrow> int \<Rightarrow> int \<Rightarrow> handler" where
  "throttle_notice E chat_id user_id w =
     (let w1 = w\<lparr>NEED_DM_CACHE := (NEED_DM_CACHE w)(chat_id := finsert user_id (NEED_DM_CACHE w chat_id))\<rparr>;
          now = time_time E;
          last = (case LAST_NOTICE_AT w1 chat_id of None \<Rightarrow> 0 | Some t \<Rightarrow> t)
      in if now - last \<ge> NOTICE_COOLDOWN \<or> fcard (NEED_DM_CACHE w1 chat_id) \<ge> BATCH_THRESHOLD
         then attempt E (SendMessage chat_id NeedDmNotice) caught3
                (w1\<lparr>LAST_NOTICE_AT := (LAST_NOTICE_AT w1)(chat_id \<mapsto> now),
                    NEED_DM_CACHE := (NEED_DM_CACHE w1)(chat_id := {||})\<rparr>)
         else (w1, None))"

definition dm_or_notice :: "env \<Rightarrow> int \<Rightarrow> int \<Rightarrow> handler" where
  "dm_or_notice E chat_id user_id w =
     (case api E (SendMessage user_id (DmFormInvite (start_link_ok E chat_id))) w of
        (w1, None) \<Rightarrow> (w1, None)
      | (w1, Some e) \<Rightarrow>
          if e \<in> set caught3 then throttle_notice E chat_id user_id w1
          else (w1, Some (TelegramError e)))"

definition guard_group_messages :: "env \<Rightarrow> message \<Rightarrow> handler" where
  "guard_group_messages E m w =
     (case m_from_user m of
        None \<Rightarrow> (w, None)
      | Some (user_id, is_bot) \<Rightarrow>
          if is_bot then (w, None)
          else if is_registered user_id (db w) then (w, None)
          else run_steps
                 [record_pending E user_id (m_chat_id m),
                  lock_member E (m_chat_id m) user_id,
                  attempt E (DeleteMessage (m_chat_id m) Incoming) caught3,
                  dm_or_notice E (m_chat_id m) user_id]
                 w)"

section \<open>Form handlers\<close>

text \<open>
  The test \<open>if chat_id:\<close> on what \<open>consume_pending\<close> returns: \<open>None\<close> and the
  integer zero are both false.
\<close>

definition truthy :: "int option \<Rightarrow> int option" where
  "truthy chat = (case chat of None \<Rightarrow> None | Some c \<Rightarrow> if c = 0 then None else Some c)"

definition unlock_user_in_chat :: "env \<Rightarrow> int \<Rightarrow> int \<Rightarrow> handler" where
  "unlock_user_in_chat E chat_id user_id w =
     (case api E (RestrictChatMember chat_id user_id open_perms) w of
        (w1, None) \<Rightarrow> attempt E (SendMessage chat_id (UserAllowed user_id)) caught3 w1
      | (w1, Some e) \<Rightarrow>
          if e \<in> set caught3 then (w1, None) else (w1, Some (TelegramError e)))"

text \<open>
  The deep-link payload of \<open>/start\<close>: \<open>verify_\<close> followed by a chat identifier. Every
  exception of the block (the parse, the binding of an integer beyond 64 bits) is
  swallowed by \<open>except Exception: pass\<close>.
\<close>

definition verify_payload :: "env \<Rightarrow> int \<Rightarrow> pystr \<Rightarrow> world \<Rightarrow> world" where
  "verify_payload E user_id payload w =
     (if py_startswith payload (ascii ''verify_'') then
        (case py_split_sep1 95 payload of
           [a, b] \<Rightarrow>
             (case py_int (unicode E) b of
                Some chat_id \<Rightarrow>
                  if sqlite_int_ok chat_id
                  then w\<lparr>db := add_pending (utcnow E) user_id chat_id (db w)\<rparr> else w
              | None \<Rightarrow> w)
         | _ \<Rightarrow> w)
      else w)"

definition start :: "env \<Rightarrow> message \<Rightarrow> handler" where
  "start E m w =
     (let args = py_split_max1 (text_or_empty m);
          payload = (if length args > 1 then args ! 1 else [])
      in case m_from_user m of
           None \<Rightarrow> (w, Some AttributeError)
         | Some (user_id, is_bot) \<Rightarrow>
             if is_registered user_id (db w) then
               (case consume_pending user_id (db w) of
                  (d, chat) \<Rightarrow>
                    (case truthy chat of
                       Some chat_id \<Rightarrow>
                         run_steps
                           [unlock_user_in_chat E chat_id user_id,
                            answer E m (AlreadyRegistered True)]
                           (w\<lparr>db := d\<rparr>)
                     | None \<Rightarrow> answer E m (AlreadyRegistered False) (w\<lparr>db := d\<rparr>)))
             else
               run_steps
                 [pure (verify_payload E user_id payload),
                  pure (set_state (m_chat_id m, user_id) (Some Reg_first_name)),
                  answer E m AskFirstName]
                 w)"

text \<open>
  The handlers of the four fields run under a state filter, so the sender is known;
  they are given the key of the context.
\<close>

definition reg_first_name :: "env \<Rightarrow> int \<times> int \<Rightarrow> message \<Rightarrow> handler" where
  "reg_first_name E key m =
     run_steps
       [pure (update_data key ''first_name'' (py_strip (text_or_empty m))),
        pure (set_state key (Some Reg_last_name)),
        answer E m AskLastName]"

definition reg_last_name :: "env \<Rightarrow> int \<times> int \<Rightarrow> message \<Rightarrow> handler" where
  "reg_last_name E key m =
     run_steps
       [pure (update_data key ''last_name'' (py_strip (text_or_empty m))),
        pure (set_state key (Some Reg_school_cls)),
        answer E m AskClass]"

definition reg_class :: "env \<Rightarrow> int \<times> int \<Rightarrow> message \<Rightarrow> handler" where
  "reg_class E key m =
     run_steps
       [pure (update_data key ''school_cls'' (py_strip (text_or_empty m))),
        pure (set_state key (Some Reg_email)),
        answer E m AskEmail]"

definition reg_email :: "env \<Rightarrow> int \<times> int \<Rightarrow> message \<Rightarrow> handler" where
  "reg_email E key m w =
     (let email = py_lower (unicode E) (py_strip (text_or_empty m)) in
      if \<not> is_valid_fizmat_email (unicode E) email then answer E m InvalidEmailFormat w
      else
        run_steps
          [pure (update_data key ''email'' email),
           pure (set_state key (Some Reg_confirm)),
           (\<lambda>w'. let data = get_data key w' in
                  answer E m
                    (CheckData (dict_get data ''first_name'' []) (dict_get data ''last_name'' [])
                       (dict_get data ''school_cls'' []) (dict_get data ''email'' []))
                    w')]
          w)"

definition edit_field :: "env \<Rightarrow> callback_query \<Rightarrow> text_msg \<Rightarrow> reg_state \<Rightarrow> handler" where
  "edit_field E cb prompt st =
     run_steps
       [must E (SendMessage (cb_chat_id cb) prompt),
        pure (set_state (cb_chat_id cb, cb_from_user_id cb) (Some st)),
        must E (AnswerCallbackQuery (cb_from_user_id cb))]"

definition edit_first :: "env \<Rightarrow> callback_query \<Rightarrow> handler" where
  "edit_first E cb = edit_field E cb ReenterFirstName Reg_first_name"

definition edit_last :: "env \<Rightarrow> callback_query \<Rightarrow> handler" where
  "edit_last E cb = edit_field E cb ReenterLastName Reg_last_name"

definition edit_cls :: "env \<Rightarrow> callback_query \<Rightarrow> handler" where
  "edit_cls E cb = edit_field E cb ReenterClass Reg_school_cls"

definition edit_email :: "env \<Rightarrow> callback_query \<Rightarrow> handler" where
  "edit_email E cb = edit_field E cb ReenterEmail Reg_email"

text \<open>
  \<open>confirm\<close>. Only \<open>ValueError\<close> is caught around \<open>save_profile\<close>; any other exception
  leaves the handler at once, with the context as it was.
\<close>

definition confirm :: "env \<Rightarrow> callback_query \<Rightarrow> handler" where
  "confirm E cb w =
     (let key = (cb_chat_id cb, cb_from_user_id cb);
          data = get_data key w;
          uid = cb_from_user_id cb
      in case save_profile (unicode E) (utcnow E) uid
                (dict_get data ''first_name'' []) (dict_get data ''last_name'' [])
                (dict_get data ''school_cls'' []) (dict_get data ''email'' []) (db w) of
           Inl ValueError \<Rightarrow>
             run_steps
               [must E (SendMessage (cb_chat_id cb) DomainRetry),
                pure (set_state key (Some Reg_email)),
                must E (AnswerCallbackQuery uid)]
               w
         | Inl e \<Rightarrow> (w, Some e)
         | Inr d \<Rightarrow>
             (case consume_pending uid d of
                (d', chat) \<Rightarrow>
                  (case truthy chat of
                     Some chat_id \<Rightarrow>
                       run_steps
                         [unlock_user_in_chat E chat_id uid,
                          must E (SendMessage (cb_chat_id cb) DoneUnlocked),
                          must E (AnswerCallbackQuery uid)]
                         (clear key (w\<lparr>db := d'\<rparr>))
                   | None \<Rightarrow>
                       run_steps
                         [must E (SendMessage (cb_chat_id cb) DoneNoChat),
                          must E (AnswerCallbackQuery uid)]
                         (clear key (w\<lparr>db := d'\<rparr>)))))"

section \<open>Admin tools\<close>

text \<open>
  The guard of \<open>/who\<close> and \<open>/remove\<close>:
  \<open>if ALLOWED_ADMINS and message.from_user.id not in ALLOWED_ADMINS\<close>. With an empty
  set the sender is not looked at.
\<close>

definition not_allowed :: "env \<Rightarrow> message \<Rightarrow> exn + bool" where
  "not_allowed E m =
     (if ALLOWED_ADMINS E = {} then Inr False
      else case m_from_user m of
             None \<Rightarrow> Inl AttributeError
           | Some (user_id, is_bot) \<Rightarrow> Inr (user_id \<notin> ALLOWED_ADMINS E))"

text \<open>
  The argument of \<open>/who\<close> and \<open>/remove\<close>: \<open>Inr None\<close> when the usage text is due,
  otherwise the integer, or the exception of \<open>int\<close> on a digit it does not accept.
\<close>

definition target_arg :: "env \<Rightarrow> message \<Rightarrow> exn + int option" where
  "target_arg E m =
     (let parts = py_split (text_or_empty m) in
      if length parts < 2 \<or> \<not> py_isdigit (unicode E) (parts ! 1) then Inr None
      else case py_int (unicode E) (parts ! 1) of
             None \<Rightarrow> Inl ValueError
           | Some n \<Rightarrow> Inr (Some n))"

definition who_cmd_private :: "env \<Rightarrow> message \<Rightarrow> handler" where
  "who_cmd_private E m w =
     (case not_allowed E m of
        Inl e \<Rightarrow> (w, Some e)
      | Inr True \<Rightarrow> answer E m WhoAdminsOnly w
      | Inr False \<Rightarrow>
          (case target_arg E m of
             Inl e \<Rightarrow> (w, Some e)
           | Inr None \<Rightarrow> answer E m WhoUsage w
           | Inr (Some target_id) \<Rightarrow>
               if \<not> sqlite_int_ok target_id then (w, Some OverflowError)
               else (case get_profile_row target_id (db w) of
                       Some row \<Rightarrow> answer E m (WhoProfile row) w
                     | None \<Rightarrow> answer E m WhoNotFound w)))"

definition remove_cmd :: "env \<Rightarrow> message \<Rightarrow> handler" where
  "remove_cmd E m w =
     (case not_allowed E m of
        Inl e \<Rightarrow> (w, Some e)
      | Inr True \<Rightarrow> answer E m RemoveAdminsOnly w
      | Inr False \<Rightarrow>
          (case target_arg E m of
             Inl e \<Rightarrow> (w, Some e)
           | Inr None \<Rightarrow> answer E m RemoveUsage w
           | Inr (Some target_id) \<Rightarrow>
               if \<not> sqlite_int_ok target_id then (w, Some OverflowError)
               else answer E m (RemoveDone target_id)
                      (w\<lparr>db := delete_profile target_id (db w)\<rparr>)))"

definition info_cmd :: "env \<Rightarrow> message \<Rightarrow> handler" where
  "info_cmd E m = answer E m InfoText"

definition is_admin :: "env \<Rightarrow> int \<Rightarrow> int \<Rightarrow> world \<Rightarrow> world \<times> (exn + bool)" where
  "is_admin E chat_id user_id w =
     (case api E (GetChatMember chat_id user_id) w of
        (w1, None) \<Rightarrow>
          (w1, Inr (chat_member_status E chat_id user_id = ''creator''
                    \<or> chat_member_status E chat_id user_id = ''administrator''))
      | (w1, Some e) \<Rightarrow>
          if e \<in> set caught3 then (w1, Inr False) else (w1, Inl (TelegramError e)))"

definition send_ephemeral_group_notice :: "env \<Rightarrow> int \<Rightarrow> text_msg \<Rightarrow> handler" where
  "send_ephemeral_group_notice E chat_id t w =
     (case api E (SendMessage chat_id t) w of
        (w1, None) \<Rightarrow> attempt E (DeleteMessage chat_id OwnMessage) caught3 w1
      | (w1, Some e) \<Rightarrow>
          if e = TelegramForbiddenError \<or> e = TelegramBadRequest then (w1, None)
          else (w1, Some (TelegramError e)))"

text \<open>
  \<open>export_csv\<close>: outside a private chat the sender must be an administrator of the
  chat; the allow-list is not consulted. The file is written, then sent.
\<close>

definition write_export :: "env \<Rightarrow> message \<Rightarrow> handler" where
  "write_export E m w =
     (let rows = map csv_line (select_all_profiles (db w)) in
      attempt E (SendDocument (m_chat_id m) rows) [TelegramForbiddenError, TelegramBadRequest]
        (w\<lparr>written_files := written_files w @ [rows]\<rparr>))"

definition export_csv :: "env \<Rightarrow> message \<Rightarrow> handler" where
  "export_csv E m w =
     (if m_chat_type m \<noteq> PRIVATE then
        (case m_from_user m of
           None \<Rightarrow> (w, Some AttributeError)
         | Some (user_id, is_bot) \<Rightarrow>
             (case is_admin E (m_chat_id m) user_id w of
                (w1, Inl e) \<Rightarrow> (w1, Some e)
              | (w1, Inr False) \<Rightarrow> send_ephemeral_group_notice E (m_chat_id m) ExportDenied w1
              | (w1, Inr True) \<Rightarrow> write_export E m w1))
      else write_export E m w)"

definition setup_instructions :: "env \<Rightarrow> message \<Rightarrow> handler" where
  "setup_instructions E m w =
     (if m_chat_type m \<noteq> GROUP \<and> m_chat_type m \<noteq> SUPERGROUP then answer E m SetupNotInGroup w
      else case m_from_user m of
             None \<Rightarrow> (w, Some AttributeError)
           | Some (user_id, is_bot) \<Rightarrow>
               (case is_admin E (m_chat_id m) user_id w of
                  (w1, Inl e) \<Rightarrow> (w1, Some e)
                | (w1, Inr False) \<Rightarrow>
                    send_ephemeral_group_notice E (m_chat_id m) SetupAdminsOnly w1
                | (w1, Inr True) \<Rightarrow>
                    (case api E (SendMessage (m_chat_id m)
                                   (SetupInstructions (start_link_ok E (m_chat_id m)))) w1 of
                       (w2, None) \<Rightarrow> attempt E (PinChatMessage (m_chat_id m)) caught3 w2
                     | (w2, Some e) \<Rightarrow>
                         if e \<in> set caught3 then (w2, None)
                         else (w2, Some (TelegramError e)))))"

section \<open>Dispatch\<close>

text \<open>
  The framework offers an update to the handlers of its kind in the order of their
  registration and runs the first whose filters hold; an update that no handler takes
  changes nothing. The filter of the group guard comes first among the message
  handlers.
\<close>

definition current_state :: "world \<Rightarrow> message \<Rightarrow> reg_state option" where
  "current_state w m =
     (case m_from_user m of
        None \<Rightarrow> None
      | Some (user_id, is_bot) \<Rightarrow> s_state (fsm w (m_chat_id m, user_id)))"

definition message_key :: "message \<Rightarrow> int \<times> int" where
  "message_key m = (m_chat_id m, (case m_from_user m of None \<Rightarrow> 0 | Some (user_id, is_bot) \<Rightarrow> user_id))"

definition dispatch_message :: "env \<Rightarrow> message \<Rightarrow> handler" where
  "dispatch_message E m w =
     (if m_chat_type m = GROUP \<or> m_chat_type m = SUPERGROUP then guard_group_messages E m w
      else if m_command m = Some ''start'' then start E m w
      else if current_state w m = Some Reg_first_name then reg_first_name E (message_key m) m w
      else if current_state w m = Some Reg_last_name then reg_last_name E (message_key m) m w
      else if current_state w m = Some Reg_school_cls then reg_class E (message_key m) m w
      else if current_state w m = Some Reg_email then reg_email E (message_key m) m w
      else if m_command m = Some ''who'' \<and> m_chat_type m = PRIVATE then who_cmd_private E m w
      else if m_command m = Some ''remove'' \<and> m_chat_type m = PRIVATE then remove_cmd E m w
      else if m_command m = Some ''info'' then info_cmd E m w
      else if m_command m = Some ''export'' then export_csv E m w
      else if m_command m = Some ''setup_instructions'' then setup_instructions E m w
      else (w, None))"

definition dispatch_callback :: "env \<Rightarrow> callback_query \<Rightarrow> handler" where
  "dispatch_callback E cb w =
     (if s_state (fsm w (cb_chat_id cb, cb_from_user_id cb)) \<noteq> Some Reg_confirm then (w, None)
      else if cb_data cb = ''edit_first'' then edit_first E cb w
      else if cb_data cb = ''edit_last'' then edit_last E cb w
      else if cb_data cb = ''edit_cls'' then edit_cls E cb w
      else if cb_data cb = ''edit_email'' then edit_email E cb w
      else if cb_data cb = ''confirm'' then confirm E cb w
      else (w, None))"

definition dispatch_chat_member :: "env \<Rightarrow> chat_member_updated \<Rightarrow> handler" where
  "dispatch_chat_member E ev w =
     (if j_new_status ev = ''member'' then on_user_join E ev w else (w, None))"

fun dispatch :: "env \<Rightarrow> update \<Rightarrow> handler" where
  "dispatch E (MessageUpdate m) w = dispatch_message E m w"
| "dispatch E (CallbackUpdate cb) w = dispatch_callback E cb w"
| "dispatch E (ChatMemberUpdate ev) w = dispatch_chat_member E ev w"

text \<open>
  A run: the updates are handled one after the other, each with what the outside
  world holds at its time. An exception ends its handler only; the framework logs it
  and goes on with the next update.
\<close>

fun run :: "(env \<times> update) list \<Rightarrow> world \<Rightarrow> world" where
  "run [] w = w"
| "run ((E, u) # us) w = run us (fst (dispatch E u w))"

definition initial_world :: world where
  "initial_world =
     \<lparr>db = init_db empty_database,
      fsm = (\<lambda>key. \<lparr>s_state = None, s_data = Map.empty\<rparr>),
      NEED_DM_CACHE = (\<lambda>chat_id. {||}),
      LAST_NOTICE_AT = Map.empty,
      chat_perms = Map.empty,
      api_log = [],
      written_files = []\<rparr>"

section \<open>Concrete inputs\<close>

text \<open>
  Inputs for the examples below: tables that leave every code point they are asked
  about as it is, a platform that accepts every request, an environment at a given
  reading of the clock, a private text message that is no command (of any text, and
  of an ASCII text), a press on a button of the confirmation
  card, and texts of the clock.
\<close>

definition U_plain :: ucd where
  "U_plain = \<lparr>lower_at = (\<lambda>s i. [s ! i]), isdigit_cp = (\<lambda>c. False), int_nonascii = (\<lambda>s. None)\<rparr>"

definition accept_all :: "api_call \<Rightarrow> tg_error option" where
  "accept_all c = None"

definition E_at :: "pystr \<Rightarrow> env" where
  "E_at now =
     \<lparr>unicode = U_plain, ALLOWED_ADMINS = {}, telegram = accept_all,
      chat_member_status = (\<lambda>chat_id user_id. ''member''), start_link_ok = (\<lambda>chat_id. True),
      utcnow = now, time_time = 1700000000\<rparr>"

definition dm_text :: "int \<Rightarrow> pystr \<Rightarrow> message" where
  "dm_text user_id t =
     \<lparr>m_chat_type = PRIVATE, m_chat_id = user_id, m_from_user = Some (user_id, False),
      m_text = Some t, m_command = None\<rparr>"

definition dm :: "int \<Rightarrow> string \<Rightarrow> message" where
  "dm user_id t = dm_text user_id (ascii t)"

definition press :: "int \<Rightarrow> string \<Rightarrow> callback_query" where
  "press user_id d = \<lparr>cb_from_user_id = user_id, cb_chat_id = user_id, cb_data = d\<rparr>"

text \<open>
  A database in which user 1 is registered, and the context of user 2 at the
  confirmation card with the email of user 1.
\<close>

definition d_ivan :: database where
  "d_ivan =
     \<lparr>profiles =
        [\<lparr>p_user_id = 1, p_first_name = ascii ''Ivan'', p_last_name = ascii ''Petrov'',
          p_school_cls = ascii ''10B'', p_email = Some (ascii ''ivan.petrov@fizmat.kz''),
          p_created_at = ascii ''2024-05-01T10:00:00''\<rparr>],
      pending = [], idx_profiles_email_unique = True\<rparr>"

definition w_second_user :: world where
  "w_second_user =
     initial_world
       \<lparr>db := d_ivan,
        fsm := (fsm initial_world)
          ((2, 2) := \<lparr>s_state = Some Reg_confirm,
                      s_data = [''first_name'' \<mapsto> ascii ''Anna'', ''last_name'' \<mapsto> ascii ''Lee'',
                                ''school_cls'' \<mapsto> ascii ''9A'',
                                ''email'' \<mapsto> ascii ''ivan.petrov@fizmat.kz'']\<rparr>)\<rparr>"

definition t1 :: pystr where "t1 = ascii ''2024-05-01T10:00:00''"
definition t2 :: pystr where "t2 = ascii ''2024-05-01T10:05:00.250000''"
definition t3 :: pystr where "t3 = ascii ''2024-05-02T08:30:00''"

section \<open>Properties of the stored emails\<close>

text \<open>
  Two emails differ only in letter case when they are different strings with the same
  lowering. A database has its emails lowered when \<open>str.lower\<close> changes none of them.
\<close>

definition differ_only_in_case :: "ucd \<Rightarrow> pystr \<Rightarrow> pystr \<Rightarrow> bool" where
  "differ_only_in_case U a b \<longleftrightarrow> a \<noteq> b \<and> py_lower U a = py_lower U b"

definition emails_lowered :: "ucd \<Rightarrow> database \<Rightarrow> bool" where
  "emails_lowered U d \<longleftrightarrow> list_all (\<lambda>e. py_lower U e = e) (stored_emails d)"

section \<open>Properties of the pending table and of the requests\<close>

text \<open>
  The rows of a user, the primary key of the table, the requests made between two
  states, and those among them that set permissions.
\<close>

definition pending_of :: "int \<Rightarrow> database \<Rightarrow> pending_row list" where
  "pending_of user_id d = filter (\<lambda>r. q_user_id r = user_id) (pending d)"

definition pending_key_unique :: "database \<Rightarrow> bool" where
  "pending_key_unique d \<longleftrightarrow> distinct (map (\<lambda>r. (q_user_id r, q_chat_id r)) (pending d))"

definition new_calls :: "world \<Rightarrow> world \<Rightarrow> api_call list" where
  "new_calls w w' = map fst (drop (length (api_log w)) (api_log w'))"

fun is_restrict :: "api_call \<Rightarrow> bool" where
  "is_restrict (RestrictChatMember chat_id user_id perms) = True"
| "is_restrict _ = False"

definition restrict_calls :: "world \<Rightarrow> world \<Rightarrow> api_call list" where
  "restrict_calls w w' = filter is_restrict (new_calls w w')"

section \<open>More concrete inputs\<close>

text \<open>
  User 7 was seen unregistered in the chats \<open>-100\<close> and then \<open>-200\<close>, is muted in both,
  and is at the confirmation card with a valid form.
\<close>

definition d_two_pending :: database where
  "d_two_pending =
     \<lparr>profiles = [],
      pending =
        [\<lparr>q_user_id = 7, q_chat_id = - 100, q_created_at = ascii ''2024-05-01T10:00:00''\<rparr>,
         \<lparr>q_user_id = 7, q_chat_id = - 200, q_created_at = ascii ''2024-05-01T10:05:00.250000''\<rparr>],
      idx_profiles_email_unique = True\<rparr>"

definition ivan_form :: "string \<rightharpoonup> pystr" where
  "ivan_form =
     [''first_name'' \<mapsto> ascii ''Ivan'', ''last_name'' \<mapsto> ascii ''Petrov'',
      ''school_cls'' \<mapsto> ascii ''10B'', ''email'' \<mapsto> ascii ''ivan.petrov@fizmat.kz'']"

definition w_two_pending :: world where
  "w_two_pending =
     initial_world
       \<lparr>db := d_two_pending,
        fsm := (fsm initial_world)((7, 7) := \<lparr>s_state = Some Reg_confirm, s_data = ivan_form\<rparr>),
        chat_perms := [(- 100, 7) \<mapsto> locked_perms, (- 200, 7) \<mapsto> locked_perms]\<rparr>"

definition group_msg :: "int \<Rightarrow> int \<Rightarrow> string \<Rightarrow> message" where
  "group_msg chat_id user_id t =
     \<lparr>m_chat_type = SUPERGROUP, m_chat_id = chat_id, m_from_user = Some (user_id, False),
      m_text = Some (ascii t), m_command = None\<rparr>"

definition joined :: "int \<Rightarrow> int \<Rightarrow> chat_member_updated" where
  "joined chat_id user_id =
     \<lparr>j_chat_type = SUPERGROUP, j_chat_id = chat_id, j_user_id = user_id, j_is_bot = False,
      j_new_status = ''member''\<rparr>"

definition w_two_confirmed :: world where
  "w_two_confirmed = fst (confirm (E_at t3) (press 7 ''confirm'') w_two_pending)"

text \<open>
  The same user at the first step of the form, the five updates of the example with
  every request accepted, and the state they lead to.
\<close>

definition w_two_start :: world where
  "w_two_start =
     initial_world
       \<lparr>db := d_two_pending,
        fsm := (fsm initial_world)((7, 7) := \<lparr>s_state = Some Reg_first_name, s_data = Map.empty\<rparr>),
        chat_perms := [(- 100, 7) \<mapsto> locked_perms, (- 200, 7) \<mapsto> locked_perms]\<rparr>"

definition ivan_script :: "(env \<times> update) list" where
  "ivan_script =
     [(E_at t3, MessageUpdate (dm 7 ''Ivan'')), (E_at t3, MessageUpdate (dm 7 ''Petrov'')),
      (E_at t3, MessageUpdate (dm 7 ''10B'')),
      (E_at t3, MessageUpdate (dm 7 ''ivan.petrov@fizmat.kz'')),
      (E_at t3, CallbackUpdate (press 7 ''confirm''))]"

definition w_two_done :: world where
  "w_two_done = run ivan_script w_two_start"

text \<open>
  At the confirmation card the user chooses to change the first name and sends a new
  one; then, as the form asks, a last name, a class and an email.
\<close>

definition reenter_first :: "(env \<times> update) list" where
  "reenter_first =
     [(E_at t3, CallbackUpdate (press 7 ''edit_first'')), (E_at t3, MessageUpdate (dm 7 ''Iwan''))]"

definition reenter_rest :: "(env \<times> update) list" where
  "reenter_rest =
     [(E_at t3, MessageUpdate (dm 7 ''Sidorov'')), (E_at t3, MessageUpdate (dm 7 ''11A'')),
      (E_at t3, MessageUpdate (dm 7 ''iwan@fizmat.kz''))]"

text \<open>
  A private message that the command filter reads as the command \<open>name\<close>, the state
  in which only user 1 is registered, and a configuration whose allow-list holds user 1
  alone.
\<close>

definition cmd_msg :: "int \<Rightarrow> string \<Rightarrow> string \<Rightarrow> message" where
  "cmd_msg user_id name t = (dm user_id t)\<lparr>m_command := Some name\<rparr>"

definition w_ivan :: world where
  "w_ivan = initial_world\<lparr>db := d_ivan\<rparr>"

definition E_admin1 :: env where
  "E_admin1 = (E_at t3)\<lparr>ALLOWED_ADMINS := {1}\<rparr>"

section \<open>Properties of the throttle\<close>

text \<open>
  Between two states a group notice was requested in a chat; and the time recorded for
  the chat's last notice, zero when there is none, as the source reads it.
\<close>

definition noticed :: "int \<Rightarrow> world \<Rightarrow> world \<Rightarrow> bool" where
  "noticed chat_id w w' \<longleftrightarrow> SendMessage chat_id NeedDmNotice \<in> set (new_calls w w')"

definition last_notice :: "world \<Rightarrow> int \<Rightarrow> real" where
  "last_notice w chat_id = (case LAST_NOTICE_AT w chat_id of None \<Rightarrow> 0 | Some t \<Rightarrow> t)"

section \<open>Properties of a run\<close>

text \<open>
  The invariant of the form contexts: a context that is in some state belongs to the
  private chat of its user, and that user is not registered. The updates the platform
  delivers: a message comes from a group or from the private chat of its sender, whose
  identifier is the sender's; the buttons of the confirmation card are pressed in the
  private chat. An update is a \<open>/start\<close> of a user when it is a message outside the
  groups from that user that the command filter reads as \<open>start\<close>.
\<close>

definition form_inv :: "world \<Rightarrow> bool" where
  "form_inv w \<longleftrightarrow>
     (\<forall>chat_id user_id. s_state (fsm w (chat_id, user_id)) \<noteq> None \<longrightarrow>
        chat_id = user_id \<and> \<not> is_registered user_id (db w))"

fun wf_update :: "update \<Rightarrow> bool" where
  "wf_update (MessageUpdate m) =
     (m_chat_type m = GROUP \<or> m_chat_type m = SUPERGROUP
      \<or> (m_chat_type m = PRIVATE \<and> (\<exists>b. m_from_user m = Some (m_chat_id m, b))))"
| "wf_update (CallbackUpdate cb) = (cb_chat_id cb = cb_from_user_id cb)"
| "wf_update (ChatMemberUpdate ev) = True"

fun start_from :: "int \<Rightarrow> update \<Rightarrow> bool" where
  "start_from user_id (MessageUpdate m) =
     (m_chat_type m \<noteq> GROUP \<and> m_chat_type m \<noteq> SUPERGROUP \<and> m_command m = Some ''start''
      \<and> (\<exists>b. m_from_user m = Some (user_id, b)))"
| "start_from user_id _ = False"

text \<open>
  A handler only talked when, between the two states, it changed nothing of the
  database, the form contexts, the throttle or the permissions, and its requests held no
  group notice.
\<close>

definition talk_only :: "world \<Rightarrow> world \<Rightarrow> bool" where
  "talk_only w w' \<longleftrightarrow>
     db w' = db w \<and> fsm w' = fsm w \<and> NEED_DM_CACHE w' = NEED_DM_CACHE w
     \<and> LAST_NOTICE_AT w' = LAST_NOTICE_AT w \<and> chat_perms w' = chat_perms w
     \<and> (\<exists>xs. api_log w' = api_log w @ xs \<and> (\<forall>c. SendMessage c NeedDmNotice \<notin> fst ` set xs))"

fun plain_call :: "api_call \<Rightarrow> bool" where
  "plain_call (RestrictChatMember chat_id user_id perms) = False"
| "plain_call (SendMessage chat_id t) = (t \<noteq> NeedDmNotice)"
| "plain_call _ = True"

text \<open>
  User 7, registered by the confirmation above, sends \<open>/start\<close> again in the private
  chat.
\<close>

definition w_two_restarted :: world where
  "w_two_restarted =
     fst (dispatch (E_at t3) (MessageUpdate (cmd_msg 7 ''start'' ''/start'')) w_two_confirmed)"

text \<open>
  A platform on which no user accepts the bot's private invitation, an environment with
  that platform at a given clock time, and two messages in the group \<open>-100\<close> from
  unregistered users, thirty seconds apart.
\<close>

definition refuse_dm :: "api_call \<Rightarrow> tg_error option" where
  "refuse_dm c =
     (case c of SendMessage chat_id (DmFormInvite link) \<Rightarrow> Some TelegramForbiddenError
      | _ \<Rightarrow> None)"

definition E_closed :: "real \<Rightarrow> env" where
  "E_closed now = (E_at t3)\<lparr>telegram := refuse_dm, time_time := now\<rparr>"

definition w_noticed :: world where
  "w_noticed =
     fst (dispatch (E_closed 1700000000) (MessageUpdate (group_msg (- 100) 7 ''hello'')) initial_world)"

definition w_batched :: world where
  "w_batched =
     fst (dispatch (E_closed 1700000030) (MessageUpdate (group_msg (- 100) 8 ''hi'')) w_noticed)"

text \<open>
  User 7 opens the form with the payload \<open>verify_0\<close>, writes in the group \<open>-100\<close>, and
  then registers as in the example.
\<close>

definition zero_script :: "(env \<times> update) list" where
  "zero_script =
     [(E_at t1, MessageUpdate (cmd_msg 7 ''start'' ''/start verify_0'')),
      (E_at t2, MessageUpdate (group_msg (- 100) 7 ''hello''))] @ ivan_script"

definition w_zero_registered :: world where
  "w_zero_registered = run zero_script initial_world"

text \<open>
  A message in the private chat of a user that is not the command \<open>/start\<close>: while the
  form of the user is in the state of a field, the handler of that field takes it.
\<close>

definition private_from :: "int \<Rightarrow> message \<Rightarrow> bool" where
  "private_from user_id m \<longleftrightarrow>
     m_chat_type m = PRIVATE \<and> m_chat_id m = user_id
     \<and> (\<exists>b. m_from_user m = Some (user_id, b)) \<and> m_command m \<noteq> Some ''start''"
section \<open>What the requests and the steps change\<close>

text \<open>
  A request to the platform adds itself to the log and, when it is an accepted change of
  permissions, sets them; nothing else of the state moves.
\<close>

lemma api_effect [simp]:
  "db (fst (api E c w)) = db w"
  "fsm (fst (api E c w)) = fsm w"
  "NEED_DM_CACHE (fst (api E c w)) = NEED_DM_CACHE w"
  "LAST_NOTICE_AT (fst (api E c w)) = LAST_NOTICE_AT w"
  "written_files (fst (api E c w)) = written_files w"
  "api_log (fst (api E c w)) = api_log w @ [(c, telegram E c)]"
  "chat_perms (fst (api E c w)) = (if telegram E c = None then granted c (chat_perms w) else chat_perms w)"
  "snd (api E c w) = telegram E c"
  by (simp_all add: api_def Let_def)

lemma must_effect [simp]:
  "fst (must E c w) = fst (api E c w)"
  "snd (must E c w) = map_option TelegramError (telegram E c)"
  by (auto simp add: must_def api_def Let_def split: option.splits)

lemma attempt_effect [simp]:
  "fst (attempt E c cs w) = fst (api E c w)"
  "snd (attempt E c cs w) =
     (case telegram E c of None \<Rightarrow> None
      | Some e \<Rightarrow> if e \<in> set cs then None else Some (TelegramError e))"
  by (auto simp add: attempt_def api_def Let_def split: option.splits)

lemma pure_effect [simp]: "fst (pure f w) = f w" "snd (pure f w) = None"
  by (simp_all add: pure_def)

lemma run_steps_Nil_effect [simp]: "fst (run_steps [] w) = w" "snd (run_steps [] w) = None"
  by simp_all

lemma run_steps_Cons_effect [simp]:
  "fst (run_steps (f # fs) w) = (if snd (f w) = None then fst (run_steps fs (fst (f w))) else fst (f w))"
  "snd (run_steps (f # fs) w) = (if snd (f w) = None then snd (run_steps fs (fst (f w))) else snd (f w))"
  by (auto split: prod.splits option.splits)

declare run_steps.simps [simp del]

lemma answer_effect [simp]:
  "fst (answer E m t w) = fst (api E (SendMessage (m_chat_id m) t) w)"
  "snd (answer E m t w) = map_option TelegramError (telegram E (SendMessage (m_chat_id m) t))"
  by (simp_all add: answer_def)

lemma unlock_effect [simp]:
  "fst (unlock_user_in_chat E c u w) =
     (if telegram E (RestrictChatMember c u open_perms) = None
      then fst (api E (SendMessage c (UserAllowed u)) (fst (api E (RestrictChatMember c u open_perms) w)))
      else fst (api E (RestrictChatMember c u open_perms) w))"
  "snd (unlock_user_in_chat E c u w) =
     (case telegram E (RestrictChatMember c u open_perms) of
        None \<Rightarrow> (case telegram E (SendMessage c (UserAllowed u)) of None \<Rightarrow> None
                  | Some e \<Rightarrow> if e \<in> set caught3 then None else Some (TelegramError e))
      | Some e \<Rightarrow> if e \<in> set caught3 then None else Some (TelegramError e))"
  by (auto simp add: unlock_user_in_chat_def split: prod.splits option.splits)
     (auto simp add: api_def attempt_def Let_def split: option.splits)

section \<open>The pending table\<close>

lemma latest_None [simp]: "latest rs = None \<longleftrightarrow> rs = []"
  by (induction rs) (auto split: option.splits)

lemma latest_Some:
  "latest rs = Some m \<Longrightarrow> m \<in> set rs \<and> (\<forall>r \<in> set rs. q_created_at r \<le> q_created_at m)"
proof (induction rs arbitrary: m)
  case Nil
  then show ?case by simp
next
  case (Cons a rs)
  then show ?case
    by (fastforce split: option.splits if_splits)
qed

lemma filter_key_remove1:
  assumes "distinct (map (\<lambda>r. (q_user_id r, q_chat_id r)) rs)" and "row \<in> set rs"
  shows "filter (\<lambda>r. \<not> (q_user_id r = q_user_id row \<and> q_chat_id r = q_chat_id row)) rs = remove1 row rs"
  using assms
proof (induction rs)
  case Nil
  then show ?case by simp
next
  case (Cons a rs)
  show ?case
  proof (cases "a = row")
    case True
    have "filter (\<lambda>r. \<not> (q_user_id r = q_user_id row \<and> q_chat_id r = q_chat_id row)) rs = rs"
      using Cons.prems True by (intro filter_True) (force simp add: image_iff)
    with True show ?thesis by simp
  next
    case False
    with Cons show ?thesis by (auto simp add: image_iff)
  qed
qed

lemma consume_pending_Some:
  assumes "consume_pending uid d = (d', Some c)" and pk: "pending_key_unique d"
  shows "\<exists>row \<in> set (pending_of uid d).
           q_chat_id row = c
           \<and> (\<forall>r \<in> set (pending_of uid d). q_created_at r \<le> q_created_at row)
           \<and> d' = d\<lparr>pending := remove1 row (pending d)\<rparr>"
proof -
  from assms(1) obtain row where
    l: "latest (pending_of uid d) = Some row" and c: "q_chat_id row = c"
    and d': "d' = d\<lparr>pending := filter (\<lambda>r. \<not> (q_user_id r = uid \<and> q_chat_id r = q_chat_id row)) (pending d)\<rparr>"
    by (auto simp add: consume_pending_def pending_of_def split: option.splits)
  from latest_Some[OF l] have mem: "row \<in> set (pending_of uid d)"
    and mx: "\<forall>r \<in> set (pending_of uid d). q_created_at r \<le> q_created_at row" by auto
  from mem have u: "q_user_id row = uid" and mem': "row \<in> set (pending d)"
    by (auto simp add: pending_of_def)
  have "d' = d\<lparr>pending := remove1 row (pending d)\<rparr>"
    using filter_key_remove1[OF pk[unfolded pending_key_unique_def] mem'] d' u by simp
  with mem mx c show ?thesis by blast
qed

lemma consume_pending_None:
  "consume_pending uid d = (d', None) \<Longrightarrow> d' = d \<and> pending_of uid d = []"
  by (auto simp add: consume_pending_def pending_of_def split: option.splits)

lemma consume_pending_nonempty:
  "pending_of uid d \<noteq> [] \<Longrightarrow> \<exists>d' c. consume_pending uid d = (d', Some c)"
  by (auto simp add: consume_pending_def pending_of_def split: option.splits)

section \<open>Email validation\<close>

lemmas email_eval =
  is_valid_fizmat_email_def ascii_def py_strip_def py_isspace_def py_lower_def lower_cp_def
  FIZMAT_EMAIL_RE_def ic_variants_def sre_unlower_def in_ranges_def sre_lower_def sre_fixes_def

text \<open>
  C3. The claim: a string is accepted exactly when, trimmed, it is a local part of
  letters, digits and \<open>. _ % + -\<close> followed by \<open>@fizmat.kz\<close>, case-insensitively. The
  code accepts more: under \<open>re.IGNORECASE\<close> a \<open>str\<close> pattern lets U+0131 (dotless i)
  stand for \<open>i\<close>, and \<open>str.lower\<close> leaves U+0131 as it is. So an address whose domain is
  spelled with a dotless i is accepted, and so is a local part that is a dotless i,
  whatever the remaining Unicode tables say.
\<close>

theorem dotless_i_domain_accepted:
  "is_valid_fizmat_email U (ascii ''a@f'' @ [0x131] @ ascii ''zmat.kz'')
   \<and> is_valid_fizmat_email U ([0x131] @ ascii ''@fizmat.kz'')"
  by (simp add: email_eval)

section \<open>The email step\<close>

text \<open>
  C7. In the email state, an input that fails the validation makes \<open>reg_email\<close> send
  the re-prompt and nothing else: the state is still the email state, the collected
  values are the same, the database is the same. The handler raises nothing of its own;
  its outcome is the platform's answer to the re-prompt.
\<close>

theorem reg_email_invalid_reprompts:
  assumes "s_state (fsm w key) = Some Reg_email"
    and "\<not> is_valid_fizmat_email (unicode E) (py_lower (unicode E) (py_strip (text_or_empty m)))"
  shows "fst (reg_email E key m w) =
           w\<lparr>api_log := api_log w @ [(SendMessage (m_chat_id m) InvalidEmailFormat,
                                       telegram E (SendMessage (m_chat_id m) InvalidEmailFormat))]\<rparr>
         \<and> s_state (fsm (fst (reg_email E key m w)) key) = Some Reg_email
         \<and> s_data (fsm (fst (reg_email E key m w)) key) = s_data (fsm w key)
         \<and> db (fst (reg_email E key m w)) = db w
         \<and> snd (reg_email E key m w) =
             map_option TelegramError (telegram E (SendMessage (m_chat_id m) InvalidEmailFormat))"
  using assms
  by (auto simp add: reg_email_def answer_def must_def api_def Let_def split: option.splits)

theorem reg_email_invalid_reprompts_witness:
  "s_state (fsm (set_state (5, 5) (Some Reg_email) initial_world) (5, 5)) = Some Reg_email
   \<and> \<not> is_valid_fizmat_email (unicode (E_at t1))
         (py_lower (unicode (E_at t1)) (py_strip (text_or_empty (dm 5 ''ivan@gmail.com''))))
   \<and> s_state (fsm (fst (reg_email (E_at t1) (5, 5) (dm 5 ''ivan@gmail.com'')
         (set_state (5, 5) (Some Reg_email) initial_world))) (5, 5)) = Some Reg_email
   \<and> snd (reg_email (E_at t1) (5, 5) (dm 5 ''ivan@gmail.com'')
         (set_state (5, 5) (Some Reg_email) initial_world)) = None"
proof -
  have h1: "s_state (fsm (set_state (5, 5) (Some Reg_email) initial_world) (5, 5)) = Some Reg_email"
    by (simp add: set_state_def initial_world_def)
  have h2: "\<not> is_valid_fizmat_email (unicode (E_at t1))
         (py_lower (unicode (E_at t1)) (py_strip (text_or_empty (dm 5 ''ivan@gmail.com''))))"
    by (simp add: E_at_def U_plain_def dm_def dm_text_def text_or_empty_def email_eval)
  from reg_email_invalid_reprompts[OF h1 h2] h1 h2 show ?thesis
    by (simp add: E_at_def accept_all_def)
qed

section \<open>Saving a profile\<close>

lemma find_upsert_profile:
  "p_user_id row = uid \<Longrightarrow> find (\<lambda>r. p_user_id r = uid) (upsert_profile row rs) = Some row"
proof (induction rs)
  case Nil
  then show ?case by (simp add: upsert_profile_def)
next
  case (Cons a rs)
  then show ?case
    by (auto simp add: upsert_profile_def list_ex_iff find_None_iff split: if_splits)
qed

lemma set_upsert_profile: "set (upsert_profile row rs) \<subseteq> insert row (set rs)"
  by (auto simp add: upsert_profile_def)

lemma set_stored_emails:
  "set (stored_emails d) = {e. \<exists>r \<in> set (profiles d). p_email r = Some e}"
  by (force simp add: stored_emails_def List.map_filter_def image_iff)

lemma save_profile_Inr:
  assumes "save_profile U now uid fnm lnm cls em d = Inr d'"
  shows "d' = d\<lparr>profiles := upsert_profile
               \<lparr>p_user_id = uid, p_first_name = py_strip fnm,
                p_last_name = py_strip lnm, p_school_cls = py_strip cls,
                p_email = Some (py_lower U (py_strip em)), p_created_at = now\<rparr>
               (profiles d)\<rparr>"
    and "is_valid_fizmat_email U (py_lower U (py_strip em))"
    and "\<not> (idx_profiles_email_unique d \<and> email_taken uid (py_lower U (py_strip em)) d)"
  using assms by (auto simp add: save_profile_def Let_def split: if_splits)

text \<open>
  C10. When \<open>save_profile\<close> succeeds, the row of the user holds the three names
  stripped, the email stripped and lowered, and the time of the call. If lowering the
  lowered email changes nothing (as holds of \<open>str.lower\<close>) and the database had its
  emails lowered, it still has, and then no two stored emails differ only in letter
  case.
\<close>

theorem save_profile_stores_normalised:
  assumes saved: "save_profile U now uid fnm lnm cls em d = Inr d'"
    and idem: "py_lower U (py_lower U (py_strip em)) = py_lower U (py_strip em)"
    and low: "emails_lowered U d"
  shows "get_profile_row uid d' =
           Some \<lparr>p_user_id = uid, p_first_name = py_strip fnm, p_last_name = py_strip lnm,
                 p_school_cls = py_strip cls, p_email = Some (py_lower U (py_strip em)),
                 p_created_at = now\<rparr>
         \<and> emails_lowered U d'
         \<and> (\<forall>a \<in> set (stored_emails d'). \<forall>b \<in> set (stored_emails d').
               \<not> differ_only_in_case U a b)"
proof -
  let ?row = "\<lparr>p_user_id = uid, p_first_name = py_strip fnm, p_last_name = py_strip lnm,
                 p_school_cls = py_strip cls, p_email = Some (py_lower U (py_strip em)),
                 p_created_at = now\<rparr>"
  have d': "profiles d' = upsert_profile ?row (profiles d)"
    using save_profile_Inr(1)[OF saved] by simp
  have row: "get_profile_row uid d' = Some ?row"
    by (simp add: get_profile_row_def d' find_upsert_profile)
  have sub: "set (stored_emails d') \<subseteq> insert (py_lower U (py_strip em)) (set (stored_emails d))"
    using set_upsert_profile[of ?row "profiles d"] by (auto simp add: set_stored_emails d')
  have low': "emails_lowered U d'"
    using low idem sub by (auto simp add: emails_lowered_def list_all_iff)
  have "\<not> differ_only_in_case U a b"
    if "a \<in> set (stored_emails d')" "b \<in> set (stored_emails d')" for a b
    using that low' by (auto simp add: emails_lowered_def list_all_iff differ_only_in_case_def)
  with row low' show ?thesis by blast
qed

lemma save_anna:
  "save_profile U_plain t2 2 (ascii '' Anna '') (ascii ''Lee'') (ascii ''9A'')
     (ascii '' Anna.Lee@Fizmat.KZ '') d_ivan
   = Inr (d_ivan\<lparr>profiles := profiles d_ivan @
            [\<lparr>p_user_id = 2, p_first_name = ascii ''Anna'', p_last_name = ascii ''Lee'',
              p_school_cls = ascii ''9A'', p_email = Some (ascii ''anna.lee@fizmat.kz''),
              p_created_at = t2\<rparr>]\<rparr>)"
  by (simp add: save_profile_def d_ivan_def email_eval email_taken_def upsert_profile_def
      Let_def U_plain_def)

theorem save_profile_stores_normalised_witness:
  "save_profile U_plain t2 2 (ascii '' Anna '') (ascii ''Lee'') (ascii ''9A'')
     (ascii '' Anna.Lee@Fizmat.KZ '') d_ivan
   = Inr (d_ivan\<lparr>profiles := profiles d_ivan @
            [\<lparr>p_user_id = 2, p_first_name = ascii ''Anna'', p_last_name = ascii ''Lee'',
              p_school_cls = ascii ''9A'', p_email = Some (ascii ''anna.lee@fizmat.kz''),
              p_created_at = t2\<rparr>]\<rparr>)
   \<and> emails_lowered U_plain d_ivan
   \<and> get_profile_row 2
        (d_ivan\<lparr>profiles := profiles d_ivan @
            [\<lparr>p_user_id = 2, p_first_name = ascii ''Anna'', p_last_name = ascii ''Lee'',
              p_school_cls = ascii ''9A'', p_email = Some (ascii ''anna.lee@fizmat.kz''),
              p_created_at = t2\<rparr>]\<rparr>)
      = Some \<lparr>p_user_id = 2, p_first_name = ascii ''Anna'', p_last_name = ascii ''Lee'',
              p_school_cls = ascii ''9A'', p_email = Some (ascii ''anna.lee@fizmat.kz''),
              p_created_at = t2\<rparr>
   \<and> \<not> differ_only_in_case U_plain (ascii ''ivan.petrov@fizmat.kz'') (ascii ''anna.lee@fizmat.kz'')"
proof -
  have h2: "py_lower U_plain (py_lower U_plain (py_strip (ascii '' Anna.Lee@Fizmat.KZ '')))
            = py_lower U_plain (py_strip (ascii '' Anna.Lee@Fizmat.KZ ''))"
    by (simp add: email_eval U_plain_def)
  have h3: "emails_lowered U_plain d_ivan"
    by (simp add: emails_lowered_def stored_emails_def d_ivan_def email_eval U_plain_def)
  have e1: "ascii ''ivan.petrov@fizmat.kz'' \<in> set (stored_emails
        (d_ivan\<lparr>profiles := profiles d_ivan @
            [\<lparr>p_user_id = 2, p_first_name = ascii ''Anna'', p_last_name = ascii ''Lee'',
              p_school_cls = ascii ''9A'', p_email = Some (ascii ''anna.lee@fizmat.kz''),
              p_created_at = t2\<rparr>]\<rparr>))"
    by (simp add: set_stored_emails d_ivan_def)
  have e2: "ascii ''anna.lee@fizmat.kz'' \<in> set (stored_emails
        (d_ivan\<lparr>profiles := profiles d_ivan @
            [\<lparr>p_user_id = 2, p_first_name = ascii ''Anna'', p_last_name = ascii ''Lee'',
              p_school_cls = ascii ''9A'', p_email = Some (ascii ''anna.lee@fizmat.kz''),
              p_created_at = t2\<rparr>]\<rparr>))"
    by (simp add: set_stored_emails d_ivan_def)
  from save_profile_stores_normalised[OF save_anna h2 h3] e1 e2 save_anna h3
  show ?thesis
    by (simp add: email_eval)
qed

section \<open>Confirming with an email that is taken\<close>

text \<open>
  C1. User 1 is registered with \<open>ivan.petrov@fizmat.kz\<close>; user 2 is at the confirmation
  card with the same email and presses confirm. \<open>save_profile\<close> raises
  \<open>IntegrityError\<close>, which is not a \<open>ValueError\<close>: \<open>confirm\<close> ends with that exception,
  sends nothing, and leaves the database and the context as they were, the state still
  the confirmation state and not the email state.
\<close>

theorem confirm_duplicate_email_raises:
  "confirm (E_at t2) (press 2 ''confirm'') w_second_user = (w_second_user, Some IntegrityError)
   \<and> s_state (fsm w_second_user (2, 2)) = Some Reg_confirm
   \<and> get_profile_row 1 (db w_second_user) =
       Some \<lparr>p_user_id = 1, p_first_name = ascii ''Ivan'', p_last_name = ascii ''Petrov'',
             p_school_cls = ascii ''10B'', p_email = Some (ascii ''ivan.petrov@fizmat.kz''),
             p_created_at = ascii ''2024-05-01T10:00:00''\<rparr>"
  by (simp add: confirm_def press_def w_second_user_def initial_world_def get_data_def
      dict_get_def save_profile_def E_at_def U_plain_def d_ivan_def email_taken_def
      get_profile_row_def email_eval)

section \<open>Confirmation\<close>

lemma map_ids_replace:
  "map p_user_id (map (\<lambda>r. if p_user_id r = p_user_id row then row else r) rs) = map p_user_id rs"
  by (induction rs) auto

lemma is_registered_ids: "is_registered u d \<longleftrightarrow> u \<in> set (map p_user_id (profiles d))"
  by (auto simp add: is_registered_def list_ex_iff)

lemma is_registered_upsert:
  "is_registered u (d\<lparr>profiles := upsert_profile row (profiles d)\<rparr>)
     \<longleftrightarrow> u = p_user_id row \<or> is_registered u d"
proof (cases "list_ex (\<lambda>r. p_user_id r = p_user_id row) (profiles d)")
  case True
  then obtain r where "r \<in> set (profiles d)" and "p_user_id r = p_user_id row"
    by (auto simp add: list_ex_iff)
  then have "p_user_id row \<in> p_user_id ` set (profiles d)"
    by (metis imageI)
  then have "p_user_id row \<in> set (map p_user_id (profiles d))"
    by simp
  moreover from True have "map p_user_id (upsert_profile row (profiles d)) = map p_user_id (profiles d)"
    unfolding upsert_profile_def by (simp only: if_True map_ids_replace)
  ultimately show ?thesis
    unfolding is_registered_ids by auto
next
  case False
  then show ?thesis
    unfolding is_registered_ids by (auto simp add: upsert_profile_def)
qed

lemma save_profile_registers:
  assumes "save_profile U now uid fnm lnm cls em d = Inr d'"
  shows "is_registered u d' \<longleftrightarrow> u = uid \<or> is_registered u d" and "pending d' = pending d"
  using save_profile_Inr(1)[OF assms] by (simp_all add: is_registered_upsert)

lemma new_calls_append:
  "api_log w' = api_log w @ xs \<Longrightarrow> new_calls w w' = map fst xs"
  by (simp add: new_calls_def)


lemma confirm_saved_eq:
  assumes saved: "save_profile (unicode E) (utcnow E) (cb_from_user_id cb)
            (dict_get (s_data (fsm w (cb_chat_id cb, cb_from_user_id cb))) ''first_name'' [])
            (dict_get (s_data (fsm w (cb_chat_id cb, cb_from_user_id cb))) ''last_name'' [])
            (dict_get (s_data (fsm w (cb_chat_id cb, cb_from_user_id cb))) ''school_cls'' [])
            (dict_get (s_data (fsm w (cb_chat_id cb, cb_from_user_id cb))) ''email'' [])
            (db w) = Inr d"
    and cons: "consume_pending (cb_from_user_id cb) d = (d', chat)"
  shows "confirm E cb w =
           (case truthy chat of
              Some chat_id \<Rightarrow>
                run_steps
                  [unlock_user_in_chat E chat_id (cb_from_user_id cb),
                   must E (SendMessage (cb_chat_id cb) DoneUnlocked),
                   must E (AnswerCallbackQuery (cb_from_user_id cb))]
                  (clear (cb_chat_id cb, cb_from_user_id cb) (w\<lparr>db := d'\<rparr>))
            | None \<Rightarrow>
                run_steps
                  [must E (SendMessage (cb_chat_id cb) DoneNoChat),
                   must E (AnswerCallbackQuery (cb_from_user_id cb))]
                  (clear (cb_chat_id cb, cb_from_user_id cb) (w\<lparr>db := d'\<rparr>)))"
  by (simp add: confirm_def get_data_def Let_def saved cons)

lemma confirm_saved:
  assumes saved: "save_profile (unicode E) (utcnow E) (cb_from_user_id cb)
            (dict_get (s_data (fsm w (cb_chat_id cb, cb_from_user_id cb))) ''first_name'' [])
            (dict_get (s_data (fsm w (cb_chat_id cb, cb_from_user_id cb))) ''last_name'' [])
            (dict_get (s_data (fsm w (cb_chat_id cb, cb_from_user_id cb))) ''school_cls'' [])
            (dict_get (s_data (fsm w (cb_chat_id cb, cb_from_user_id cb))) ''email'' [])
            (db w) = Inr d"
    and cons: "consume_pending (cb_from_user_id cb) d = (d', chat)"
  shows "db (fst (confirm E cb w)) = d'"
    and "fsm (fst (confirm E cb w)) =
           (fsm w)((cb_chat_id cb, cb_from_user_id cb) := \<lparr>s_state = None, s_data = Map.empty\<rparr>)"
    and "restrict_calls w (fst (confirm E cb w)) =
           (case truthy chat of None \<Rightarrow> []
            | Some c \<Rightarrow> [RestrictChatMember c (cb_from_user_id cb) open_perms])"
    and "chat_perms (fst (confirm E cb w)) =
           (case truthy chat of None \<Rightarrow> chat_perms w
            | Some c \<Rightarrow>
                if telegram E (RestrictChatMember c (cb_from_user_id cb) open_perms) = None
                then (chat_perms w)((c, cb_from_user_id cb) \<mapsto> open_perms) else chat_perms w)"
proof -
  note eq = confirm_saved_eq[OF saved cons]
  show "db (fst (confirm E cb w)) = d'"
    by (cases "truthy chat") (simp_all add: eq clear_def)
  show "fsm (fst (confirm E cb w)) =
           (fsm w)((cb_chat_id cb, cb_from_user_id cb) := \<lparr>s_state = None, s_data = Map.empty\<rparr>)"
    by (cases "truthy chat") (simp_all add: eq clear_def)
  show "restrict_calls w (fst (confirm E cb w)) =
           (case truthy chat of None \<Rightarrow> []
            | Some c \<Rightarrow> [RestrictChatMember c (cb_from_user_id cb) open_perms])"
    by (cases "truthy chat") (simp_all add: eq clear_def restrict_calls_def new_calls_def)
  show "chat_perms (fst (confirm E cb w)) =
           (case truthy chat of None \<Rightarrow> chat_perms w
            | Some c \<Rightarrow>
                if telegram E (RestrictChatMember c (cb_from_user_id cb) open_perms) = None
                then (chat_perms w)((c, cb_from_user_id cb) \<mapsto> open_perms) else chat_perms w)"
    by (cases "truthy chat") (simp_all add: eq clear_def)
qed

lemma consume_pending_profiles:
  "consume_pending uid d = (d', chat) \<Longrightarrow> profiles d' = profiles d"
  by (auto simp add: consume_pending_def split: option.splits)

lemma is_registered_cong: "profiles d' = profiles d \<Longrightarrow> is_registered u d' = is_registered u d"
  by (simp add: is_registered_def)

lemma guard_registered:
  "m_from_user m = Some (uid, b) \<Longrightarrow> is_registered uid (db w) \<Longrightarrow> guard_group_messages E m w = (w, None)"
  by (simp add: guard_group_messages_def)

lemma on_user_join_registered:
  "is_registered (j_user_id ev) (db w) \<Longrightarrow> on_user_join E ev w = (w, None)"
  by (simp add: on_user_join_def)

lemma pending_of_remove1:
  "q_user_id row = uid \<Longrightarrow>
   pending_of uid (d\<lparr>pending := remove1 row (pending d)\<rparr>) = remove1 row (pending_of uid d)"
  by (simp add: pending_of_def filter_remove1)

lemma confirm_success:
  assumes uid: "uid = cb_from_user_id cb"
    and data: "data = s_data (fsm w (cb_chat_id cb, uid))"
    and saved: "save_profile (unicode E) (utcnow E) uid
                  (dict_get data ''first_name'' []) (dict_get data ''last_name'' [])
                  (dict_get data ''school_cls'' []) (dict_get data ''email'' []) (db w) = Inr d"
    and pk: "pending_key_unique (db w)"
    and nz: "\<forall>r \<in> set (pending_of uid (db w)). q_chat_id r \<noteq> 0"
    and ne: "pending_of uid (db w) \<noteq> []"
    and w': "w' = fst (confirm E cb w)"
  shows "\<exists>row \<in> set (pending_of uid (db w)).
           (\<forall>r \<in> set (pending_of uid (db w)). q_created_at r \<le> q_created_at row)
           \<and> pending (db w') = remove1 row (pending (db w))
           \<and> length (pending_of uid (db w')) + 1 = length (pending_of uid (db w))
           \<and> restrict_calls w w' = [RestrictChatMember (q_chat_id row) uid open_perms]
           \<and> (telegram E (RestrictChatMember (q_chat_id row) uid open_perms) = None
                \<longrightarrow> chat_perms w' (q_chat_id row, uid) = Some open_perms)
           \<and> (\<forall>c. c \<noteq> q_chat_id row \<longrightarrow> chat_perms w' (c, uid) = chat_perms w (c, uid))
           \<and> (\<forall>E' m b. m_from_user m = Some (uid, b) \<longrightarrow> guard_group_messages E' m w' = (w', None))
           \<and> (\<forall>E' ev. j_user_id ev = uid \<longrightarrow> on_user_join E' ev w' = (w', None))"
    and "profiles (db w') = profiles d"
proof -
  have pd: "pending d = pending (db w)" and reg: "is_registered uid d"
    using save_profile_registers[OF saved] by simp_all
  have pof: "pending_of uid d = pending_of uid (db w)"
    by (simp add: pending_of_def pd)
  from ne pof obtain d' c where cons: "consume_pending uid d = (d', Some c)"
    using consume_pending_nonempty[of uid d] by auto
  have pk': "pending_key_unique d"
    using pk by (simp add: pending_key_unique_def pd)
  from consume_pending_Some[OF cons pk'] obtain row where
    mem: "row \<in> set (pending_of uid (db w))" and c: "q_chat_id row = c"
    and mx: "\<forall>r \<in> set (pending_of uid (db w)). q_created_at r \<le> q_created_at row"
    and d': "d' = d\<lparr>pending := remove1 row (pending d)\<rparr>"
    unfolding pof by blast
  from mem have ru: "q_user_id row = uid" by (simp add: pending_of_def)
  from nz mem c have cnz: "c \<noteq> 0" by auto
  then have tr: "truthy (Some c) = Some c" by (simp add: truthy_def)
  note cs = confirm_saved[OF saved[unfolded data uid] cons[unfolded uid], folded uid, unfolded tr]
  have dbw': "db w' = d'" using cs(1) w' by simp
  have p1: "pending (db w') = remove1 row (pending (db w))"
    by (simp add: dbw' d' pd)
  have "pending_of uid (db w') = remove1 row (pending_of uid (db w))"
    using pending_of_remove1[OF ru, of d] by (simp add: dbw' d' pof)
  moreover from mem have "0 < length (pending_of uid (db w))"
    by (cases "pending_of uid (db w)") auto
  ultimately have p2: "length (pending_of uid (db w')) + 1 = length (pending_of uid (db w))"
    using mem by (simp add: length_remove1)
  have p3: "restrict_calls w w' = [RestrictChatMember (q_chat_id row) uid open_perms]"
    using cs(3) w' c by simp
  have p4: "telegram E (RestrictChatMember (q_chat_id row) uid open_perms) = None
                \<longrightarrow> chat_perms w' (q_chat_id row, uid) = Some open_perms"
    using cs(4) w' c by simp
  have p5: "\<forall>c'. c' \<noteq> q_chat_id row \<longrightarrow> chat_perms w' (c', uid) = chat_perms w (c', uid)"
    using cs(4) w' c by simp
  have reg': "is_registered uid (db w')"
    using reg consume_pending_profiles[OF cons] by (simp add: dbw' is_registered_def)
  have p6: "\<forall>E' m b. m_from_user m = Some (uid, b) \<longrightarrow> guard_group_messages E' m w' = (w', None)"
    using guard_registered reg' by blast
  have p7: "\<forall>E' ev. j_user_id ev = uid \<longrightarrow> on_user_join E' ev w' = (w', None)"
    using on_user_join_registered reg' by blast
  show "\<exists>row \<in> set (pending_of uid (db w)).
           (\<forall>r \<in> set (pending_of uid (db w)). q_created_at r \<le> q_created_at row)
           \<and> pending (db w') = remove1 row (pending (db w))
           \<and> length (pending_of uid (db w')) + 1 = length (pending_of uid (db w))
           \<and> restrict_calls w w' = [RestrictChatMember (q_chat_id row) uid open_perms]
           \<and> (telegram E (RestrictChatMember (q_chat_id row) uid open_perms) = None
                \<longrightarrow> chat_perms w' (q_chat_id row, uid) = Some open_perms)
           \<and> (\<forall>c. c \<noteq> q_chat_id row \<longrightarrow> chat_perms w' (c, uid) = chat_perms w (c, uid))
           \<and> (\<forall>E' m b. m_from_user m = Some (uid, b) \<longrightarrow> guard_group_messages E' m w' = (w', None))
           \<and> (\<forall>E' ev. j_user_id ev = uid \<longrightarrow> on_user_join E' ev w' = (w', None))"
    by (rule bexI[OF _ mem]) (intro conjI mx p1 p2 p3 p4 p5 p6 p7)
  show "profiles (db w') = profiles d"
    using consume_pending_profiles[OF cons] by (simp add: dbw')
qed

text \<open>
  C2, as amended. A user has pending entries in distinct chats (the table's key), none
  with the chat identifier zero, and the confirmation succeeds. Then one entry is
  consumed, one whose \<open>created_at\<close> is greatest among the user's; every other entry is
  still there. The only change of permissions requested is the opening of that chat;
  the platform's permissions of the user in every other chat are as before. Being
  observed again does not change this: for the now registered user the group guard and
  the join handler return at once, so the remaining entries stay and the remaining
  chats stay locked.
\<close>

theorem confirm_consumes_latest_only:
  assumes uid: "uid = cb_from_user_id cb"
    and data: "data = s_data (fsm w (cb_chat_id cb, uid))"
    and saved: "save_profile (unicode E) (utcnow E) uid
                  (dict_get data ''first_name'' []) (dict_get data ''last_name'' [])
                  (dict_get data ''school_cls'' []) (dict_get data ''email'' []) (db w) = Inr d"
    and pk: "pending_key_unique (db w)"
    and nz: "\<forall>r \<in> set (pending_of uid (db w)). q_chat_id r \<noteq> 0"
    and ne: "pending_of uid (db w) \<noteq> []"
    and w': "w' = fst (confirm E cb w)"
  shows "\<exists>row \<in> set (pending_of uid (db w)).
           (\<forall>r \<in> set (pending_of uid (db w)). q_created_at r \<le> q_created_at row)
           \<and> pending (db w') = remove1 row (pending (db w))
           \<and> length (pending_of uid (db w')) + 1 = length (pending_of uid (db w))
           \<and> restrict_calls w w' = [RestrictChatMember (q_chat_id row) uid open_perms]
           \<and> (telegram E (RestrictChatMember (q_chat_id row) uid open_perms) = None
                \<longrightarrow> chat_perms w' (q_chat_id row, uid) = Some open_perms)
           \<and> (\<forall>c. c \<noteq> q_chat_id row \<longrightarrow> chat_perms w' (c, uid) = chat_perms w (c, uid))
           \<and> (\<forall>E' m b. m_from_user m = Some (uid, b) \<longrightarrow> guard_group_messages E' m w' = (w', None))
           \<and> (\<forall>E' ev. j_user_id ev = uid \<longrightarrow> on_user_join E' ev w' = (w', None))"
  using confirm_success(1)[OF assms] .


lemmas demo_defs = E_at_def U_plain_def accept_all_def dm_def dm_text_def press_def t1_def t2_def t3_def
  group_msg_def joined_def

lemma two_pending_saved:
  "save_profile (unicode (E_at t3)) (utcnow (E_at t3)) 7
     (dict_get (s_data (fsm w_two_pending (cb_chat_id (press 7 ''confirm''), 7))) ''first_name'' [])
     (dict_get (s_data (fsm w_two_pending (cb_chat_id (press 7 ''confirm''), 7))) ''last_name'' [])
     (dict_get (s_data (fsm w_two_pending (cb_chat_id (press 7 ''confirm''), 7))) ''school_cls'' [])
     (dict_get (s_data (fsm w_two_pending (cb_chat_id (press 7 ''confirm''), 7))) ''email'' [])
     (db w_two_pending)
   = Inr (d_two_pending\<lparr>profiles :=
        [\<lparr>p_user_id = 7, p_first_name = ascii ''Ivan'', p_last_name = ascii ''Petrov'',
          p_school_cls = ascii ''10B'', p_email = Some (ascii ''ivan.petrov@fizmat.kz''),
          p_created_at = t3\<rparr>]\<rparr>)"
  by (simp add: w_two_pending_def d_two_pending_def ivan_form_def dict_get_def save_profile_def
      email_taken_def upsert_profile_def demo_defs email_eval)

lemma two_pending_consumed:
  "consume_pending 7 (d_two_pending\<lparr>profiles :=
        [\<lparr>p_user_id = 7, p_first_name = ascii ''Ivan'', p_last_name = ascii ''Petrov'',
          p_school_cls = ascii ''10B'', p_email = Some (ascii ''ivan.petrov@fizmat.kz''),
          p_created_at = t3\<rparr>]\<rparr>)
   = (d_two_pending\<lparr>profiles :=
        [\<lparr>p_user_id = 7, p_first_name = ascii ''Ivan'', p_last_name = ascii ''Petrov'',
          p_school_cls = ascii ''10B'', p_email = Some (ascii ''ivan.petrov@fizmat.kz''),
          p_created_at = t3\<rparr>],
        pending := [\<lparr>q_user_id = 7, q_chat_id = - 100, q_created_at = ascii ''2024-05-01T10:00:00''\<rparr>]\<rparr>,
      Some (- 200))"
  by (simp add: consume_pending_def d_two_pending_def ascii_def)

lemma two_confirmed:
  "db w_two_confirmed = d_two_pending\<lparr>profiles :=
        [\<lparr>p_user_id = 7, p_first_name = ascii ''Ivan'', p_last_name = ascii ''Petrov'',
          p_school_cls = ascii ''10B'', p_email = Some (ascii ''ivan.petrov@fizmat.kz''),
          p_created_at = t3\<rparr>],
        pending := [\<lparr>q_user_id = 7, q_chat_id = - 100, q_created_at = ascii ''2024-05-01T10:00:00''\<rparr>]\<rparr>"
  "chat_perms w_two_confirmed = [(- 100, 7) \<mapsto> locked_perms, (- 200, 7) \<mapsto> open_perms]"
  "restrict_calls w_two_pending w_two_confirmed = [RestrictChatMember (- 200) 7 open_perms]"
proof -
  have s: "save_profile (unicode (E_at t3)) (utcnow (E_at t3)) (cb_from_user_id (press 7 ''confirm''))
     (dict_get (s_data (fsm w_two_pending (cb_chat_id (press 7 ''confirm''), cb_from_user_id (press 7 ''confirm'')))) ''first_name'' [])
     (dict_get (s_data (fsm w_two_pending (cb_chat_id (press 7 ''confirm''), cb_from_user_id (press 7 ''confirm'')))) ''last_name'' [])
     (dict_get (s_data (fsm w_two_pending (cb_chat_id (press 7 ''confirm''), cb_from_user_id (press 7 ''confirm'')))) ''school_cls'' [])
     (dict_get (s_data (fsm w_two_pending (cb_chat_id (press 7 ''confirm''), cb_from_user_id (press 7 ''confirm'')))) ''email'' [])
     (db w_two_pending)
   = Inr (d_two_pending\<lparr>profiles :=
        [\<lparr>p_user_id = 7, p_first_name = ascii ''Ivan'', p_last_name = ascii ''Petrov'',
          p_school_cls = ascii ''10B'', p_email = Some (ascii ''ivan.petrov@fizmat.kz''),
          p_created_at = t3\<rparr>]\<rparr>)"
    using two_pending_saved by (simp add: press_def)
  have c: "consume_pending (cb_from_user_id (press 7 ''confirm'')) (d_two_pending\<lparr>profiles :=
        [\<lparr>p_user_id = 7, p_first_name = ascii ''Ivan'', p_last_name = ascii ''Petrov'',
          p_school_cls = ascii ''10B'', p_email = Some (ascii ''ivan.petrov@fizmat.kz''),
          p_created_at = t3\<rparr>]\<rparr>)
   = (d_two_pending\<lparr>profiles :=
        [\<lparr>p_user_id = 7, p_first_name = ascii ''Ivan'', p_last_name = ascii ''Petrov'',
          p_school_cls = ascii ''10B'', p_email = Some (ascii ''ivan.petrov@fizmat.kz''),
          p_created_at = t3\<rparr>],
        pending := [\<lparr>q_user_id = 7, q_chat_id = - 100, q_created_at = ascii ''2024-05-01T10:00:00''\<rparr>]\<rparr>,
      Some (- 200))"
    using two_pending_consumed by (simp add: press_def)
  note cs = confirm_saved[OF s c]
  show "db w_two_confirmed = d_two_pending\<lparr>profiles :=
        [\<lparr>p_user_id = 7, p_first_name = ascii ''Ivan'', p_last_name = ascii ''Petrov'',
          p_school_cls = ascii ''10B'', p_email = Some (ascii ''ivan.petrov@fizmat.kz''),
          p_created_at = t3\<rparr>],
        pending := [\<lparr>q_user_id = 7, q_chat_id = - 100, q_created_at = ascii ''2024-05-01T10:00:00''\<rparr>]\<rparr>"
    using cs(1) by (simp add: w_two_confirmed_def)
  show "chat_perms w_two_confirmed = [(- 100, 7) \<mapsto> locked_perms, (- 200, 7) \<mapsto> open_perms]"
    using cs(4) by (simp add: w_two_confirmed_def truthy_def E_at_def accept_all_def press_def
        w_two_pending_def initial_world_def)
  show "restrict_calls w_two_pending w_two_confirmed = [RestrictChatMember (- 200) 7 open_perms]"
    using cs(3) by (simp add: w_two_confirmed_def truthy_def press_def)
qed

theorem observed_again_stays_locked:
  "is_registered 7 (db w_two_confirmed)
   \<and> chat_perms w_two_confirmed (- 200, 7) = Some open_perms
   \<and> dispatch (E_at t3) (MessageUpdate (group_msg (- 100) 7 ''hello'')) w_two_confirmed
       = (w_two_confirmed, None)
   \<and> dispatch (E_at t3) (ChatMemberUpdate (joined (- 100) 7)) w_two_confirmed
       = (w_two_confirmed, None)
   \<and> pending_of 7 (db w_two_confirmed)
       = [\<lparr>q_user_id = 7, q_chat_id = - 100, q_created_at = ascii ''2024-05-01T10:00:00''\<rparr>]
   \<and> chat_perms w_two_confirmed (- 100, 7) = Some locked_perms"
proof -
  have reg: "is_registered 7 (db w_two_confirmed)"
    by (simp add: two_confirmed is_registered_def)
  have g: "dispatch (E_at t3) (MessageUpdate (group_msg (- 100) 7 ''hello'')) w_two_confirmed
       = (w_two_confirmed, None)"
    using guard_registered[OF _ reg, of "group_msg (- 100) 7 ''hello''" False]
    by (simp add: dispatch_message_def group_msg_def)
  have j: "dispatch (E_at t3) (ChatMemberUpdate (joined (- 100) 7)) w_two_confirmed
       = (w_two_confirmed, None)"
    using on_user_join_registered[of "joined (- 100) 7" w_two_confirmed] reg
    by (simp add: dispatch_chat_member_def joined_def)
  show ?thesis
    using reg g j by (simp add: two_confirmed pending_of_def)
qed

theorem confirm_consumes_latest_only_witness:
  "(7::int) = cb_from_user_id (press 7 ''confirm'')
   \<and> pending_key_unique (db w_two_pending)
   \<and> map q_chat_id (pending_of 7 (db w_two_pending)) = [- 100, - 200]
   \<and> (\<exists>row \<in> set (pending_of 7 (db w_two_pending)).
         (\<forall>r \<in> set (pending_of 7 (db w_two_pending)). q_created_at r \<le> q_created_at row)
         \<and> pending (db w_two_confirmed) = remove1 row (pending (db w_two_pending))
         \<and> restrict_calls w_two_pending w_two_confirmed
             = [RestrictChatMember (q_chat_id row) 7 open_perms])"
proof -
  have h0: "(7::int) = cb_from_user_id (press 7 ''confirm'')"
    by (simp add: press_def)
  have h1: "pending_key_unique (db w_two_pending)"
    by (simp add: pending_key_unique_def w_two_pending_def d_two_pending_def)
  have h2: "\<forall>r \<in> set (pending_of 7 (db w_two_pending)). q_chat_id r \<noteq> 0"
    by (simp add: pending_of_def w_two_pending_def d_two_pending_def)
  have h3: "pending_of 7 (db w_two_pending) \<noteq> []"
    by (simp add: pending_of_def w_two_pending_def d_two_pending_def)
  have h4: "map q_chat_id (pending_of 7 (db w_two_pending)) = [- 100, - 200]"
    by (simp add: pending_of_def w_two_pending_def d_two_pending_def)
  from confirm_consumes_latest_only[OF h0 refl two_pending_saved h1 h2 h3 w_two_confirmed_def]
    h0 h1 h4
  show ?thesis by blast
qed

section \<open>Filling in the form\<close>

lemma dm_simps [simp]:
  "m_chat_type (dm uid t) = PRIVATE" "m_chat_id (dm uid t) = uid"
  "m_from_user (dm uid t) = Some (uid, False)" "m_command (dm uid t) = None"
  "text_or_empty (dm uid t) = ascii t"
  by (simp_all add: dm_def dm_text_def text_or_empty_def)

lemma press_simps [simp]:
  "cb_from_user_id (press uid d) = uid" "cb_chat_id (press uid d) = uid" "cb_data (press uid d) = d"
  by (simp_all add: press_def)

lemma dispatch_dm:
  "dispatch_message E (dm uid t) w =
     (case s_state (fsm w (uid, uid)) of
        Some Reg_first_name \<Rightarrow> reg_first_name E (uid, uid) (dm uid t) w
      | Some Reg_last_name \<Rightarrow> reg_last_name E (uid, uid) (dm uid t) w
      | Some Reg_school_cls \<Rightarrow> reg_class E (uid, uid) (dm uid t) w
      | Some Reg_email \<Rightarrow> reg_email E (uid, uid) (dm uid t) w
      | _ \<Rightarrow> (w, None))"
  by (simp add: dispatch_message_def current_state_def message_key_def
      split: option.splits reg_state.splits)

lemma session_update_all [simp]:
  "(r::session)\<lparr>s_data := a, s_state := b\<rparr> = \<lparr>s_state = b, s_data = a\<rparr>"
  by (cases r) simp

lemma step_first_name:
  assumes "s_state (fsm w (uid, uid)) = Some Reg_first_name"
  shows "db (fst (dispatch E (MessageUpdate (dm uid t)) w)) = db w"
    and "chat_perms (fst (dispatch E (MessageUpdate (dm uid t)) w)) = chat_perms w"
    and "fsm (fst (dispatch E (MessageUpdate (dm uid t)) w)) =
           (fsm w)((uid, uid) := \<lparr>s_state = Some Reg_last_name,
              s_data = (s_data (fsm w (uid, uid)))(''first_name'' \<mapsto> py_strip (ascii t))\<rparr>)"
  using assms by (simp_all add: dispatch_dm reg_first_name_def update_data_def set_state_def)

lemma step_last_name:
  assumes "s_state (fsm w (uid, uid)) = Some Reg_last_name"
  shows "db (fst (dispatch E (MessageUpdate (dm uid t)) w)) = db w"
    and "chat_perms (fst (dispatch E (MessageUpdate (dm uid t)) w)) = chat_perms w"
    and "fsm (fst (dispatch E (MessageUpdate (dm uid t)) w)) =
           (fsm w)((uid, uid) := \<lparr>s_state = Some Reg_school_cls,
              s_data = (s_data (fsm w (uid, uid)))(''last_name'' \<mapsto> py_strip (ascii t))\<rparr>)"
  using assms by (simp_all add: dispatch_dm reg_last_name_def update_data_def set_state_def)

lemma step_class:
  assumes "s_state (fsm w (uid, uid)) = Some Reg_school_cls"
  shows "db (fst (dispatch E (MessageUpdate (dm uid t)) w)) = db w"
    and "chat_perms (fst (dispatch E (MessageUpdate (dm uid t)) w)) = chat_perms w"
    and "fsm (fst (dispatch E (MessageUpdate (dm uid t)) w)) =
           (fsm w)((uid, uid) := \<lparr>s_state = Some Reg_email,
              s_data = (s_data (fsm w (uid, uid)))(''school_cls'' \<mapsto> py_strip (ascii t))\<rparr>)"
  using assms by (simp_all add: dispatch_dm reg_class_def update_data_def set_state_def)

lemma step_email:
  assumes "s_state (fsm w (uid, uid)) = Some Reg_email"
    and "is_valid_fizmat_email (unicode E) (py_lower (unicode E) (py_strip (ascii t)))"
  shows "db (fst (dispatch E (MessageUpdate (dm uid t)) w)) = db w"
    and "chat_perms (fst (dispatch E (MessageUpdate (dm uid t)) w)) = chat_perms w"
    and "fsm (fst (dispatch E (MessageUpdate (dm uid t)) w)) =
           (fsm w)((uid, uid) := \<lparr>s_state = Some Reg_confirm,
              s_data = (s_data (fsm w (uid, uid)))(''email'' \<mapsto> py_lower (unicode E) (py_strip (ascii t)))\<rparr>)"
  using assms by (simp_all add: dispatch_dm reg_email_def update_data_def set_state_def Let_def)

lemma form_run:
  assumes st: "s_state (fsm w (uid, uid)) = Some Reg_first_name"
    and valid: "is_valid_fizmat_email (unicode E4) (py_lower (unicode E4) (py_strip (ascii e)))"
    and w4: "w4 = run [(E1, MessageUpdate (dm uid a)), (E2, MessageUpdate (dm uid b)),
                       (E3, MessageUpdate (dm uid c)), (E4, MessageUpdate (dm uid e))] w"
  shows "db w4 = db w" and "chat_perms w4 = chat_perms w"
    and "fsm w4 =
           (fsm w)((uid, uid) := \<lparr>s_state = Some Reg_confirm,
              s_data = (s_data (fsm w (uid, uid)))
                (''first_name'' \<mapsto> py_strip (ascii a), ''last_name'' \<mapsto> py_strip (ascii b),
                 ''school_cls'' \<mapsto> py_strip (ascii c),
                 ''email'' \<mapsto> py_lower (unicode E4) (py_strip (ascii e)))\<rparr>)"
proof -
  define w1 where "w1 = fst (dispatch E1 (MessageUpdate (dm uid a)) w)"
  define w2 where "w2 = fst (dispatch E2 (MessageUpdate (dm uid b)) w1)"
  define w3 where "w3 = fst (dispatch E3 (MessageUpdate (dm uid c)) w2)"
  have eq: "w4 = fst (dispatch E4 (MessageUpdate (dm uid e)) w3)"
    by (simp add: w4 w1_def w2_def w3_def)
  note s1 = step_first_name[OF st, of E1 a, folded w1_def]
  have st1: "s_state (fsm w1 (uid, uid)) = Some Reg_last_name" by (simp add: s1)
  note s2 = step_last_name[OF st1, of E2 b, folded w2_def]
  have st2: "s_state (fsm w2 (uid, uid)) = Some Reg_school_cls" by (simp add: s2)
  note s3 = step_class[OF st2, of E3 c, folded w3_def]
  have st3: "s_state (fsm w3 (uid, uid)) = Some Reg_email" by (simp add: s3)
  note s4 = step_email[OF st3 valid, folded eq]
  show "db w4 = db w" by (simp add: s1 s2 s3 s4)
  show "chat_perms w4 = chat_perms w" by (simp add: s1 s2 s3 s4)
  show "fsm w4 =
           (fsm w)((uid, uid) := \<lparr>s_state = Some Reg_confirm,
              s_data = (s_data (fsm w (uid, uid)))
                (''first_name'' \<mapsto> py_strip (ascii a), ''last_name'' \<mapsto> py_strip (ascii b),
                 ''school_cls'' \<mapsto> py_strip (ascii c),
                 ''email'' \<mapsto> py_lower (unicode E4) (py_strip (ascii e)))\<rparr>)"
    by (simp add: s1 s2 s3 s4)
qed

section \<open>The example of the specification\<close>

lemma ivan_strings:
  "py_strip (ascii ''Ivan'') = ascii ''Ivan''"
  "py_strip (ascii ''Petrov'') = ascii ''Petrov''"
  "py_strip (ascii ''10B'') = ascii ''10B''"
  "py_strip (ascii ''ivan.petrov@fizmat.kz'') = ascii ''ivan.petrov@fizmat.kz''"
  "py_lower U (ascii ''ivan.petrov@fizmat.kz'') = ascii ''ivan.petrov@fizmat.kz''"
  "is_valid_fizmat_email U (ascii ''ivan.petrov@fizmat.kz'')"
  by (simp_all add: email_eval)

lemma dispatch_confirm:
  "s_state (fsm w (uid, uid)) = Some Reg_confirm \<Longrightarrow>
   dispatch E (CallbackUpdate (press uid ''confirm'')) w = confirm E (press uid ''confirm'') w"
  by (simp add: dispatch_callback_def)

lemma ivan_run:
  assumes st: "s_state (fsm w (uid, uid)) = Some Reg_first_name"
    and free: "\<not> (idx_profiles_email_unique (db w)
                   \<and> email_taken uid (ascii ''ivan.petrov@fizmat.kz'') (db w))"
    and w4: "w4 = run [(E1, MessageUpdate (dm uid ''Ivan'')), (E2, MessageUpdate (dm uid ''Petrov'')),
                 (E3, MessageUpdate (dm uid ''10B'')),
                 (E4, MessageUpdate (dm uid ''ivan.petrov@fizmat.kz''))] w"
    and w': "w' = run [(E1, MessageUpdate (dm uid ''Ivan'')), (E2, MessageUpdate (dm uid ''Petrov'')),
                 (E3, MessageUpdate (dm uid ''10B'')),
                 (E4, MessageUpdate (dm uid ''ivan.petrov@fizmat.kz'')),
                 (E5, CallbackUpdate (press uid ''confirm''))] w"
    and d: "d = (db w)\<lparr>profiles := upsert_profile
               \<lparr>p_user_id = uid, p_first_name = ascii ''Ivan'', p_last_name = ascii ''Petrov'',
                p_school_cls = ascii ''10B'', p_email = Some (ascii ''ivan.petrov@fizmat.kz''),
                p_created_at = utcnow E5\<rparr> (profiles (db w))\<rparr>"
  shows "w' = fst (confirm E5 (press uid ''confirm'') w4)"
    and "db w4 = db w" and "chat_perms w4 = chat_perms w"
    and "save_profile (unicode E5) (utcnow E5) uid
           (dict_get (s_data (fsm w4 (cb_chat_id (press uid ''confirm''), uid))) ''first_name'' [])
           (dict_get (s_data (fsm w4 (cb_chat_id (press uid ''confirm''), uid))) ''last_name'' [])
           (dict_get (s_data (fsm w4 (cb_chat_id (press uid ''confirm''), uid))) ''school_cls'' [])
           (dict_get (s_data (fsm w4 (cb_chat_id (press uid ''confirm''), uid))) ''email'' [])
           (db w4) = Inr d"
proof -
  note fr = form_run[OF st _ w4, unfolded ivan_strings, OF ivan_strings(6)]
  have st4: "s_state (fsm w4 (uid, uid)) = Some Reg_confirm" by (simp add: fr)
  have "w' = fst (dispatch E5 (CallbackUpdate (press uid ''confirm'')) w4)"
    by (simp add: w' w4)
  then show "w' = fst (confirm E5 (press uid ''confirm'') w4)"
    by (simp only: dispatch_confirm[OF st4])
  show "db w4 = db w" "chat_perms w4 = chat_perms w" by (fact fr)+
  show "save_profile (unicode E5) (utcnow E5) uid
           (dict_get (s_data (fsm w4 (cb_chat_id (press uid ''confirm''), uid))) ''first_name'' [])
           (dict_get (s_data (fsm w4 (cb_chat_id (press uid ''confirm''), uid))) ''last_name'' [])
           (dict_get (s_data (fsm w4 (cb_chat_id (press uid ''confirm''), uid))) ''school_cls'' [])
           (dict_get (s_data (fsm w4 (cb_chat_id (press uid ''confirm''), uid))) ''email'' [])
           (db w4) = Inr d"
    using free
    by (auto simp add: fr dict_get_def save_profile_def ivan_strings d Let_def)
qed


lemma consume_pending_empty:
  "pending_of uid d = [] \<Longrightarrow> consume_pending uid d = (d, None)"
  by (simp add: consume_pending_def pending_of_def)

text \<open>
  C6, as amended. A user at the first step of the form sends Ivan, Petrov, 10B and
  ivan.petrov@fizmat.kz and presses confirm; no other profile holds the email. Then the
  profile of the user holds those four values and the time of the confirmation. If
  the user has pending entries, one chat among them with the greatest \<open>created_at\<close>
  becomes unmuted when the platform accepts the request, and the permissions of the
  user in every other chat are what they were; with no pending entry no permission
  changes.
\<close>

theorem ivan_petrov_registers:
  assumes st: "s_state (fsm w (uid, uid)) = Some Reg_first_name"
    and free: "\<not> (idx_profiles_email_unique (db w)
                   \<and> email_taken uid (ascii ''ivan.petrov@fizmat.kz'') (db w))"
    and pk: "pending_key_unique (db w)"
    and nz: "\<forall>r \<in> set (pending_of uid (db w)). q_chat_id r \<noteq> 0"
    and w': "w' = run [(E1, MessageUpdate (dm uid ''Ivan'')), (E2, MessageUpdate (dm uid ''Petrov'')),
                 (E3, MessageUpdate (dm uid ''10B'')),
                 (E4, MessageUpdate (dm uid ''ivan.petrov@fizmat.kz'')),
                 (E5, CallbackUpdate (press uid ''confirm''))] w"
  shows "get_profile_row uid (db w') =
           Some \<lparr>p_user_id = uid, p_first_name = ascii ''Ivan'', p_last_name = ascii ''Petrov'',
                 p_school_cls = ascii ''10B'', p_email = Some (ascii ''ivan.petrov@fizmat.kz''),
                 p_created_at = utcnow E5\<rparr>
         \<and> (pending_of uid (db w) \<noteq> [] \<longrightarrow>
              (\<exists>row \<in> set (pending_of uid (db w)).
                 (\<forall>r \<in> set (pending_of uid (db w)). q_created_at r \<le> q_created_at row)
                 \<and> (telegram E5 (RestrictChatMember (q_chat_id row) uid open_perms) = None
                      \<longrightarrow> chat_perms w' (q_chat_id row, uid) = Some open_perms)
                 \<and> (\<forall>c. c \<noteq> q_chat_id row \<longrightarrow> chat_perms w' (c, uid) = chat_perms w (c, uid))))
         \<and> (pending_of uid (db w) = [] \<longrightarrow> chat_perms w' = chat_perms w)"
proof -
  let ?row = "\<lparr>p_user_id = uid, p_first_name = ascii ''Ivan'', p_last_name = ascii ''Petrov'',
                p_school_cls = ascii ''10B'', p_email = Some (ascii ''ivan.petrov@fizmat.kz''),
                p_created_at = utcnow E5\<rparr>"
  let ?cb = "press uid ''confirm''"
  define w4 where "w4 = run [(E1, MessageUpdate (dm uid ''Ivan'')), (E2, MessageUpdate (dm uid ''Petrov'')),
                 (E3, MessageUpdate (dm uid ''10B'')),
                 (E4, MessageUpdate (dm uid ''ivan.petrov@fizmat.kz''))] w"
  define d where "d = (db w)\<lparr>profiles := upsert_profile ?row (profiles (db w))\<rparr>"
  note ir = ivan_run[OF st free w4_def w' d_def]
  have pd: "pending_of uid d = pending_of uid (db w)"
    by (simp add: d_def pending_of_def)
  obtain d' chat where cons: "consume_pending uid d = (d', chat)"
    by (cases "consume_pending uid d") auto
  note cs = confirm_saved[of E5 ?cb w4 d d' chat, unfolded press_simps, OF ir(4)[unfolded press_simps] cons,
      folded ir(1)]
  have "profiles (db w') = profiles d"
    using cs(1) consume_pending_profiles[OF cons] by simp
  then have row: "get_profile_row uid (db w') = Some ?row"
    by (simp add: get_profile_row_def d_def find_upsert_profile)
  have some: "\<exists>row \<in> set (pending_of uid (db w)).
                 (\<forall>r \<in> set (pending_of uid (db w)). q_created_at r \<le> q_created_at row)
                 \<and> (telegram E5 (RestrictChatMember (q_chat_id row) uid open_perms) = None
                      \<longrightarrow> chat_perms w' (q_chat_id row, uid) = Some open_perms)
                 \<and> (\<forall>c. c \<noteq> q_chat_id row \<longrightarrow> chat_perms w' (c, uid) = chat_perms w (c, uid))"
    if ne: "pending_of uid (db w) \<noteq> []"
  proof -
    have u: "uid = cb_from_user_id ?cb" by simp
    from confirm_success(1)[OF u refl ir(4) _ _ _ ir(1), unfolded ir(2) ir(3), OF pk nz ne]
    obtain row where mem: "row \<in> set (pending_of uid (db w))"
      and mx: "\<forall>r \<in> set (pending_of uid (db w)). q_created_at r \<le> q_created_at row"
      and op: "telegram E5 (RestrictChatMember (q_chat_id row) uid open_perms) = None
                      \<longrightarrow> chat_perms w' (q_chat_id row, uid) = Some open_perms"
      and others: "\<forall>c. c \<noteq> q_chat_id row \<longrightarrow> chat_perms w' (c, uid) = chat_perms w (c, uid)"
      by auto
    show ?thesis
      by (rule bexI[OF _ mem]) (intro conjI mx op others)
  qed
  have none: "chat_perms w' = chat_perms w" if e: "pending_of uid (db w) = []"
  proof -
    from consume_pending_empty[of uid d] e pd cons have "chat = None" by simp
    with cs(4) show ?thesis by (simp add: truthy_def ir(3))
  qed
  from row some none show ?thesis by blast
qed

lemma two_start_facts:
  "s_state (fsm w_two_start (7, 7)) = Some Reg_first_name"
  "\<not> (idx_profiles_email_unique (db w_two_start)
       \<and> email_taken 7 (ascii ''ivan.petrov@fizmat.kz'') (db w_two_start))"
  "pending_key_unique (db w_two_start)"
  "\<forall>r \<in> set (pending_of 7 (db w_two_start)). q_chat_id r \<noteq> 0"
  "pending_of 7 (db w_two_start) \<noteq> []"
  "db w_two_start = d_two_pending"
  "chat_perms w_two_start = [(- 100, 7) \<mapsto> locked_perms, (- 200, 7) \<mapsto> locked_perms]"
  by (simp_all add: w_two_start_def initial_world_def d_two_pending_def email_taken_def
      pending_key_unique_def pending_of_def)

theorem only_latest_chat_unmuted:
  "chat_perms w_two_start (- 100, 7) = Some locked_perms
   \<and> chat_perms w_two_start (- 200, 7) = Some locked_perms
   \<and> map q_chat_id (pending_of 7 (db w_two_start)) = [- 100, - 200]
   \<and> get_profile_row 7 (db w_two_done) =
        Some \<lparr>p_user_id = 7, p_first_name = ascii ''Ivan'', p_last_name = ascii ''Petrov'',
              p_school_cls = ascii ''10B'', p_email = Some (ascii ''ivan.petrov@fizmat.kz''),
              p_created_at = t3\<rparr>
   \<and> chat_perms w_two_done (- 200, 7) = Some open_perms
   \<and> chat_perms w_two_done (- 100, 7) = Some locked_perms"
proof -
  define w4 where "w4 = run [(E_at t3, MessageUpdate (dm 7 ''Ivan'')), (E_at t3, MessageUpdate (dm 7 ''Petrov'')),
      (E_at t3, MessageUpdate (dm 7 ''10B'')),
      (E_at t3, MessageUpdate (dm 7 ''ivan.petrov@fizmat.kz''))] w_two_start"
  have script: "w_two_done = run [(E_at t3, MessageUpdate (dm 7 ''Ivan'')), (E_at t3, MessageUpdate (dm 7 ''Petrov'')),
      (E_at t3, MessageUpdate (dm 7 ''10B'')),
      (E_at t3, MessageUpdate (dm 7 ''ivan.petrov@fizmat.kz'')),
      (E_at t3, CallbackUpdate (press 7 ''confirm''))] w_two_start"
    by (simp add: w_two_done_def ivan_script_def)
  note ir = ivan_run[OF two_start_facts(1) two_start_facts(2) w4_def script refl]
  have d: "(db w_two_start)\<lparr>profiles := upsert_profile
               \<lparr>p_user_id = 7, p_first_name = ascii ''Ivan'', p_last_name = ascii ''Petrov'',
                p_school_cls = ascii ''10B'', p_email = Some (ascii ''ivan.petrov@fizmat.kz''),
                p_created_at = utcnow (E_at t3)\<rparr> (profiles (db w_two_start))\<rparr>
        = d_two_pending\<lparr>profiles :=
        [\<lparr>p_user_id = 7, p_first_name = ascii ''Ivan'', p_last_name = ascii ''Petrov'',
          p_school_cls = ascii ''10B'', p_email = Some (ascii ''ivan.petrov@fizmat.kz''),
          p_created_at = t3\<rparr>]\<rparr>"
    by (simp add: two_start_facts(6) d_two_pending_def upsert_profile_def E_at_def)
  note cs = confirm_saved[of "E_at t3" "press 7 ''confirm''" w4, unfolded press_simps,
      OF ir(4)[unfolded press_simps d] two_pending_consumed, folded ir(1)]
  have row: "get_profile_row 7 (db w_two_done) =
        Some \<lparr>p_user_id = 7, p_first_name = ascii ''Ivan'', p_last_name = ascii ''Petrov'',
              p_school_cls = ascii ''10B'', p_email = Some (ascii ''ivan.petrov@fizmat.kz''),
              p_created_at = t3\<rparr>"
    by (simp add: cs(1) get_profile_row_def)
  have perms: "chat_perms w_two_done = [(- 100, 7) \<mapsto> locked_perms, (- 200, 7) \<mapsto> open_perms]"
    using cs(4) by (simp add: truthy_def E_at_def accept_all_def ir(3) two_start_facts(7))
  show ?thesis
    by (simp add: row perms two_start_facts(7) two_start_facts(6) pending_of_def d_two_pending_def)
qed

theorem ivan_petrov_registers_witness:
  "s_state (fsm w_two_start (7, 7)) = Some Reg_first_name
   \<and> \<not> (idx_profiles_email_unique (db w_two_start)
          \<and> email_taken 7 (ascii ''ivan.petrov@fizmat.kz'') (db w_two_start))
   \<and> pending_key_unique (db w_two_start)
   \<and> map q_chat_id (pending_of 7 (db w_two_start)) = [- 100, - 200]
   \<and> get_profile_row 7 (db w_two_done) =
        Some \<lparr>p_user_id = 7, p_first_name = ascii ''Ivan'', p_last_name = ascii ''Petrov'',
              p_school_cls = ascii ''10B'', p_email = Some (ascii ''ivan.petrov@fizmat.kz''),
              p_created_at = utcnow (E_at t3)\<rparr>
   \<and> (\<exists>row \<in> set (pending_of 7 (db w_two_start)).
         (\<forall>r \<in> set (pending_of 7 (db w_two_start)). q_created_at r \<le> q_created_at row)
         \<and> (\<forall>c. c \<noteq> q_chat_id row \<longrightarrow> chat_perms w_two_done (c, 7) = chat_perms w_two_start (c, 7)))"
proof -
  have script: "w_two_done = run [(E_at t3, MessageUpdate (dm 7 ''Ivan'')), (E_at t3, MessageUpdate (dm 7 ''Petrov'')),
      (E_at t3, MessageUpdate (dm 7 ''10B'')),
      (E_at t3, MessageUpdate (dm 7 ''ivan.petrov@fizmat.kz'')),
      (E_at t3, CallbackUpdate (press 7 ''confirm''))] w_two_start"
    by (simp add: w_two_done_def ivan_script_def)
  have chats: "map q_chat_id (pending_of 7 (db w_two_start)) = [- 100, - 200]"
    by (simp add: pending_of_def w_two_start_def d_two_pending_def)
  from ivan_petrov_registers[OF two_start_facts(1) two_start_facts(2) two_start_facts(3)
      two_start_facts(4) script] two_start_facts(1-3) two_start_facts(5) chats
  show ?thesis by blast
qed

section \<open>Editing a field\<close>

lemma dm_text_simps [simp]:
  "m_chat_type (dm_text uid t) = PRIVATE" "m_chat_id (dm_text uid t) = uid"
  "m_from_user (dm_text uid t) = Some (uid, False)" "m_command (dm_text uid t) = None"
  "text_or_empty (dm_text uid t) = t"
  by (simp_all add: dm_text_def text_or_empty_def)

lemma session_state_update [simp]:
  "(r::session)\<lparr>s_state := b\<rparr> = \<lparr>s_state = b, s_data = s_data r\<rparr>"
  by (cases r) simp

lemma edit_field_effect:
  "db (fst (edit_field E (press uid d) prompt st w)) = db w"
  "chat_perms (fst (edit_field E (press uid d) prompt st w)) = chat_perms w"
  "fsm (fst (edit_field E (press uid d) prompt st w)) =
     (if telegram E (SendMessage uid prompt) = None
      then (fsm w)((uid, uid) := \<lparr>s_state = Some st, s_data = s_data (fsm w (uid, uid))\<rparr>)
      else fsm w)"
  "snd (edit_field E (press uid d) prompt st w) = None \<Longrightarrow> telegram E (SendMessage uid prompt) = None"
  by (simp_all add: edit_field_def set_state_def split: if_splits)

lemma dispatch_edit:
  assumes "s_state (fsm w (uid, uid)) = Some Reg_confirm"
  shows "dispatch E (CallbackUpdate (press uid ''edit_first'')) w
           = edit_field E (press uid ''edit_first'') ReenterFirstName Reg_first_name w"
    and "dispatch E (CallbackUpdate (press uid ''edit_last'')) w
           = edit_field E (press uid ''edit_last'') ReenterLastName Reg_last_name w"
    and "dispatch E (CallbackUpdate (press uid ''edit_cls'')) w
           = edit_field E (press uid ''edit_cls'') ReenterClass Reg_school_cls w"
    and "dispatch E (CallbackUpdate (press uid ''edit_email'')) w
           = edit_field E (press uid ''edit_email'') ReenterEmail Reg_email w"
  using assms
  by (simp_all add: dispatch_callback_def edit_first_def edit_last_def edit_cls_def edit_email_def)

lemma dispatch_private:
  assumes p: "private_from uid m"
  shows "s_state (fsm w (uid, uid)) = Some Reg_first_name \<Longrightarrow>
           dispatch_message E m w = reg_first_name E (uid, uid) m w"
    and "s_state (fsm w (uid, uid)) = Some Reg_last_name \<Longrightarrow>
           dispatch_message E m w = reg_last_name E (uid, uid) m w"
    and "s_state (fsm w (uid, uid)) = Some Reg_school_cls \<Longrightarrow>
           dispatch_message E m w = reg_class E (uid, uid) m w"
    and "s_state (fsm w (uid, uid)) = Some Reg_email \<Longrightarrow>
           dispatch_message E m w = reg_email E (uid, uid) m w"
proof -
  from p obtain b where ty: "m_chat_type m = PRIVATE" and c: "m_chat_id m = uid"
    and fu: "m_from_user m = Some (uid, b)" and ns: "m_command m \<noteq> Some ''start''"
    by (auto simp add: private_from_def)
  have cs: "current_state w m = s_state (fsm w (uid, uid))"
    by (simp add: current_state_def fu c)
  have mk: "message_key m = (uid, uid)" by (simp add: message_key_def fu c)
  show "s_state (fsm w (uid, uid)) = Some Reg_first_name \<Longrightarrow>
           dispatch_message E m w = reg_first_name E (uid, uid) m w"
    by (simp add: dispatch_message_def ty ns cs mk)
  show "s_state (fsm w (uid, uid)) = Some Reg_last_name \<Longrightarrow>
           dispatch_message E m w = reg_last_name E (uid, uid) m w"
    by (simp add: dispatch_message_def ty ns cs mk)
  show "s_state (fsm w (uid, uid)) = Some Reg_school_cls \<Longrightarrow>
           dispatch_message E m w = reg_class E (uid, uid) m w"
    by (simp add: dispatch_message_def ty ns cs mk)
  show "s_state (fsm w (uid, uid)) = Some Reg_email \<Longrightarrow>
           dispatch_message E m w = reg_email E (uid, uid) m w"
    by (simp add: dispatch_message_def ty ns cs mk)
qed

lemma field_handlers_fsm:
  "fsm (fst (reg_first_name E key m w)) key =
     \<lparr>s_state = Some Reg_last_name,
      s_data = (s_data (fsm w key))(''first_name'' \<mapsto> py_strip (text_or_empty m))\<rparr>"
  "fsm (fst (reg_last_name E key m w)) key =
     \<lparr>s_state = Some Reg_school_cls,
      s_data = (s_data (fsm w key))(''last_name'' \<mapsto> py_strip (text_or_empty m))\<rparr>"
  "fsm (fst (reg_class E key m w)) key =
     \<lparr>s_state = Some Reg_email,
      s_data = (s_data (fsm w key))(''school_cls'' \<mapsto> py_strip (text_or_empty m))\<rparr>"
  "is_valid_fizmat_email (unicode E) (py_lower (unicode E) (py_strip (text_or_empty m))) \<Longrightarrow>
   fsm (fst (reg_email E key m w)) key =
     \<lparr>s_state = Some Reg_confirm,
      s_data = (s_data (fsm w key))(''email'' \<mapsto> py_lower (unicode E) (py_strip (text_or_empty m)))\<rparr>"
  by (simp_all add: reg_first_name_def reg_last_name_def reg_class_def reg_email_def
      update_data_def set_state_def Let_def)

lemma private_steps:
  assumes p: "private_from uid m"
  shows "s_state (fsm w (uid, uid)) = Some Reg_first_name \<Longrightarrow>
     fsm (fst (dispatch E (MessageUpdate m) w)) (uid, uid) =
       \<lparr>s_state = Some Reg_last_name,
        s_data = (s_data (fsm w (uid, uid)))(''first_name'' \<mapsto> py_strip (text_or_empty m))\<rparr>"
  and "s_state (fsm w (uid, uid)) = Some Reg_last_name \<Longrightarrow>
     fsm (fst (dispatch E (MessageUpdate m) w)) (uid, uid) =
       \<lparr>s_state = Some Reg_school_cls,
        s_data = (s_data (fsm w (uid, uid)))(''last_name'' \<mapsto> py_strip (text_or_empty m))\<rparr>"
  and "s_state (fsm w (uid, uid)) = Some Reg_school_cls \<Longrightarrow>
     fsm (fst (dispatch E (MessageUpdate m) w)) (uid, uid) =
       \<lparr>s_state = Some Reg_email,
        s_data = (s_data (fsm w (uid, uid)))(''school_cls'' \<mapsto> py_strip (text_or_empty m))\<rparr>"
  and "s_state (fsm w (uid, uid)) = Some Reg_email \<Longrightarrow>
   is_valid_fizmat_email (unicode E) (py_lower (unicode E) (py_strip (text_or_empty m))) \<Longrightarrow>
     fsm (fst (dispatch E (MessageUpdate m) w)) (uid, uid) =
       \<lparr>s_state = Some Reg_confirm,
        s_data = (s_data (fsm w (uid, uid)))
          (''email'' \<mapsto> py_lower (unicode E) (py_strip (text_or_empty m)))\<rparr>"
  by (simp_all only: dispatch.simps dispatch_private[OF p] field_handlers_fsm)

lemma continue_from_email:
  assumes st: "s_state (fsm w (uid, uid)) = Some Reg_email"
    and p4: "private_from uid m4"
    and valid: "is_valid_fizmat_email (unicode E4) (py_lower (unicode E4) (py_strip (text_or_empty m4)))"
  shows "fsm (run [(E4, MessageUpdate m4)] w) (uid, uid) =
           \<lparr>s_state = Some Reg_confirm,
            s_data = (s_data (fsm w (uid, uid)))
              (''email'' \<mapsto> py_lower (unicode E4) (py_strip (text_or_empty m4)))\<rparr>"
proof -
  have r: "run [(E4, MessageUpdate m4)] w = fst (dispatch E4 (MessageUpdate m4) w)"
    by (simp only: run.simps)
  show ?thesis unfolding r by (rule private_steps(4)[OF p4 st valid])
qed

lemma continue_from_class:
  assumes st: "s_state (fsm w (uid, uid)) = Some Reg_school_cls"
    and p3: "private_from uid m3" and p4: "private_from uid m4"
  shows "fsm (run [(E3, MessageUpdate m3)] w) (uid, uid) =
           \<lparr>s_state = Some Reg_email,
            s_data = (s_data (fsm w (uid, uid)))(''school_cls'' \<mapsto> py_strip (text_or_empty m3))\<rparr>"
    and "is_valid_fizmat_email (unicode E4) (py_lower (unicode E4) (py_strip (text_or_empty m4))) \<Longrightarrow>
         fsm (run [(E3, MessageUpdate m3), (E4, MessageUpdate m4)] w) (uid, uid) =
           \<lparr>s_state = Some Reg_confirm,
            s_data = (s_data (fsm w (uid, uid)))
              (''school_cls'' \<mapsto> py_strip (text_or_empty m3),
               ''email'' \<mapsto> py_lower (unicode E4) (py_strip (text_or_empty m4)))\<rparr>"
proof -
  define w3 where "w3 = fst (dispatch E3 (MessageUpdate m3) w)"
  have r1: "run [(E3, MessageUpdate m3)] w = w3"
    by (simp only: run.simps w3_def)
  have r2: "run [(E3, MessageUpdate m3), (E4, MessageUpdate m4)] w = run [(E4, MessageUpdate m4)] w3"
    by (simp only: run.simps w3_def)
  note s3 = private_steps(3)[OF p3 st, of E3, folded w3_def]
  show "fsm (run [(E3, MessageUpdate m3)] w) (uid, uid) =
           \<lparr>s_state = Some Reg_email,
            s_data = (s_data (fsm w (uid, uid)))(''school_cls'' \<mapsto> py_strip (text_or_empty m3))\<rparr>"
    unfolding r1 by (fact s3)
  have st3: "s_state (fsm w3 (uid, uid)) = Some Reg_email" by (simp add: s3)
  have d3: "s_data (fsm w3 (uid, uid)) =
      (s_data (fsm w (uid, uid)))(''school_cls'' \<mapsto> py_strip (text_or_empty m3))"
    by (simp add: s3)
  show "fsm (run [(E3, MessageUpdate m3), (E4, MessageUpdate m4)] w) (uid, uid) =
           \<lparr>s_state = Some Reg_confirm,
            s_data = (s_data (fsm w (uid, uid)))
              (''school_cls'' \<mapsto> py_strip (text_or_empty m3),
               ''email'' \<mapsto> py_lower (unicode E4) (py_strip (text_or_empty m4)))\<rparr>"
    if valid: "is_valid_fizmat_email (unicode E4) (py_lower (unicode E4) (py_strip (text_or_empty m4)))"
    unfolding r2 continue_from_email[OF st3 p4 valid] d3 ..
qed

lemma continue_from_last:
  assumes st: "s_state (fsm w (uid, uid)) = Some Reg_last_name"
    and p2: "private_from uid m2" and p3: "private_from uid m3" and p4: "private_from uid m4"
  shows "fsm (run [(E2, MessageUpdate m2)] w) (uid, uid) =
           \<lparr>s_state = Some Reg_school_cls,
            s_data = (s_data (fsm w (uid, uid)))(''last_name'' \<mapsto> py_strip (text_or_empty m2))\<rparr>"
    and "fsm (run [(E2, MessageUpdate m2), (E3, MessageUpdate m3)] w) (uid, uid) =
           \<lparr>s_state = Some Reg_email,
            s_data = (s_data (fsm w (uid, uid)))
              (''last_name'' \<mapsto> py_strip (text_or_empty m2),
               ''school_cls'' \<mapsto> py_strip (text_or_empty m3))\<rparr>"
    and "is_valid_fizmat_email (unicode E4) (py_lower (unicode E4) (py_strip (text_or_empty m4))) \<Longrightarrow>
         fsm (run [(E2, MessageUpdate m2), (E3, MessageUpdate m3), (E4, MessageUpdate m4)] w) (uid, uid) =
           \<lparr>s_state = Some Reg_confirm,
            s_data = (s_data (fsm w (uid, uid)))
              (''last_name'' \<mapsto> py_strip (text_or_empty m2),
               ''school_cls'' \<mapsto> py_strip (text_or_empty m3),
               ''email'' \<mapsto> py_lower (unicode E4) (py_strip (text_or_empty m4)))\<rparr>"
proof -
  define w2 where "w2 = fst (dispatch E2 (MessageUpdate m2) w)"
  have r1: "run [(E2, MessageUpdate m2)] w = w2"
    by (simp only: run.simps w2_def)
  have r2: "run [(E2, MessageUpdate m2), (E3, MessageUpdate m3)] w = run [(E3, MessageUpdate m3)] w2"
    by (simp only: run.simps w2_def)
  have r3: "run [(E2, MessageUpdate m2), (E3, MessageUpdate m3), (E4, MessageUpdate m4)] w
      = run [(E3, MessageUpdate m3), (E4, MessageUpdate m4)] w2"
    by (simp only: run.simps w2_def)
  note s2 = private_steps(2)[OF p2 st, of E2, folded w2_def]
  show "fsm (run [(E2, MessageUpdate m2)] w) (uid, uid) =
           \<lparr>s_state = Some Reg_school_cls,
            s_data = (s_data (fsm w (uid, uid)))(''last_name'' \<mapsto> py_strip (text_or_empty m2))\<rparr>"
    unfolding r1 by (fact s2)
  have st2: "s_state (fsm w2 (uid, uid)) = Some Reg_school_cls" by (simp add: s2)
  have d2: "s_data (fsm w2 (uid, uid)) =
      (s_data (fsm w (uid, uid)))(''last_name'' \<mapsto> py_strip (text_or_empty m2))"
    by (simp add: s2)
  note cc = continue_from_class[OF st2 p3 p4]
  show "fsm (run [(E2, MessageUpdate m2), (E3, MessageUpdate m3)] w) (uid, uid) =
           \<lparr>s_state = Some Reg_email,
            s_data = (s_data (fsm w (uid, uid)))
              (''last_name'' \<mapsto> py_strip (text_or_empty m2),
               ''school_cls'' \<mapsto> py_strip (text_or_empty m3))\<rparr>"
    unfolding r2 cc(1) d2 ..
  show "fsm (run [(E2, MessageUpdate m2), (E3, MessageUpdate m3), (E4, MessageUpdate m4)] w) (uid, uid) =
           \<lparr>s_state = Some Reg_confirm,
            s_data = (s_data (fsm w (uid, uid)))
              (''last_name'' \<mapsto> py_strip (text_or_empty m2),
               ''school_cls'' \<mapsto> py_strip (text_or_empty m3),
               ''email'' \<mapsto> py_lower (unicode E4) (py_strip (text_or_empty m4)))\<rparr>"
    if valid: "is_valid_fizmat_email (unicode E4) (py_lower (unicode E4) (py_strip (text_or_empty m4)))"
    unfolding r3 cc(2)[OF valid] d2 ..
qed

lemma continue_from_first:
  assumes st: "s_state (fsm w (uid, uid)) = Some Reg_first_name"
    and p1: "private_from uid m1" and p2: "private_from uid m2"
    and p3: "private_from uid m3" and p4: "private_from uid m4"
  shows "fsm (run [(E1, MessageUpdate m1)] w) (uid, uid) =
           \<lparr>s_state = Some Reg_last_name,
            s_data = (s_data (fsm w (uid, uid)))(''first_name'' \<mapsto> py_strip (text_or_empty m1))\<rparr>"
    and "fsm (run [(E1, MessageUpdate m1), (E2, MessageUpdate m2)] w) (uid, uid) =
           \<lparr>s_state = Some Reg_school_cls,
            s_data = (s_data (fsm w (uid, uid)))
              (''first_name'' \<mapsto> py_strip (text_or_empty m1),
               ''last_name'' \<mapsto> py_strip (text_or_empty m2))\<rparr>"
    and "fsm (run [(E1, MessageUpdate m1), (E2, MessageUpdate m2), (E3, MessageUpdate m3)] w) (uid, uid) =
           \<lparr>s_state = Some Reg_email,
            s_data = (s_data (fsm w (uid, uid)))
              (''first_name'' \<mapsto> py_strip (text_or_empty m1),
               ''last_name'' \<mapsto> py_strip (text_or_empty m2),
               ''school_cls'' \<mapsto> py_strip (text_or_empty m3))\<rparr>"
    and "is_valid_fizmat_email (unicode E4) (py_lower (unicode E4) (py_strip (text_or_empty m4))) \<Longrightarrow>
         fsm (run [(E1, MessageUpdate m1), (E2, MessageUpdate m2), (E3, MessageUpdate m3),
                   (E4, MessageUpdate m4)] w) (uid, uid) =
           \<lparr>s_state = Some Reg_confirm,
            s_data = (s_data (fsm w (uid, uid)))
              (''first_name'' \<mapsto> py_strip (text_or_empty m1),
               ''last_name'' \<mapsto> py_strip (text_or_empty m2),
               ''school_cls'' \<mapsto> py_strip (text_or_empty m3),
               ''email'' \<mapsto> py_lower (unicode E4) (py_strip (text_or_empty m4)))\<rparr>"
proof -
  define w1 where "w1 = fst (dispatch E1 (MessageUpdate m1) w)"
  have r1: "run [(E1, MessageUpdate m1)] w = w1"
    by (simp only: run.simps w1_def)
  have r2: "run [(E1, MessageUpdate m1), (E2, MessageUpdate m2)] w = run [(E2, MessageUpdate m2)] w1"
    by (simp only: run.simps w1_def)
  have r3: "run [(E1, MessageUpdate m1), (E2, MessageUpdate m2), (E3, MessageUpdate m3)] w
      = run [(E2, MessageUpdate m2), (E3, MessageUpdate m3)] w1"
    by (simp only: run.simps w1_def)
  have r4: "run [(E1, MessageUpdate m1), (E2, MessageUpdate m2), (E3, MessageUpdate m3),
                 (E4, MessageUpdate m4)] w
      = run [(E2, MessageUpdate m2), (E3, MessageUpdate m3), (E4, MessageUpdate m4)] w1"
    by (simp only: run.simps w1_def)
  note s1 = private_steps(1)[OF p1 st, of E1, folded w1_def]
  show "fsm (run [(E1, MessageUpdate m1)] w) (uid, uid) =
           \<lparr>s_state = Some Reg_last_name,
            s_data = (s_data (fsm w (uid, uid)))(''first_name'' \<mapsto> py_strip (text_or_empty m1))\<rparr>"
    unfolding r1 by (fact s1)
  have st1: "s_state (fsm w1 (uid, uid)) = Some Reg_last_name" by (simp add: s1)
  have d1: "s_data (fsm w1 (uid, uid)) =
      (s_data (fsm w (uid, uid)))(''first_name'' \<mapsto> py_strip (text_or_empty m1))"
    by (simp add: s1)
  note cl = continue_from_last[OF st1 p2 p3 p4]
  show "fsm (run [(E1, MessageUpdate m1), (E2, MessageUpdate m2)] w) (uid, uid) =
           \<lparr>s_state = Some Reg_school_cls,
            s_data = (s_data (fsm w (uid, uid)))
              (''first_name'' \<mapsto> py_strip (text_or_empty m1),
               ''last_name'' \<mapsto> py_strip (text_or_empty m2))\<rparr>"
    unfolding r2 cl(1) d1 ..
  show "fsm (run [(E1, MessageUpdate m1), (E2, MessageUpdate m2), (E3, MessageUpdate m3)] w) (uid, uid) =
           \<lparr>s_state = Some Reg_email,
            s_data = (s_data (fsm w (uid, uid)))
              (''first_name'' \<mapsto> py_strip (text_or_empty m1),
               ''last_name'' \<mapsto> py_strip (text_or_empty m2),
               ''school_cls'' \<mapsto> py_strip (text_or_empty m3))\<rparr>"
    unfolding r3 cl(2) d1 ..
  show "fsm (run [(E1, MessageUpdate m1), (E2, MessageUpdate m2), (E3, MessageUpdate m3),
                   (E4, MessageUpdate m4)] w) (uid, uid) =
           \<lparr>s_state = Some Reg_confirm,
            s_data = (s_data (fsm w (uid, uid)))
              (''first_name'' \<mapsto> py_strip (text_or_empty m1),
               ''last_name'' \<mapsto> py_strip (text_or_empty m2),
               ''school_cls'' \<mapsto> py_strip (text_or_empty m3),
               ''email'' \<mapsto> py_lower (unicode E4) (py_strip (text_or_empty m4)))\<rparr>"
    if valid: "is_valid_fizmat_email (unicode E4) (py_lower (unicode E4) (py_strip (text_or_empty m4)))"
    unfolding r4 cl(3)[OF valid] d1 ..
qed

lemma edit_pressed:
  assumes st: "s_state (fsm w (uid, uid)) = Some Reg_confirm"
    and opt: "(d, prompt, st') \<in> set [(''edit_first'', ReenterFirstName, Reg_first_name),
                (''edit_last'', ReenterLastName, Reg_last_name),
                (''edit_cls'', ReenterClass, Reg_school_cls),
                (''edit_email'', ReenterEmail, Reg_email)]"
  shows "dispatch E (CallbackUpdate (press uid d)) w = edit_field E (press uid d) prompt st' w"
  using opt dispatch_edit[OF st, of E] by auto

lemma private_from_dm [simp]: "private_from uid (dm uid t)"
  by (auto simp add: private_from_def)

lemma private_from_dm_text [simp]: "private_from uid (dm_text uid t)"
  by (auto simp add: private_from_def)

text \<open>
  C8, as amended. In the confirmation state each of the four edit buttons leaves the
  collected values and the database as they are. When the platform accepts the prompt
  the form is in the state of the chosen field, whatever becomes of the answer to the
  button; when it refuses the prompt, no form context changes. From the chosen field
  the form goes on as it does the first time, for all private messages of the user
  other than \<open>/start\<close>: each message is stored, trimmed (the email also lowered), under
  the field of the current
  state and the form moves to the next field, until a valid email leads back to the
  confirmation. So after the email button one message leads back, with the other
  three values preserved; after the class button two messages, which replace the class
  and the email; after the last name button three, which replace the last name, the
  class and the email; after the first name button four, which replace all four values.
\<close>

theorem edit_reenters_field:
  assumes st: "s_state (fsm w (uid, uid)) = Some Reg_confirm"
    and opt: "(d, prompt, st') \<in> set [(''edit_first'', ReenterFirstName, Reg_first_name),
                (''edit_last'', ReenterLastName, Reg_last_name),
                (''edit_cls'', ReenterClass, Reg_school_cls),
                (''edit_email'', ReenterEmail, Reg_email)]"
    and w1: "w1 = fst (dispatch E (CallbackUpdate (press uid d)) w)"
    and data: "data = s_data (fsm w (uid, uid))"
    and p1: "private_from uid m1" and p2: "private_from uid m2"
    and p3: "private_from uid m3" and p4: "private_from uid m4"
    and a: "a = py_strip (text_or_empty m1)" and b: "b = py_strip (text_or_empty m2)"
    and c: "c = py_strip (text_or_empty m3)"
    and e: "e = py_lower (unicode E4) (py_strip (text_or_empty m4))"
  shows "s_data (fsm w1 (uid, uid)) = data
         \<and> db w1 = db w
         \<and> (telegram E (SendMessage uid prompt) \<noteq> None \<longrightarrow> fsm w1 = fsm w)
         \<and> (telegram E (SendMessage uid prompt) = None \<longrightarrow>
              s_state (fsm w1 (uid, uid)) = Some st'
              \<and> (st' = Reg_first_name \<longrightarrow>
                    fsm (run [(E1, MessageUpdate m1)] w1) (uid, uid) =
                      \<lparr>s_state = Some Reg_last_name, s_data = data(''first_name'' \<mapsto> a)\<rparr>
                    \<and> fsm (run [(E1, MessageUpdate m1), (E2, MessageUpdate m2)] w1) (uid, uid) =
                      \<lparr>s_state = Some Reg_school_cls,
                       s_data = data(''first_name'' \<mapsto> a, ''last_name'' \<mapsto> b)\<rparr>
                    \<and> fsm (run [(E1, MessageUpdate m1), (E2, MessageUpdate m2),
                                 (E3, MessageUpdate m3)] w1) (uid, uid) =
                      \<lparr>s_state = Some Reg_email,
                       s_data = data(''first_name'' \<mapsto> a, ''last_name'' \<mapsto> b, ''school_cls'' \<mapsto> c)\<rparr>
                    \<and> (is_valid_fizmat_email (unicode E4) e \<longrightarrow>
                          fsm (run [(E1, MessageUpdate m1), (E2, MessageUpdate m2),
                                    (E3, MessageUpdate m3), (E4, MessageUpdate m4)] w1) (uid, uid) =
                            \<lparr>s_state = Some Reg_confirm,
                             s_data = data(''first_name'' \<mapsto> a, ''last_name'' \<mapsto> b,
                                           ''school_cls'' \<mapsto> c, ''email'' \<mapsto> e)\<rparr>))
              \<and> (st' = Reg_last_name \<longrightarrow>
                    fsm (run [(E2, MessageUpdate m2)] w1) (uid, uid) =
                      \<lparr>s_state = Some Reg_school_cls, s_data = data(''last_name'' \<mapsto> b)\<rparr>
                    \<and> fsm (run [(E2, MessageUpdate m2), (E3, MessageUpdate m3)] w1) (uid, uid) =
                      \<lparr>s_state = Some Reg_email,
                       s_data = data(''last_name'' \<mapsto> b, ''school_cls'' \<mapsto> c)\<rparr>
                    \<and> (is_valid_fizmat_email (unicode E4) e \<longrightarrow>
                          fsm (run [(E2, MessageUpdate m2), (E3, MessageUpdate m3),
                                    (E4, MessageUpdate m4)] w1) (uid, uid) =
                            \<lparr>s_state = Some Reg_confirm,
                             s_data = data(''last_name'' \<mapsto> b, ''school_cls'' \<mapsto> c,
                                           ''email'' \<mapsto> e)\<rparr>))
              \<and> (st' = Reg_school_cls \<longrightarrow>
                    fsm (run [(E3, MessageUpdate m3)] w1) (uid, uid) =
                      \<lparr>s_state = Some Reg_email, s_data = data(''school_cls'' \<mapsto> c)\<rparr>
                    \<and> (is_valid_fizmat_email (unicode E4) e \<longrightarrow>
                          fsm (run [(E3, MessageUpdate m3), (E4, MessageUpdate m4)] w1) (uid, uid) =
                            \<lparr>s_state = Some Reg_confirm,
                             s_data = data(''school_cls'' \<mapsto> c, ''email'' \<mapsto> e)\<rparr>))
              \<and> (st' = Reg_email \<longrightarrow>
                    (is_valid_fizmat_email (unicode E4) e \<longrightarrow>
                          fsm (run [(E4, MessageUpdate m4)] w1) (uid, uid) =
                            \<lparr>s_state = Some Reg_confirm, s_data = data(''email'' \<mapsto> e)\<rparr>)))"
proof -
  note disp = edit_pressed[OF st opt, of E]
  note ef = edit_field_effect[of E uid d prompt st' w, folded disp, folded w1]
  have g1: "s_data (fsm w1 (uid, uid)) = data"
    by (simp add: ef(3) data)
  have g2: "db w1 = db w" by (fact ef(1))
  have g3: "telegram E (SendMessage uid prompt) \<noteq> None \<longrightarrow> fsm w1 = fsm w"
    by (simp add: ef(3))
  have g4: "s_state (fsm w1 (uid, uid)) = Some st'
              \<and> (st' = Reg_first_name \<longrightarrow>
                    fsm (run [(E1, MessageUpdate m1)] w1) (uid, uid) =
                      \<lparr>s_state = Some Reg_last_name, s_data = data(''first_name'' \<mapsto> a)\<rparr>
                    \<and> fsm (run [(E1, MessageUpdate m1), (E2, MessageUpdate m2)] w1) (uid, uid) =
                      \<lparr>s_state = Some Reg_school_cls,
                       s_data = data(''first_name'' \<mapsto> a, ''last_name'' \<mapsto> b)\<rparr>
                    \<and> fsm (run [(E1, MessageUpdate m1), (E2, MessageUpdate m2),
                                 (E3, MessageUpdate m3)] w1) (uid, uid) =
                      \<lparr>s_state = Some Reg_email,
                       s_data = data(''first_name'' \<mapsto> a, ''last_name'' \<mapsto> b, ''school_cls'' \<mapsto> c)\<rparr>
                    \<and> (is_valid_fizmat_email (unicode E4) e \<longrightarrow>
                          fsm (run [(E1, MessageUpdate m1), (E2, MessageUpdate m2),
                                    (E3, MessageUpdate m3), (E4, MessageUpdate m4)] w1) (uid, uid) =
                            \<lparr>s_state = Some Reg_confirm,
                             s_data = data(''first_name'' \<mapsto> a, ''last_name'' \<mapsto> b,
                                           ''school_cls'' \<mapsto> c, ''email'' \<mapsto> e)\<rparr>))
              \<and> (st' = Reg_last_name \<longrightarrow>
                    fsm (run [(E2, MessageUpdate m2)] w1) (uid, uid) =
                      \<lparr>s_state = Some Reg_school_cls, s_data = data(''last_name'' \<mapsto> b)\<rparr>
                    \<and> fsm (run [(E2, MessageUpdate m2), (E3, MessageUpdate m3)] w1) (uid, uid) =
                      \<lparr>s_state = Some Reg_email,
                       s_data = data(''last_name'' \<mapsto> b, ''school_cls'' \<mapsto> c)\<rparr>
                    \<and> (is_valid_fizmat_email (unicode E4) e \<longrightarrow>
                          fsm (run [(E2, MessageUpdate m2), (E3, MessageUpdate m3),
                                    (E4, MessageUpdate m4)] w1) (uid, uid) =
                            \<lparr>s_state = Some Reg_confirm,
                             s_data = data(''last_name'' \<mapsto> b, ''school_cls'' \<mapsto> c,
                                           ''email'' \<mapsto> e)\<rparr>))
              \<and> (st' = Reg_school_cls \<longrightarrow>
                    fsm (run [(E3, MessageUpdate m3)] w1) (uid, uid) =
                      \<lparr>s_state = Some Reg_email, s_data = data(''school_cls'' \<mapsto> c)\<rparr>
                    \<and> (is_valid_fizmat_email (unicode E4) e \<longrightarrow>
                          fsm (run [(E3, MessageUpdate m3), (E4, MessageUpdate m4)] w1) (uid, uid) =
                            \<lparr>s_state = Some Reg_confirm,
                             s_data = data(''school_cls'' \<mapsto> c, ''email'' \<mapsto> e)\<rparr>))
              \<and> (st' = Reg_email \<longrightarrow>
                    (is_valid_fizmat_email (unicode E4) e \<longrightarrow>
                          fsm (run [(E4, MessageUpdate m4)] w1) (uid, uid) =
                            \<lparr>s_state = Some Reg_confirm, s_data = data(''email'' \<mapsto> e)\<rparr>))"
    if acc: "telegram E (SendMessage uid prompt) = None"
  proof -
    have s1: "s_state (fsm w1 (uid, uid)) = Some st'" by (simp add: ef(3) acc)
    have f: "st' = Reg_first_name \<longrightarrow>
                    fsm (run [(E1, MessageUpdate m1)] w1) (uid, uid) =
                      \<lparr>s_state = Some Reg_last_name, s_data = data(''first_name'' \<mapsto> a)\<rparr>
                    \<and> fsm (run [(E1, MessageUpdate m1), (E2, MessageUpdate m2)] w1) (uid, uid) =
                      \<lparr>s_state = Some Reg_school_cls,
                       s_data = data(''first_name'' \<mapsto> a, ''last_name'' \<mapsto> b)\<rparr>
                    \<and> fsm (run [(E1, MessageUpdate m1), (E2, MessageUpdate m2),
                                 (E3, MessageUpdate m3)] w1) (uid, uid) =
                      \<lparr>s_state = Some Reg_email,
                       s_data = data(''first_name'' \<mapsto> a, ''last_name'' \<mapsto> b, ''school_cls'' \<mapsto> c)\<rparr>
                    \<and> (is_valid_fizmat_email (unicode E4) e \<longrightarrow>
                          fsm (run [(E1, MessageUpdate m1), (E2, MessageUpdate m2),
                                    (E3, MessageUpdate m3), (E4, MessageUpdate m4)] w1) (uid, uid) =
                            \<lparr>s_state = Some Reg_confirm,
                             s_data = data(''first_name'' \<mapsto> a, ''last_name'' \<mapsto> b,
                                           ''school_cls'' \<mapsto> c, ''email'' \<mapsto> e)\<rparr>)"
    proof
      assume "st' = Reg_first_name"
      with s1 have s: "s_state (fsm w1 (uid, uid)) = Some Reg_first_name" by simp
      note cf = continue_from_first[OF s p1 p2 p3 p4, unfolded g1, folded a b c]
      show "fsm (run [(E1, MessageUpdate m1)] w1) (uid, uid) =
                      \<lparr>s_state = Some Reg_last_name, s_data = data(''first_name'' \<mapsto> a)\<rparr>
                    \<and> fsm (run [(E1, MessageUpdate m1), (E2, MessageUpdate m2)] w1) (uid, uid) =
                      \<lparr>s_state = Some Reg_school_cls,
                       s_data = data(''first_name'' \<mapsto> a, ''last_name'' \<mapsto> b)\<rparr>
                    \<and> fsm (run [(E1, MessageUpdate m1), (E2, MessageUpdate m2),
                                 (E3, MessageUpdate m3)] w1) (uid, uid) =
                      \<lparr>s_state = Some Reg_email,
                       s_data = data(''first_name'' \<mapsto> a, ''last_name'' \<mapsto> b, ''school_cls'' \<mapsto> c)\<rparr>
                    \<and> (is_valid_fizmat_email (unicode E4) e \<longrightarrow>
                          fsm (run [(E1, MessageUpdate m1), (E2, MessageUpdate m2),
                                    (E3, MessageUpdate m3), (E4, MessageUpdate m4)] w1) (uid, uid) =
                            \<lparr>s_state = Some Reg_confirm,
                             s_data = data(''first_name'' \<mapsto> a, ''last_name'' \<mapsto> b,
                                           ''school_cls'' \<mapsto> c, ''email'' \<mapsto> e)\<rparr>)"
        using cf(1) cf(2) cf(3) cf(4)[of E4] unfolding e by blast
    qed
    have l: "st' = Reg_last_name \<longrightarrow>
                    fsm (run [(E2, MessageUpdate m2)] w1) (uid, uid) =
                      \<lparr>s_state = Some Reg_school_cls, s_data = data(''last_name'' \<mapsto> b)\<rparr>
                    \<and> fsm (run [(E2, MessageUpdate m2), (E3, MessageUpdate m3)] w1) (uid, uid) =
                      \<lparr>s_state = Some Reg_email,
                       s_data = data(''last_name'' \<mapsto> b, ''school_cls'' \<mapsto> c)\<rparr>
                    \<and> (is_valid_fizmat_email (unicode E4) e \<longrightarrow>
                          fsm (run [(E2, MessageUpdate m2), (E3, MessageUpdate m3),
                                    (E4, MessageUpdate m4)] w1) (uid, uid) =
                            \<lparr>s_state = Some Reg_confirm,
                             s_data = data(''last_name'' \<mapsto> b, ''school_cls'' \<mapsto> c,
                                           ''email'' \<mapsto> e)\<rparr>)"
    proof
      assume "st' = Reg_last_name"
      with s1 have s: "s_state (fsm w1 (uid, uid)) = Some Reg_last_name" by simp
      note cf = continue_from_last[OF s p2 p3 p4, unfolded g1, folded b c]
      show "fsm (run [(E2, MessageUpdate m2)] w1) (uid, uid) =
                      \<lparr>s_state = Some Reg_school_cls, s_data = data(''last_name'' \<mapsto> b)\<rparr>
                    \<and> fsm (run [(E2, MessageUpdate m2), (E3, MessageUpdate m3)] w1) (uid, uid) =
                      \<lparr>s_state = Some Reg_email,
                       s_data = data(''last_name'' \<mapsto> b, ''school_cls'' \<mapsto> c)\<rparr>
                    \<and> (is_valid_fizmat_email (unicode E4) e \<longrightarrow>
                          fsm (run [(E2, MessageUpdate m2), (E3, MessageUpdate m3),
                                    (E4, MessageUpdate m4)] w1) (uid, uid) =
                            \<lparr>s_state = Some Reg_confirm,
                             s_data = data(''last_name'' \<mapsto> b, ''school_cls'' \<mapsto> c,
                                           ''email'' \<mapsto> e)\<rparr>)"
        using cf(1) cf(2) cf(3)[of E4] unfolding e by blast
    qed
    have k: "st' = Reg_school_cls \<longrightarrow>
                    fsm (run [(E3, MessageUpdate m3)] w1) (uid, uid) =
                      \<lparr>s_state = Some Reg_email, s_data = data(''school_cls'' \<mapsto> c)\<rparr>
                    \<and> (is_valid_fizmat_email (unicode E4) e \<longrightarrow>
                          fsm (run [(E3, MessageUpdate m3), (E4, MessageUpdate m4)] w1) (uid, uid) =
                            \<lparr>s_state = Some Reg_confirm,
                             s_data = data(''school_cls'' \<mapsto> c, ''email'' \<mapsto> e)\<rparr>)"
    proof
      assume "st' = Reg_school_cls"
      with s1 have s: "s_state (fsm w1 (uid, uid)) = Some Reg_school_cls" by simp
      note cf = continue_from_class[OF s p3 p4, unfolded g1, folded c]
      show "fsm (run [(E3, MessageUpdate m3)] w1) (uid, uid) =
                      \<lparr>s_state = Some Reg_email, s_data = data(''school_cls'' \<mapsto> c)\<rparr>
                    \<and> (is_valid_fizmat_email (unicode E4) e \<longrightarrow>
                          fsm (run [(E3, MessageUpdate m3), (E4, MessageUpdate m4)] w1) (uid, uid) =
                            \<lparr>s_state = Some Reg_confirm,
                             s_data = data(''school_cls'' \<mapsto> c, ''email'' \<mapsto> e)\<rparr>)"
        using cf(1) cf(2)[of E4] unfolding e by blast
    qed
    have m: "st' = Reg_email \<longrightarrow>
                    (is_valid_fizmat_email (unicode E4) e \<longrightarrow>
                          fsm (run [(E4, MessageUpdate m4)] w1) (uid, uid) =
                            \<lparr>s_state = Some Reg_confirm, s_data = data(''email'' \<mapsto> e)\<rparr>)"
    proof (intro impI)
      assume "st' = Reg_email" and v: "is_valid_fizmat_email (unicode E4) e"
      with s1 have s: "s_state (fsm w1 (uid, uid)) = Some Reg_email" by simp
      show "fsm (run [(E4, MessageUpdate m4)] w1) (uid, uid) =
                            \<lparr>s_state = Some Reg_confirm, s_data = data(''email'' \<mapsto> e)\<rparr>"
        using continue_from_email[OF s p4 v[unfolded e], unfolded g1, folded e] .
    qed
    from s1 f l k m show ?thesis by (intro conjI)
  qed
  show ?thesis
    by (rule conjI[OF g1], rule conjI[OF g2], rule conjI[OF g3], rule impI, erule g4)
qed


lemma two_pending_session:
  "s_state (fsm w_two_pending (7, 7)) = Some Reg_confirm"
  "s_data (fsm w_two_pending (7, 7)) = ivan_form"
  by (simp_all add: w_two_pending_def)

lemma edit_accepted:
  "s_state (fsm w (uid, uid)) = Some Reg_confirm \<Longrightarrow>
   snd (dispatch (E_at now) (CallbackUpdate (press uid ''edit_email'')) w) = None"
  "s_state (fsm w (uid, uid)) = Some Reg_confirm \<Longrightarrow>
   fsm (fst (dispatch (E_at now) (CallbackUpdate (press uid ''edit_first'')) w)) =
     (fsm w)((uid, uid) := \<lparr>s_state = Some Reg_first_name, s_data = s_data (fsm w (uid, uid))\<rparr>)"
  by (simp_all only: dispatch_edit edit_field_effect)
     (simp_all add: edit_field_def E_at_def accept_all_def)

theorem edit_reenters_field_witness:
  "s_state (fsm w_two_pending (7, 7)) = Some Reg_confirm
   \<and> s_data (fsm w_two_pending (7, 7)) = ivan_form
   \<and> telegram (E_at t3) (SendMessage 7 ReenterFirstName) = None
   \<and> private_from 7 (dm 7 ''Iwan'') \<and> private_from 7 (dm 7 ''Sidorov'')
   \<and> private_from 7 (dm 7 ''11A'') \<and> private_from 7 (dm 7 ''iwan@fizmat.kz'')
   \<and> is_valid_fizmat_email (unicode (E_at t3))
        (py_lower (unicode (E_at t3)) (py_strip (text_or_empty (dm 7 ''iwan@fizmat.kz''))))
   \<and> s_state (fsm (fst (dispatch (E_at t3) (CallbackUpdate (press 7 ''edit_first'')) w_two_pending)) (7, 7))
        = Some Reg_first_name
   \<and> s_data (fsm (fst (dispatch (E_at t3) (CallbackUpdate (press 7 ''edit_first'')) w_two_pending)) (7, 7))
        = ivan_form
   \<and> fsm (run [(E_at t3, MessageUpdate (dm 7 ''Iwan'')), (E_at t3, MessageUpdate (dm 7 ''Sidorov'')),
               (E_at t3, MessageUpdate (dm 7 ''11A'')), (E_at t3, MessageUpdate (dm 7 ''iwan@fizmat.kz''))]
          (fst (dispatch (E_at t3) (CallbackUpdate (press 7 ''edit_first'')) w_two_pending))) (7, 7)
        = \<lparr>s_state = Some Reg_confirm,
           s_data = ivan_form(''first_name'' \<mapsto> ascii ''Iwan'', ''last_name'' \<mapsto> ascii ''Sidorov'',
                              ''school_cls'' \<mapsto> ascii ''11A'', ''email'' \<mapsto> ascii ''iwan@fizmat.kz'')\<rparr>"
proof -
  have h1: "s_state (fsm w_two_pending (7, 7)) = Some Reg_confirm"
    by (fact two_pending_session(1))
  have h2: "s_data (fsm w_two_pending (7, 7)) = ivan_form"
    by (fact two_pending_session(2))
  have opt: "(''edit_first'', ReenterFirstName, Reg_first_name)
      \<in> set [(''edit_first'', ReenterFirstName, Reg_first_name),
                (''edit_last'', ReenterLastName, Reg_last_name),
                (''edit_cls'', ReenterClass, Reg_school_cls),
                (''edit_email'', ReenterEmail, Reg_email)]"
    by simp
  have acc: "telegram (E_at t3) (SendMessage 7 ReenterFirstName) = None"
    by (simp add: E_at_def accept_all_def)
  have u: "unicode (E_at t3) = U_plain" by (simp add: E_at_def)
  have v: "is_valid_fizmat_email (unicode (E_at t3))
        (py_lower (unicode (E_at t3)) (py_strip (text_or_empty (dm 7 ''iwan@fizmat.kz''))))"
    by (simp add: u U_plain_def email_eval)
  have strings: "py_strip (text_or_empty (dm 7 ''Iwan'')) = ascii ''Iwan''"
    "py_strip (text_or_empty (dm 7 ''Sidorov'')) = ascii ''Sidorov''"
    "py_strip (text_or_empty (dm 7 ''11A'')) = ascii ''11A''"
    "py_lower (unicode (E_at t3)) (py_strip (text_or_empty (dm 7 ''iwan@fizmat.kz''))) = ascii ''iwan@fizmat.kz''"
    by (simp_all add: u U_plain_def email_eval)
  note th = edit_reenters_field[OF h1 opt refl h2[symmetric]
      private_from_dm[of 7 "''Iwan''"] private_from_dm[of 7 "''Sidorov''"]
      private_from_dm[of 7 "''11A''"] private_from_dm[of 7 "''iwan@fizmat.kz''"] refl refl refl refl,
      where E = "E_at t3" and ?E1.0 = "E_at t3" and ?E2.0 = "E_at t3" and ?E3.0 = "E_at t3"
        and ?E4.0 = "E_at t3"]
  from th acc v
  have a: "s_state (fsm (fst (dispatch (E_at t3) (CallbackUpdate (press 7 ''edit_first'')) w_two_pending)) (7, 7))
        = Some Reg_first_name"
    and b: "s_data (fsm (fst (dispatch (E_at t3) (CallbackUpdate (press 7 ''edit_first'')) w_two_pending)) (7, 7))
        = ivan_form"
    and c: "fsm (run [(E_at t3, MessageUpdate (dm 7 ''Iwan'')), (E_at t3, MessageUpdate (dm 7 ''Sidorov'')),
               (E_at t3, MessageUpdate (dm 7 ''11A'')), (E_at t3, MessageUpdate (dm 7 ''iwan@fizmat.kz''))]
          (fst (dispatch (E_at t3) (CallbackUpdate (press 7 ''edit_first'')) w_two_pending))) (7, 7)
        = \<lparr>s_state = Some Reg_confirm,
           s_data = ivan_form(''first_name'' \<mapsto> ascii ''Iwan'', ''last_name'' \<mapsto> ascii ''Sidorov'',
                              ''school_cls'' \<mapsto> ascii ''11A'', ''email'' \<mapsto> ascii ''iwan@fizmat.kz'')\<rparr>"
    unfolding strings by blast+
  show ?thesis
    by (intro conjI h1 h2 acc private_from_dm v a b c)
qed

theorem edit_first_does_not_return_to_confirm:
  "s_state (fsm w_two_pending (7, 7)) = Some Reg_confirm
   \<and> s_data (fsm w_two_pending (7, 7)) ''last_name'' = Some (ascii ''Petrov'')
   \<and> s_state (fsm (run reenter_first w_two_pending) (7, 7)) = Some Reg_last_name
   \<and> s_state (fsm (run (reenter_first @ reenter_rest) w_two_pending) (7, 7)) = Some Reg_confirm
   \<and> s_data (fsm (run (reenter_first @ reenter_rest) w_two_pending) (7, 7)) ''last_name''
        = Some (ascii ''Sidorov'')"
proof -
  define w1 where "w1 = fst (dispatch (E_at t3) (CallbackUpdate (press 7 ''edit_first'')) w_two_pending)"
  have f1: "fsm w1 = (fsm w_two_pending)((7, 7) := \<lparr>s_state = Some Reg_first_name, s_data = ivan_form\<rparr>)"
    unfolding w1_def by (simp only: edit_accepted(2)[OF two_pending_session(1)] two_pending_session(2))
  have st1: "s_state (fsm w1 (7, 7)) = Some Reg_first_name" by (simp add: f1)
  have r1: "run reenter_first w_two_pending = fst (dispatch (E_at t3) (MessageUpdate (dm 7 ''Iwan'')) w1)"
    by (simp add: reenter_first_def w1_def)
  have a: "s_state (fsm (run reenter_first w_two_pending) (7, 7)) = Some Reg_last_name"
    unfolding r1 by (simp only: step_first_name(3)[OF st1]) simp
  have v: "is_valid_fizmat_email (unicode (E_at t3))
        (py_lower (unicode (E_at t3)) (py_strip (ascii ''iwan@fizmat.kz'')))"
    by (simp add: E_at_def U_plain_def email_eval)
  have r2: "run (reenter_first @ reenter_rest) w_two_pending =
      run [(E_at t3, MessageUpdate (dm 7 ''Iwan'')), (E_at t3, MessageUpdate (dm 7 ''Sidorov'')),
           (E_at t3, MessageUpdate (dm 7 ''11A'')), (E_at t3, MessageUpdate (dm 7 ''iwan@fizmat.kz''))] w1"
    by (simp add: reenter_first_def reenter_rest_def w1_def)
  note fr = form_run(3)[OF st1 v r2]
  have b: "s_state (fsm (run (reenter_first @ reenter_rest) w_two_pending) (7, 7)) = Some Reg_confirm"
    by (simp add: fr)
  have c: "s_data (fsm (run (reenter_first @ reenter_rest) w_two_pending) (7, 7)) ''last_name''
        = Some (ascii ''Sidorov'')"
    by (simp add: fr email_eval)
  show ?thesis
    using a b c by (simp add: two_pending_session ivan_form_def)
qed

section \<open>The administrative commands\<close>

lemma is_admin_fst: "fst (is_admin E c u w) = fst (api E (GetChatMember c u) w)"
  by (cases "api E (GetChatMember c u) w") (auto simp add: is_admin_def split: option.splits)

lemma is_admin_effect [simp]:
  "db (fst (is_admin E c u w)) = db w"
  "written_files (fst (is_admin E c u w)) = written_files w"
  by (simp_all add: is_admin_fst)

lemma send_ephemeral_fst:
  "fst (send_ephemeral_group_notice E c t w) =
     (if telegram E (SendMessage c t) = None
      then fst (api E (DeleteMessage c OwnMessage) (fst (api E (SendMessage c t) w)))
      else fst (api E (SendMessage c t) w))"
  by (cases "api E (SendMessage c t) w")
     (auto simp add: send_ephemeral_group_notice_def api_def Let_def attempt_def split: option.splits)

lemma send_ephemeral_effect [simp]:
  "db (fst (send_ephemeral_group_notice E c t w)) = db w"
  by (simp add: send_ephemeral_fst)

lemma write_export_effect [simp]:
  "db (fst (write_export E m w)) = db w"
  "written_files (fst (write_export E m w)) = written_files w @ [map csv_line (select_all_profiles (db w))]"
  "new_calls w (fst (write_export E m w)) = [SendDocument (m_chat_id m) (map csv_line (select_all_profiles (db w)))]"
  by (simp_all add: write_export_def Let_def new_calls_def)

lemma export_csv_db: "db (fst (export_csv E m w)) = db w"
proof (cases "m_chat_type m = PRIVATE")
  case True
  then show ?thesis by (simp add: export_csv_def)
next
  case False
  show ?thesis
  proof (cases "m_from_user m")
    case None
    with False show ?thesis by (simp add: export_csv_def)
  next
    case (Some p)
    obtain uid b where p: "p = (uid, b)" by (cases p) auto
    obtain w1 r where ia: "is_admin E (m_chat_id m) uid w = (w1, r)"
      by (cases "is_admin E (m_chat_id m) uid w") auto
    have w1: "db w1 = db w"
      using is_admin_effect(1)[of E "m_chat_id m" uid w] by (simp add: ia)
    show ?thesis
    proof (cases r)
      case (Inl e)
      with False Some p ia w1 show ?thesis by (simp add: export_csv_def)
    next
      case (Inr adm)
      with False Some p ia w1 show ?thesis by (cases adm) (simp_all add: export_csv_def)
    qed
  qed
qed

lemma refuse_calls:
  "new_calls w (fst (answer E m t w)) = [SendMessage (m_chat_id m) t]"
  by (simp add: new_calls_def)

lemma deleted_not_found: "get_profile_row target (delete_profile target d) = None"
  by (simp add: get_profile_row_def delete_profile_def find_None_iff)

lemma who_open:
  assumes "not_allowed E m = Inr False" and "target_arg E m = Inr (Some target)"
    and "sqlite_int_ok target"
  shows "who_cmd_private E m w =
           answer E m (case get_profile_row target (db w) of Some row \<Rightarrow> WhoProfile row
                       | None \<Rightarrow> WhoNotFound) w"
  using assms by (simp add: who_cmd_private_def split: option.splits)

lemma remove_open:
  assumes "not_allowed E m = Inr False" and "target_arg E m = Inr (Some target)"
    and "sqlite_int_ok target"
  shows "remove_cmd E m w =
           answer E m (RemoveDone target) (w\<lparr>db := delete_profile target (db w)\<rparr>)"
  using assms by (simp add: remove_cmd_def)

lemma export_private:
  "m_chat_type m = PRIVATE \<Longrightarrow> export_csv E m w = write_export E m w"
  by (simp add: export_csv_def)

text \<open>
  C5, as amended. When the allow-list is not empty and the sender is not in it, \<open>/who\<close>
  and \<open>/remove\<close> only answer that the command is for administrators and leave the
  database as it is. When the allow-list is empty, whoever the sender is, or the sender
  is in it, and the command carries a numeric argument within 64 bits, both do their
  work: \<open>/who\<close>
  answers with the profile of that user, or that there is none, and \<open>/remove\<close> deletes
  the profile of that user and says so. \<open>/export\<close> does not consult the allow-list: it
  never changes the database, and in a private chat it writes the export and sends it
  to whoever asks.
\<close>

theorem admin_commands_refuse_outsiders:
  "(ALLOWED_ADMINS E \<noteq> {} \<and> m_from_user m = Some (uid, b) \<and> uid \<notin> ALLOWED_ADMINS E \<longrightarrow>
        db (fst (who_cmd_private E m w)) = db w
      \<and> new_calls w (fst (who_cmd_private E m w)) = [SendMessage (m_chat_id m) WhoAdminsOnly]
      \<and> db (fst (remove_cmd E m w)) = db w
      \<and> new_calls w (fst (remove_cmd E m w)) = [SendMessage (m_chat_id m) RemoveAdminsOnly])
   \<and> ((ALLOWED_ADMINS E = {} \<or> (m_from_user m = Some (uid, b) \<and> uid \<in> ALLOWED_ADMINS E))
        \<and> target_arg E m = Inr (Some target) \<and> sqlite_int_ok target \<longrightarrow>
        db (fst (who_cmd_private E m w)) = db w
      \<and> new_calls w (fst (who_cmd_private E m w))
          = [SendMessage (m_chat_id m)
               (case get_profile_row target (db w) of Some row \<Rightarrow> WhoProfile row
                | None \<Rightarrow> WhoNotFound)]
      \<and> db (fst (remove_cmd E m w)) = delete_profile target (db w)
      \<and> get_profile_row target (db (fst (remove_cmd E m w))) = None
      \<and> new_calls w (fst (remove_cmd E m w)) = [SendMessage (m_chat_id m) (RemoveDone target)])
   \<and> db (fst (export_csv E m w)) = db w
   \<and> (m_chat_type m = PRIVATE \<longrightarrow>
        new_calls w (fst (export_csv E m w))
          = [SendDocument (m_chat_id m) (map csv_line (select_all_profiles (db w)))]
      \<and> written_files (fst (export_csv E m w))
          = written_files w @ [map csv_line (select_all_profiles (db w))])"
proof -
  have refused: "db (fst (who_cmd_private E m w)) = db w
      \<and> new_calls w (fst (who_cmd_private E m w)) = [SendMessage (m_chat_id m) WhoAdminsOnly]
      \<and> db (fst (remove_cmd E m w)) = db w
      \<and> new_calls w (fst (remove_cmd E m w)) = [SendMessage (m_chat_id m) RemoveAdminsOnly]"
    if h: "ALLOWED_ADMINS E \<noteq> {} \<and> m_from_user m = Some (uid, b) \<and> uid \<notin> ALLOWED_ADMINS E"
  proof -
    have who: "who_cmd_private E m w = answer E m WhoAdminsOnly w"
      using h by (simp add: who_cmd_private_def not_allowed_def)
    have rem: "remove_cmd E m w = answer E m RemoveAdminsOnly w"
      using h by (simp add: remove_cmd_def not_allowed_def)
    show ?thesis unfolding who rem by (simp add: new_calls_def)
  qed
  have opened: "db (fst (who_cmd_private E m w)) = db w
      \<and> new_calls w (fst (who_cmd_private E m w))
          = [SendMessage (m_chat_id m)
               (case get_profile_row target (db w) of Some row \<Rightarrow> WhoProfile row
                | None \<Rightarrow> WhoNotFound)]
      \<and> db (fst (remove_cmd E m w)) = delete_profile target (db w)
      \<and> get_profile_row target (db (fst (remove_cmd E m w))) = None
      \<and> new_calls w (fst (remove_cmd E m w)) = [SendMessage (m_chat_id m) (RemoveDone target)]"
    if h: "(ALLOWED_ADMINS E = {} \<or> (m_from_user m = Some (uid, b) \<and> uid \<in> ALLOWED_ADMINS E))
        \<and> target_arg E m = Inr (Some target) \<and> sqlite_int_ok target"
  proof -
    from h have na: "not_allowed E m = Inr False" by (auto simp add: not_allowed_def)
    from h have ta: "target_arg E m = Inr (Some target)" and ok: "sqlite_int_ok target" by simp_all
    show ?thesis
      unfolding who_open[OF na ta ok] remove_open[OF na ta ok]
      by (simp add: refuse_calls deleted_not_found new_calls_def)
  qed
  have ex: "new_calls w (fst (export_csv E m w))
          = [SendDocument (m_chat_id m) (map csv_line (select_all_profiles (db w)))]
      \<and> written_files (fst (export_csv E m w))
          = written_files w @ [map csv_line (select_all_profiles (db w))]"
    if "m_chat_type m = PRIVATE"
    unfolding export_private[OF that] by (simp only: write_export_effect)
  from refused opened ex export_csv_db[of E m w] show ?thesis by blast
qed


lemma cmd_msg_simps [simp]:
  "m_chat_type (cmd_msg uid name t) = PRIVATE" "m_chat_id (cmd_msg uid name t) = uid"
  "m_from_user (cmd_msg uid name t) = Some (uid, False)" "m_command (cmd_msg uid name t) = Some name"
  "text_or_empty (cmd_msg uid name t) = ascii t"
  by (simp_all add: cmd_msg_def dm_def dm_text_def text_or_empty_def)

lemma w_ivan_simps [simp]:
  "db w_ivan = d_ivan" "fsm w_ivan key = \<lparr>s_state = None, s_data = Map.empty\<rparr>"
  "api_log w_ivan = []"
  by (simp_all add: w_ivan_def initial_world_def)

lemma remove_arg: "target_arg E (cmd_msg 7 ''remove'' ''/remove 1'') = Inr (Some 1)"
  by (simp add: target_arg_def py_split_def py_isspace_def ascii_def py_isdigit_def py_int_def
      ascii_int_def c_isspace_def is_ascii_digit_def digits_value_def Let_def)

lemma who_arg: "target_arg E (cmd_msg 7 ''who'' ''/who 1'') = Inr (Some 1)"
  by (simp add: target_arg_def py_split_def py_isspace_def ascii_def py_isdigit_def py_int_def
      ascii_int_def c_isspace_def is_ascii_digit_def digits_value_def Let_def)

theorem admin_commands_open_to_outsiders:
  "ALLOWED_ADMINS (E_at t3) = {}
   \<and> get_profile_row 1 (db w_ivan) \<noteq> None
   \<and> get_profile_row 1
        (db (fst (dispatch (E_at t3) (MessageUpdate (cmd_msg 7 ''remove'' ''/remove 1'')) w_ivan))) = None
   \<and> new_calls w_ivan (fst (dispatch (E_at t3) (MessageUpdate (cmd_msg 7 ''who'' ''/who 1'')) w_ivan))
        = [SendMessage 7
            (WhoProfile \<lparr>p_user_id = 1, p_first_name = ascii ''Ivan'', p_last_name = ascii ''Petrov'',
               p_school_cls = ascii ''10B'', p_email = Some (ascii ''ivan.petrov@fizmat.kz''),
               p_created_at = ascii ''2024-05-01T10:00:00''\<rparr>)]
   \<and> ALLOWED_ADMINS E_admin1 = {1}
   \<and> new_calls w_ivan (fst (dispatch E_admin1 (MessageUpdate (cmd_msg 7 ''export'' ''/export'')) w_ivan))
        = [SendDocument 7
            [(1, ascii ''Ivan'', ascii ''Petrov'', ascii ''10B'', ascii ''ivan.petrov@fizmat.kz'',
              ascii ''2024-05-01T10:00:00'')]]"
proof -
  have r: "dispatch (E_at t3) (MessageUpdate (cmd_msg 7 ''remove'' ''/remove 1'')) w_ivan
        = remove_cmd (E_at t3) (cmd_msg 7 ''remove'' ''/remove 1'') w_ivan"
    by (simp add: dispatch_message_def current_state_def)
  have q: "dispatch (E_at t3) (MessageUpdate (cmd_msg 7 ''who'' ''/who 1'')) w_ivan
        = who_cmd_private (E_at t3) (cmd_msg 7 ''who'' ''/who 1'') w_ivan"
    by (simp add: dispatch_message_def current_state_def)
  have e: "dispatch E_admin1 (MessageUpdate (cmd_msg 7 ''export'' ''/export'')) w_ivan
        = write_export E_admin1 (cmd_msg 7 ''export'' ''/export'') w_ivan"
    by (simp add: dispatch_message_def current_state_def export_csv_def)
  have a: "ALLOWED_ADMINS (E_at t3) = {}" "ALLOWED_ADMINS E_admin1 = {1}"
    by (simp_all add: E_at_def E_admin1_def)
  have b: "get_profile_row 1 (db w_ivan) \<noteq> None"
    by (simp add: get_profile_row_def d_ivan_def)
  have c: "get_profile_row 1 (db (fst (remove_cmd (E_at t3) (cmd_msg 7 ''remove'' ''/remove 1'') w_ivan))) = None"
    by (simp add: remove_cmd_def not_allowed_def a remove_arg sqlite_int_ok_def delete_profile_def
        get_profile_row_def d_ivan_def)
  have f: "new_calls w_ivan (fst (who_cmd_private (E_at t3) (cmd_msg 7 ''who'' ''/who 1'') w_ivan))
        = [SendMessage 7
            (WhoProfile \<lparr>p_user_id = 1, p_first_name = ascii ''Ivan'', p_last_name = ascii ''Petrov'',
               p_school_cls = ascii ''10B'', p_email = Some (ascii ''ivan.petrov@fizmat.kz''),
               p_created_at = ascii ''2024-05-01T10:00:00''\<rparr>)]"
    by (simp add: who_cmd_private_def not_allowed_def a who_arg sqlite_int_ok_def
        get_profile_row_def d_ivan_def new_calls_def)
  have d: "new_calls w_ivan (fst (write_export E_admin1 (cmd_msg 7 ''export'' ''/export'') w_ivan))
        = [SendDocument 7
            [(1, ascii ''Ivan'', ascii ''Petrov'', ascii ''10B'', ascii ''ivan.petrov@fizmat.kz'',
              ascii ''2024-05-01T10:00:00'')]]"
    by (simp add: select_all_profiles_def csv_line_def d_ivan_def)
  show ?thesis
    unfolding r e q using a b c d f by simp
qed

theorem admin_commands_refuse_outsiders_witness:
  "ALLOWED_ADMINS E_admin1 \<noteq> {}
   \<and> 7 \<notin> ALLOWED_ADMINS E_admin1
   \<and> ALLOWED_ADMINS (E_at t3) = {}
   \<and> db (fst (who_cmd_private E_admin1 (cmd_msg 7 ''who'' ''/who 1'') w_ivan)) = db w_ivan
   \<and> new_calls w_ivan (fst (who_cmd_private E_admin1 (cmd_msg 7 ''who'' ''/who 1'') w_ivan))
        = [SendMessage 7 WhoAdminsOnly]
   \<and> db (fst (remove_cmd E_admin1 (cmd_msg 7 ''remove'' ''/remove 1'') w_ivan)) = db w_ivan
   \<and> new_calls w_ivan (fst (remove_cmd E_admin1 (cmd_msg 7 ''remove'' ''/remove 1'') w_ivan))
        = [SendMessage 7 RemoveAdminsOnly]
   \<and> new_calls w_ivan (fst (who_cmd_private (E_at t3) (cmd_msg 7 ''who'' ''/who 1'') w_ivan))
        = [SendMessage 7
            (WhoProfile \<lparr>p_user_id = 1, p_first_name = ascii ''Ivan'', p_last_name = ascii ''Petrov'',
               p_school_cls = ascii ''10B'', p_email = Some (ascii ''ivan.petrov@fizmat.kz''),
               p_created_at = ascii ''2024-05-01T10:00:00''\<rparr>)]
   \<and> get_profile_row 1 (db (fst (remove_cmd (E_at t3) (cmd_msg 7 ''remove'' ''/remove 1'') w_ivan))) = None
   \<and> new_calls w_ivan (fst (remove_cmd (E_at t3) (cmd_msg 7 ''remove'' ''/remove 1'') w_ivan))
        = [SendMessage 7 (RemoveDone 1)]
   \<and> db (fst (export_csv E_admin1 (cmd_msg 7 ''export'' ''/export'') w_ivan)) = db w_ivan
   \<and> new_calls w_ivan (fst (export_csv E_admin1 (cmd_msg 7 ''export'' ''/export'') w_ivan))
        = [SendDocument 7 (map csv_line (select_all_profiles (db w_ivan)))]"
proof -
  have h1: "ALLOWED_ADMINS E_admin1 \<noteq> {}" and h3: "7 \<notin> ALLOWED_ADMINS E_admin1"
    by (simp_all add: E_admin1_def)
  have h0: "ALLOWED_ADMINS (E_at t3) = {}" by (simp add: E_at_def)
  have ok: "sqlite_int_ok 1" by (simp add: sqlite_int_ok_def)
  have row: "get_profile_row 1 (db w_ivan) =
      Some \<lparr>p_user_id = 1, p_first_name = ascii ''Ivan'', p_last_name = ascii ''Petrov'',
               p_school_cls = ascii ''10B'', p_email = Some (ascii ''ivan.petrov@fizmat.kz''),
               p_created_at = ascii ''2024-05-01T10:00:00''\<rparr>"
    by (simp add: get_profile_row_def d_ivan_def)
  note who_refused = admin_commands_refuse_outsiders[of E_admin1 "cmd_msg 7 ''who'' ''/who 1''" 7 False w_ivan 1]
  note rem_refused = admin_commands_refuse_outsiders[of E_admin1 "cmd_msg 7 ''remove'' ''/remove 1''" 7 False w_ivan 1]
  note who_opened = admin_commands_refuse_outsiders[of "E_at t3" "cmd_msg 7 ''who'' ''/who 1''" 7 False w_ivan 1]
  note rem_opened = admin_commands_refuse_outsiders[of "E_at t3" "cmd_msg 7 ''remove'' ''/remove 1''" 7 False w_ivan 1]
  note exported = admin_commands_refuse_outsiders[of E_admin1 "cmd_msg 7 ''export'' ''/export''" 7 False w_ivan 1]
  from who_refused h1 h3
  have a: "db (fst (who_cmd_private E_admin1 (cmd_msg 7 ''who'' ''/who 1'') w_ivan)) = db w_ivan"
    and b: "new_calls w_ivan (fst (who_cmd_private E_admin1 (cmd_msg 7 ''who'' ''/who 1'') w_ivan))
        = [SendMessage 7 WhoAdminsOnly]"
    by simp_all
  from rem_refused h1 h3
  have c: "db (fst (remove_cmd E_admin1 (cmd_msg 7 ''remove'' ''/remove 1'') w_ivan)) = db w_ivan"
    and d: "new_calls w_ivan (fst (remove_cmd E_admin1 (cmd_msg 7 ''remove'' ''/remove 1'') w_ivan))
        = [SendMessage 7 RemoveAdminsOnly]"
    by simp_all
  from who_opened h0 who_arg[of "E_at t3"] ok row
  have e: "new_calls w_ivan (fst (who_cmd_private (E_at t3) (cmd_msg 7 ''who'' ''/who 1'') w_ivan))
        = [SendMessage 7
            (WhoProfile \<lparr>p_user_id = 1, p_first_name = ascii ''Ivan'', p_last_name = ascii ''Petrov'',
               p_school_cls = ascii ''10B'', p_email = Some (ascii ''ivan.petrov@fizmat.kz''),
               p_created_at = ascii ''2024-05-01T10:00:00''\<rparr>)]"
    by simp
  from rem_opened h0 remove_arg[of "E_at t3"] ok
  have f: "get_profile_row 1 (db (fst (remove_cmd (E_at t3) (cmd_msg 7 ''remove'' ''/remove 1'') w_ivan))) = None"
    and g: "new_calls w_ivan (fst (remove_cmd (E_at t3) (cmd_msg 7 ''remove'' ''/remove 1'') w_ivan))
        = [SendMessage 7 (RemoveDone 1)]"
    by (simp_all add: deleted_not_found)
  from exported
  have h: "db (fst (export_csv E_admin1 (cmd_msg 7 ''export'' ''/export'') w_ivan)) = db w_ivan"
    and i: "new_calls w_ivan (fst (export_csv E_admin1 (cmd_msg 7 ''export'' ''/export'') w_ivan))
        = [SendDocument 7 (map csv_line (select_all_profiles (db w_ivan)))]"
    by simp_all
  show ?thesis
    by (intro conjI h1 h3 h0 a b c d e f g h i)
qed

section \<open>The group guard and the throttle\<close>

lemma throttle_notice_fst:
  "fst (throttle_notice E c u w) =
     (if time_time E - last_notice w c \<ge> 60 \<or> fcard (finsert u (NEED_DM_CACHE w c)) \<ge> 20
      then fst (api E (SendMessage c NeedDmNotice)
                 (w\<lparr>NEED_DM_CACHE := (NEED_DM_CACHE w)(c := {||}),
                    LAST_NOTICE_AT := (LAST_NOTICE_AT w)(c \<mapsto> time_time E)\<rparr>))
      else w\<lparr>NEED_DM_CACHE := (NEED_DM_CACHE w)(c := finsert u (NEED_DM_CACHE w c))\<rparr>)"
  by (simp add: throttle_notice_def Let_def last_notice_def NOTICE_COOLDOWN_def BATCH_THRESHOLD_def)

lemma dm_or_notice_fst:
  "fst (dm_or_notice E c u w) =
     (case telegram E (SendMessage u (DmFormInvite (start_link_ok E c))) of
        None \<Rightarrow> fst (api E (SendMessage u (DmFormInvite (start_link_ok E c))) w)
      | Some e \<Rightarrow>
          if e \<in> set caught3
          then fst (throttle_notice E c u (fst (api E (SendMessage u (DmFormInvite (start_link_ok E c))) w)))
          else fst (api E (SendMessage u (DmFormInvite (start_link_ok E c))) w))"
  by (cases "api E (SendMessage u (DmFormInvite (start_link_ok E c))) w")
     (auto simp add: dm_or_notice_def api_def Let_def split: option.splits)


lemma noticed_append:
  "api_log w' = api_log w @ xs \<Longrightarrow> noticed c w w' \<longleftrightarrow> SendMessage c NeedDmNotice \<in> fst ` set xs"
  by (simp add: noticed_def new_calls_def)

lemma guard_fst:
  "fst (guard_group_messages E m w) =
     (case m_from_user m of
        None \<Rightarrow> w
      | Some (u, b) \<Rightarrow>
          if b \<or> is_registered u (db w) then w
          else fst (run_steps
                 [record_pending E u (m_chat_id m),
                  lock_member E (m_chat_id m) u,
                  attempt E (DeleteMessage (m_chat_id m) Incoming) caught3,
                  dm_or_notice E (m_chat_id m) u] w))"
  by (simp add: guard_group_messages_def split: option.splits)

lemma caught_None [simp]:
  "((case r of None \<Rightarrow> None | Some e \<Rightarrow> if e \<in> S then None else Some (f e)) = None)
     \<longleftrightarrow> (\<forall>e. r = Some e \<longrightarrow> e \<in> S)"
  by (cases r) auto

lemma guard_cases:
  assumes "w' = fst (guard_group_messages E m w)"
  obtains (idle) "w' = w"
  | (stopped) xs where "api_log w' = api_log w @ xs"
      "NEED_DM_CACHE w' = NEED_DM_CACHE w" "LAST_NOTICE_AT w' = LAST_NOTICE_AT w"
      "\<forall>c. SendMessage c NeedDmNotice \<notin> fst ` set xs"
  | (quiet) u b xs where "m_from_user m = Some (u, b)" "api_log w' = api_log w @ xs"
      "\<forall>c. SendMessage c NeedDmNotice \<notin> fst ` set xs"
      "\<not> (time_time E - last_notice w (m_chat_id m) \<ge> 60
          \<or> fcard (finsert u (NEED_DM_CACHE w (m_chat_id m))) \<ge> 20)"
      "NEED_DM_CACHE w' = (NEED_DM_CACHE w)(m_chat_id m := finsert u (NEED_DM_CACHE w (m_chat_id m)))"
      "LAST_NOTICE_AT w' = LAST_NOTICE_AT w"
  | (notice) u b xs r where "m_from_user m = Some (u, b)"
      "api_log w' = api_log w @ xs @ [(SendMessage (m_chat_id m) NeedDmNotice, r)]"
      "\<forall>c. SendMessage c NeedDmNotice \<notin> fst ` set xs"
      "time_time E - last_notice w (m_chat_id m) \<ge> 60
          \<or> fcard (finsert u (NEED_DM_CACHE w (m_chat_id m))) \<ge> 20"
      "NEED_DM_CACHE w' = (NEED_DM_CACHE w)(m_chat_id m := {||})"
      "LAST_NOTICE_AT w' = (LAST_NOTICE_AT w)(m_chat_id m \<mapsto> time_time E)"
proof (cases "m_from_user m")
  case None
  with assms have "w' = w" by (simp add: guard_fst)
  then show ?thesis by (rule idle)
next
  case (Some p)
  obtain u b where p: "p = (u, b)" by (cases p) auto
  show ?thesis
  proof (cases "b \<or> is_registered u (db w)")
    case True
    with assms Some p have "w' = w" by (simp add: guard_fst)
    then show ?thesis by (rule idle)
  next
    case False
    let ?c = "m_chat_id m"
    let ?dm = "SendMessage u (DmFormInvite (start_link_ok E ?c))"
    let ?due = "time_time E - last_notice w ?c \<ge> 60 \<or> fcard (finsert u (NEED_DM_CACHE w ?c)) \<ge> 20"
    from assms Some p False have w': "w' = fst (run_steps
                 [record_pending E u ?c, lock_member E ?c u,
                  attempt E (DeleteMessage ?c Incoming) caught3, dm_or_notice E ?c u] w)"
      by (simp add: guard_fst)
    let ?R = "RestrictChatMember ?c u locked_perms"
    let ?D = "DeleteMessage ?c Incoming"
    consider (a) "\<not> (\<forall>e. telegram E ?R = Some e \<longrightarrow> e \<in> set caught3)"
      | (b) "\<forall>e. telegram E ?R = Some e \<longrightarrow> e \<in> set caught3"
            "\<not> (\<forall>e. telegram E ?D = Some e \<longrightarrow> e \<in> set caught3)"
      | (c) "\<forall>e. telegram E ?R = Some e \<longrightarrow> e \<in> set caught3"
            "\<forall>e. telegram E ?D = Some e \<longrightarrow> e \<in> set caught3"
            "telegram E ?dm = None \<or> (\<exists>e. telegram E ?dm = Some e \<and> e \<notin> set caught3)"
      | (d) "\<forall>e. telegram E ?R = Some e \<longrightarrow> e \<in> set caught3"
            "\<forall>e. telegram E ?D = Some e \<longrightarrow> e \<in> set caught3"
            "\<exists>e. telegram E ?dm = Some e \<and> e \<in> set caught3" "\<not> ?due"
      | (e) "\<forall>e. telegram E ?R = Some e \<longrightarrow> e \<in> set caught3"
            "\<forall>e. telegram E ?D = Some e \<longrightarrow> e \<in> set caught3"
            "\<exists>e. telegram E ?dm = Some e \<and> e \<in> set caught3" "?due"
      by (cases "telegram E ?dm") auto
    then show ?thesis
    proof cases
      case a
      show ?thesis
        by (rule stopped[of "[(RestrictChatMember ?c u locked_perms, telegram E (RestrictChatMember ?c u locked_perms))]"])
           (use a in \<open>auto simp add: w' record_pending_def lock_member_def\<close>)
    next
      case b
      show ?thesis
        by (rule stopped[of "[(RestrictChatMember ?c u locked_perms, telegram E (RestrictChatMember ?c u locked_perms)),
                              (DeleteMessage ?c Incoming, telegram E (DeleteMessage ?c Incoming))]"])
           (use b in \<open>auto simp add: w' record_pending_def lock_member_def split: option.splits\<close>)
    next
      case c
      show ?thesis
        by (rule stopped[of "[(RestrictChatMember ?c u locked_perms, telegram E (RestrictChatMember ?c u locked_perms)),
                              (DeleteMessage ?c Incoming, telegram E (DeleteMessage ?c Incoming)),
                              (?dm, telegram E ?dm)]"])
           (use c in \<open>auto simp add: w' record_pending_def lock_member_def dm_or_notice_fst split: option.splits\<close>)
    next
      case d
      show ?thesis
        by (rule quiet[of u b "[(RestrictChatMember ?c u locked_perms, telegram E (RestrictChatMember ?c u locked_perms)),
                              (DeleteMessage ?c Incoming, telegram E (DeleteMessage ?c Incoming)),
                              (?dm, telegram E ?dm)]"])
           (use d Some p in \<open>auto simp add: w' record_pending_def lock_member_def dm_or_notice_fst
              throttle_notice_fst last_notice_def split: option.splits\<close>)
    next
      case e
      show ?thesis
        by (rule notice[of u b "[(RestrictChatMember ?c u locked_perms, telegram E (RestrictChatMember ?c u locked_perms)),
                              (DeleteMessage ?c Incoming, telegram E (DeleteMessage ?c Incoming)),
                              (?dm, telegram E ?dm)]" "telegram E (SendMessage ?c NeedDmNotice)"])
           (use e Some p in \<open>auto simp add: w' record_pending_def lock_member_def dm_or_notice_fst
              throttle_notice_fst last_notice_def split: option.splits\<close>)
    qed
  qed
qed


lemma confirm_cases:
  fixes E cb w
  defines "key \<equiv> (cb_chat_id cb, cb_from_user_id cb)"
  obtains (invalid) "confirm E cb w =
             run_steps [must E (SendMessage (cb_chat_id cb) DomainRetry),
                        pure (set_state key (Some Reg_email)),
                        must E (AnswerCallbackQuery (cb_from_user_id cb))] w"
  | (raised) e where "confirm E cb w = (w, Some e)"
  | (saved) d d' chat where
      "save_profile (unicode E) (utcnow E) (cb_from_user_id cb)
         (dict_get (s_data (fsm w key)) ''first_name'' []) (dict_get (s_data (fsm w key)) ''last_name'' [])
         (dict_get (s_data (fsm w key)) ''school_cls'' []) (dict_get (s_data (fsm w key)) ''email'' [])
         (db w) = Inr d"
      "consume_pending (cb_from_user_id cb) d = (d', chat)"
proof -
  let ?s = "save_profile (unicode E) (utcnow E) (cb_from_user_id cb)
         (dict_get (s_data (fsm w key)) ''first_name'' []) (dict_get (s_data (fsm w key)) ''last_name'' [])
         (dict_get (s_data (fsm w key)) ''school_cls'' []) (dict_get (s_data (fsm w key)) ''email'' [])
         (db w)"
  show ?thesis
  proof (cases ?s)
    case (Inl e)
    show ?thesis
    proof (cases "e = ValueError")
      case True
      with Inl have "confirm E cb w =
             run_steps [must E (SendMessage (cb_chat_id cb) DomainRetry),
                        pure (set_state key (Some Reg_email)),
                        must E (AnswerCallbackQuery (cb_from_user_id cb))] w"
        by (simp add: confirm_def Let_def get_data_def key_def)
      then show ?thesis by (rule invalid)
    next
      case False
      with Inl have "confirm E cb w = (w, Some e)"
        by (cases e) (simp_all add: confirm_def Let_def get_data_def key_def)
      then show ?thesis by (rule raised)
    qed
  next
    case (Inr d)
    obtain d' chat where "consume_pending (cb_from_user_id cb) d = (d', chat)"
      by (cases "consume_pending (cb_from_user_id cb) d") auto
    with Inr show ?thesis by (rule saved)
  qed
qed

lemma start_cases:
  obtains (anonymous) "m_from_user m = None" "start E m w = (w, Some AttributeError)"
  | (registered) u b d chat where "m_from_user m = Some (u, b)" "is_registered u (db w)"
      "consume_pending u (db w) = (d, chat)"
      "start E m w =
         (case truthy chat of
            Some chat_id \<Rightarrow> run_steps [unlock_user_in_chat E chat_id u, answer E m (AlreadyRegistered True)]
                              (w\<lparr>db := d\<rparr>)
          | None \<Rightarrow> answer E m (AlreadyRegistered False) (w\<lparr>db := d\<rparr>))"
  | (fresh) u b payload where "m_from_user m = Some (u, b)" "\<not> is_registered u (db w)"
      "start E m w =
         run_steps [pure (verify_payload E u payload),
                    pure (set_state (m_chat_id m, u) (Some Reg_first_name)),
                    answer E m AskFirstName] w"
proof (cases "m_from_user m")
  case None
  then have "start E m w = (w, Some AttributeError)" by (simp add: start_def Let_def)
  with None show ?thesis by (rule anonymous)
next
  case (Some p)
  obtain u b where p: "p = (u, b)" by (cases p) auto
  show ?thesis
  proof (cases "is_registered u (db w)")
    case True
    obtain d chat where c: "consume_pending u (db w) = (d, chat)"
      by (cases "consume_pending u (db w)") auto
    have "start E m w =
         (case truthy chat of
            Some chat_id \<Rightarrow> run_steps [unlock_user_in_chat E chat_id u, answer E m (AlreadyRegistered True)]
                              (w\<lparr>db := d\<rparr>)
          | None \<Rightarrow> answer E m (AlreadyRegistered False) (w\<lparr>db := d\<rparr>))"
      using Some p True c by (simp add: start_def Let_def)
    with Some p True c show ?thesis by (intro registered) auto
  next
    case False
    with Some p show ?thesis
      by (intro fresh[of u b]) (auto simp add: start_def Let_def)
  qed
qed

lemma verify_payload_effect [simp]:
  "fsm (verify_payload E u p w) = fsm w"
  "LAST_NOTICE_AT (verify_payload E u p w) = LAST_NOTICE_AT w"
  "NEED_DM_CACHE (verify_payload E u p w) = NEED_DM_CACHE w"
  "chat_perms (verify_payload E u p w) = chat_perms w"
  "api_log (verify_payload E u p w) = api_log w"
  "profiles (db (verify_payload E u p w)) = profiles (db w)"
  by (simp_all add: verify_payload_def add_pending_def split: list.splits option.splits)

lemma form_updates_effect [simp]:
  "db (set_state key st w) = db w" "LAST_NOTICE_AT (set_state key st w) = LAST_NOTICE_AT w"
  "NEED_DM_CACHE (set_state key st w) = NEED_DM_CACHE w" "chat_perms (set_state key st w) = chat_perms w"
  "api_log (set_state key st w) = api_log w"
  "db (update_data key k v w) = db w" "LAST_NOTICE_AT (update_data key k v w) = LAST_NOTICE_AT w"
  "NEED_DM_CACHE (update_data key k v w) = NEED_DM_CACHE w"
  "chat_perms (update_data key k v w) = chat_perms w" "api_log (update_data key k v w) = api_log w"
  "db (clear key w) = db w" "LAST_NOTICE_AT (clear key w) = LAST_NOTICE_AT w"
  "NEED_DM_CACHE (clear key w) = NEED_DM_CACHE w" "chat_perms (clear key w) = chat_perms w"
  "api_log (clear key w) = api_log w"
  by (simp_all add: set_state_def update_data_def clear_def)

lemma throttle_frame_start:
  "LAST_NOTICE_AT (fst (start E m w)) = LAST_NOTICE_AT w"
  "NEED_DM_CACHE (fst (start E m w)) = NEED_DM_CACHE w"
proof -
  show "LAST_NOTICE_AT (fst (start E m w)) = LAST_NOTICE_AT w"
  proof (cases rule: start_cases[of m E w])
    case (registered u b d chat)
    then show ?thesis by (cases "truthy chat") simp_all
  qed simp_all
  show "NEED_DM_CACHE (fst (start E m w)) = NEED_DM_CACHE w"
  proof (cases rule: start_cases[of m E w])
    case (registered u b d chat)
    then show ?thesis by (cases "truthy chat") simp_all
  qed simp_all
qed

lemma throttle_frame_confirm:
  "LAST_NOTICE_AT (fst (confirm E cb w)) = LAST_NOTICE_AT w"
  "NEED_DM_CACHE (fst (confirm E cb w)) = NEED_DM_CACHE w"
proof -
  show "LAST_NOTICE_AT (fst (confirm E cb w)) = LAST_NOTICE_AT w"
  proof (cases rule: confirm_cases[of E cb w])
    case (saved d d' chat)
    then show ?thesis by (cases "truthy chat") (simp_all add: confirm_saved_eq)
  qed simp_all
  show "NEED_DM_CACHE (fst (confirm E cb w)) = NEED_DM_CACHE w"
  proof (cases rule: confirm_cases[of E cb w])
    case (saved d d' chat)
    then show ?thesis by (cases "truthy chat") (simp_all add: confirm_saved_eq)
  qed simp_all
qed

lemma unlock_quiet [simp]:
  "LAST_NOTICE_AT (fst (unlock_user_in_chat E c u w)) = LAST_NOTICE_AT w"
  "NEED_DM_CACHE (fst (unlock_user_in_chat E c u w)) = NEED_DM_CACHE w"
  by simp_all

lemma throttle_frame_form:
  "LAST_NOTICE_AT (fst (reg_first_name E key m w)) = LAST_NOTICE_AT w"
  "NEED_DM_CACHE (fst (reg_first_name E key m w)) = NEED_DM_CACHE w"
  "LAST_NOTICE_AT (fst (reg_last_name E key m w)) = LAST_NOTICE_AT w"
  "NEED_DM_CACHE (fst (reg_last_name E key m w)) = NEED_DM_CACHE w"
  "LAST_NOTICE_AT (fst (reg_class E key m w)) = LAST_NOTICE_AT w"
  "NEED_DM_CACHE (fst (reg_class E key m w)) = NEED_DM_CACHE w"
  "LAST_NOTICE_AT (fst (reg_email E key m w)) = LAST_NOTICE_AT w"
  "NEED_DM_CACHE (fst (reg_email E key m w)) = NEED_DM_CACHE w"
  "LAST_NOTICE_AT (fst (edit_field E cb p st w)) = LAST_NOTICE_AT w"
  "NEED_DM_CACHE (fst (edit_field E cb p st w)) = NEED_DM_CACHE w"
  "LAST_NOTICE_AT (fst (info_cmd E m w)) = LAST_NOTICE_AT w"
  "NEED_DM_CACHE (fst (info_cmd E m w)) = NEED_DM_CACHE w"
  by (simp_all add: reg_first_name_def reg_last_name_def reg_class_def reg_email_def
      edit_field_def info_cmd_def Let_def)

lemma throttle_frame_join:
  "LAST_NOTICE_AT (fst (on_user_join E ev w)) = LAST_NOTICE_AT w"
  "NEED_DM_CACHE (fst (on_user_join E ev w)) = NEED_DM_CACHE w"
  by (simp_all add: on_user_join_def record_pending_def lock_member_def)

lemma throttle_frame_who:
  "LAST_NOTICE_AT (fst (who_cmd_private E m w)) = LAST_NOTICE_AT w"
  "NEED_DM_CACHE (fst (who_cmd_private E m w)) = NEED_DM_CACHE w"
  by (simp_all add: who_cmd_private_def split: sum.splits bool.splits option.splits)

lemma throttle_frame_remove:
  "LAST_NOTICE_AT (fst (remove_cmd E m w)) = LAST_NOTICE_AT w"
  "NEED_DM_CACHE (fst (remove_cmd E m w)) = NEED_DM_CACHE w"
  by (simp_all add: remove_cmd_def split: sum.splits bool.splits option.splits)

section \<open>Handlers that only talk\<close>

lemma talk_only_refl [simp]: "talk_only w w"
  by (simp add: talk_only_def)

lemma talk_only_trans: "talk_only w w1 \<Longrightarrow> talk_only w1 w2 \<Longrightarrow> talk_only w w2"
  by (fastforce simp add: talk_only_def)

lemma granted_plain: "plain_call c \<Longrightarrow> granted c p = p"
  by (cases c) simp_all

lemma talk_only_api: "plain_call c \<Longrightarrow> talk_only w (fst (api E c w))"
  by (cases c) (auto simp add: talk_only_def)

lemma talk_only_api2:
  "plain_call c \<Longrightarrow> plain_call c' \<Longrightarrow> talk_only w (fst (api E c' (fst (api E c w))))"
  by (blast intro: talk_only_trans talk_only_api)

lemma talk_only_files: "talk_only w w1 \<Longrightarrow> talk_only w (w1\<lparr>written_files := f\<rparr>)"
  by (simp add: talk_only_def)

lemma talk_only_is_admin: "talk_only w (fst (is_admin E c u w))"
  by (simp add: is_admin_fst talk_only_api)

lemma talk_only_ephemeral: "t \<noteq> NeedDmNotice \<Longrightarrow> talk_only w (fst (send_ephemeral_group_notice E c t w))"
  by (simp add: send_ephemeral_fst talk_only_api talk_only_api2)

lemma talk_only_answer: "t \<noteq> NeedDmNotice \<Longrightarrow> talk_only w (fst (answer E m t w))"
  by (simp add: talk_only_api)

lemma talk_only_write_export: "talk_only w (fst (write_export E m w))"
proof -
  have "talk_only (w\<lparr>written_files := written_files w @ [map csv_line (select_all_profiles (db w))]\<rparr>)
          (fst (write_export E m w))"
    by (simp add: write_export_def Let_def talk_only_api)
  moreover have "talk_only w (w\<lparr>written_files := written_files w @ [map csv_line (select_all_profiles (db w))]\<rparr>)"
    by (simp add: talk_only_def)
  ultimately show ?thesis by (rule talk_only_trans[rotated])
qed

lemma talk_only_who: "talk_only w (fst (who_cmd_private E m w))"
proof (cases "not_allowed E m")
  case (Inl e)
  then show ?thesis by (simp add: who_cmd_private_def)
next
  case (Inr refuse)
  show ?thesis
  proof (cases refuse)
    case True
    with Inr show ?thesis by (simp add: who_cmd_private_def talk_only_api)
  next
    case False
    show ?thesis
    proof (cases "target_arg E m")
      case (Inl e)
      with Inr False show ?thesis by (simp add: who_cmd_private_def)
    next
      case arg: (Inr a)
      show ?thesis
      proof (cases a)
        case None
        with Inr False arg show ?thesis by (simp add: who_cmd_private_def talk_only_api)
      next
        case (Some t)
        with Inr False arg show ?thesis
          by (cases "get_profile_row t (db w)") (simp_all add: who_cmd_private_def talk_only_api)
      qed
    qed
  qed
qed

lemma send_then_fst:
  "fst (case api E c w of
          (w2, None) \<Rightarrow> attempt E c' cs w2
        | (w2, Some e) \<Rightarrow> if e \<in> set cs' then (w2, None) else (w2, Some (TelegramError e))) =
     (if telegram E c = None then fst (api E c' (fst (api E c w))) else fst (api E c w))"
proof -
  obtain w2 r where a: "api E c w = (w2, r)" by (cases "api E c w") auto
  have r: "telegram E c = r"
    using api_effect(8)[of E c w] by (simp add: a)
  show ?thesis
    unfolding r a by (cases r) simp_all
qed

lemma talk_only_info: "talk_only w (fst (info_cmd E m w))"
  by (simp add: info_cmd_def talk_only_api)

lemma talk_only_export: "talk_only w (fst (export_csv E m w))"
proof (cases "m_chat_type m = PRIVATE")
  case True
  then show ?thesis by (simp add: export_csv_def talk_only_write_export)
next
  case False
  show ?thesis
  proof (cases "m_from_user m")
    case None
    with False show ?thesis by (simp add: export_csv_def)
  next
    case (Some p)
    obtain uid b where p: "p = (uid, b)" by (cases p) auto
    obtain w1 r where ia: "is_admin E (m_chat_id m) uid w = (w1, r)"
      by (cases "is_admin E (m_chat_id m) uid w") auto
    have w1: "talk_only w w1"
      using talk_only_is_admin[of w E "m_chat_id m" uid] by (simp add: ia)
    show ?thesis
    proof (cases r)
      case (Inl e)
      with False Some p ia w1 show ?thesis by (simp add: export_csv_def)
    next
      case (Inr adm)
      show ?thesis
      proof (cases adm)
        case True
        with Inr False Some p ia have "fst (export_csv E m w) = fst (write_export E m w1)"
          by (simp add: export_csv_def)
        with w1 talk_only_write_export[of w1 E m] show ?thesis
          by (simp add: talk_only_trans)
      next
        case F: False
        with Inr False Some p ia have "fst (export_csv E m w)
            = fst (send_ephemeral_group_notice E (m_chat_id m) ExportDenied w1)"
          by (simp add: export_csv_def)
        with w1 talk_only_ephemeral[of ExportDenied w1 E "m_chat_id m"] show ?thesis
          by (simp add: talk_only_trans)
      qed
    qed
  qed
qed

lemma talk_only_setup: "talk_only w (fst (setup_instructions E m w))"
proof (cases "m_chat_type m \<noteq> GROUP \<and> m_chat_type m \<noteq> SUPERGROUP")
  case True
  then show ?thesis by (simp add: setup_instructions_def talk_only_api)
next
  case False
  show ?thesis
  proof (cases "m_from_user m")
    case None
    with False show ?thesis by (auto simp add: setup_instructions_def)
  next
    case (Some p)
    obtain uid b where p: "p = (uid, b)" by (cases p) auto
    obtain w1 r where ia: "is_admin E (m_chat_id m) uid w = (w1, r)"
      by (cases "is_admin E (m_chat_id m) uid w") auto
    have w1: "talk_only w w1"
      using talk_only_is_admin[of w E "m_chat_id m" uid] by (simp add: ia)
    let ?send = "SendMessage (m_chat_id m) (SetupInstructions (start_link_ok E (m_chat_id m)))"
    show ?thesis
    proof (cases r)
      case (Inl e)
      with False Some p ia w1 show ?thesis by (auto simp add: setup_instructions_def)
    next
      case (Inr adm)
      show ?thesis
      proof (cases adm)
        case True
        have "fst (setup_instructions E m w) = fst (api E ?send w1)
              \<or> fst (setup_instructions E m w) = fst (api E (PinChatMessage (m_chat_id m)) (fst (api E ?send w1)))"
          using True Inr False Some p ia
          by (auto simp add: setup_instructions_def send_then_fst)
        then show ?thesis
          using w1 talk_only_api[of ?send w1 E] talk_only_api2[of ?send "PinChatMessage (m_chat_id m)" w1 E]
          by (auto intro: talk_only_trans)
      next
        case F: False
        with Inr False Some p ia have "fst (setup_instructions E m w)
            = fst (send_ephemeral_group_notice E (m_chat_id m) SetupAdminsOnly w1)"
          by (auto simp add: setup_instructions_def)
        with w1 talk_only_ephemeral[of SetupAdminsOnly w1 E "m_chat_id m"] show ?thesis
          by (simp add: talk_only_trans)
      qed
    qed
  qed
qed

section \<open>Which handler takes an update\<close>

lemma dispatch_which:
  obtains (unhandled) "dispatch E u w = (w, None)"
  | (guard) m where "u = MessageUpdate m" "m_chat_type m = GROUP \<or> m_chat_type m = SUPERGROUP"
      "dispatch E u w = guard_group_messages E m w"
  | (start) m where "u = MessageUpdate m" "m_chat_type m \<noteq> GROUP" "m_chat_type m \<noteq> SUPERGROUP"
      "m_command m = Some ''start''" "dispatch E u w = start E m w"
  | (field) m uid b h where "u = MessageUpdate m" "m_chat_type m \<noteq> GROUP" "m_chat_type m \<noteq> SUPERGROUP"
      "m_from_user m = Some (uid, b)"
      "s_state (fsm w (m_chat_id m, uid)) \<noteq> None" "s_state (fsm w (m_chat_id m, uid)) \<noteq> Some Reg_confirm"
      "h \<in> {reg_first_name, reg_last_name, reg_class, reg_email}"
      "dispatch E u w = h E (m_chat_id m, uid) m w"
  | (admin) m h where "u = MessageUpdate m"
      "h \<in> {who_cmd_private, info_cmd, export_csv, setup_instructions}" "dispatch E u w = h E m w"
  | (remove) m where "u = MessageUpdate m" "dispatch E u w = remove_cmd E m w"
  | (edit) cb prompt st where "u = CallbackUpdate cb"
      "s_state (fsm w (cb_chat_id cb, cb_from_user_id cb)) = Some Reg_confirm"
      "dispatch E u w = edit_field E cb prompt st w"
      "prompt \<in> {ReenterFirstName, ReenterLastName, ReenterClass, ReenterEmail}"
  | (confirm) cb where "u = CallbackUpdate cb"
      "s_state (fsm w (cb_chat_id cb, cb_from_user_id cb)) = Some Reg_confirm"
      "dispatch E u w = confirm E cb w"
  | (join) ev where "u = ChatMemberUpdate ev" "dispatch E u w = on_user_join E ev w"
proof (cases u)
  case (MessageUpdate m)
  show ?thesis
  proof (cases "m_chat_type m = GROUP \<or> m_chat_type m = SUPERGROUP")
    case True
    with MessageUpdate show ?thesis by (intro guard[of m]) (auto simp add: dispatch_message_def)
  next
    case ng: False
    show ?thesis
    proof (cases "m_command m = Some ''start''")
      case True
      with MessageUpdate ng show ?thesis by (intro start[of m]) (auto simp add: dispatch_message_def)
    next
      case ns: False
      show ?thesis
      proof (cases "current_state w m \<in> {Some Reg_first_name, Some Reg_last_name, Some Reg_school_cls, Some Reg_email}")
        case True
        then obtain uid b where fu: "m_from_user m = Some (uid, b)"
          and cs: "current_state w m = s_state (fsm w (m_chat_id m, uid))"
          by (cases "m_from_user m") (auto simp add: current_state_def)
        have mk: "message_key m = (m_chat_id m, uid)" by (simp add: message_key_def fu)
        from True cs consider "s_state (fsm w (m_chat_id m, uid)) = Some Reg_first_name"
          | "s_state (fsm w (m_chat_id m, uid)) = Some Reg_last_name"
          | "s_state (fsm w (m_chat_id m, uid)) = Some Reg_school_cls"
          | "s_state (fsm w (m_chat_id m, uid)) = Some Reg_email" by auto
        then show ?thesis
        proof cases
          case 1
          with MessageUpdate ng ns fu cs mk show ?thesis
            by (intro field[of m uid b reg_first_name]) (auto simp add: dispatch_message_def)
        next
          case 2
          with MessageUpdate ng ns fu cs mk show ?thesis
            by (intro field[of m uid b reg_last_name]) (auto simp add: dispatch_message_def)
        next
          case 3
          with MessageUpdate ng ns fu cs mk show ?thesis
            by (intro field[of m uid b reg_class]) (auto simp add: dispatch_message_def)
        next
          case 4
          with MessageUpdate ng ns fu cs mk show ?thesis
            by (intro field[of m uid b reg_email]) (auto simp add: dispatch_message_def)
        qed
      next
        case nf: False
        then have nf': "current_state w m \<noteq> Some Reg_first_name" "current_state w m \<noteq> Some Reg_last_name"
          "current_state w m \<noteq> Some Reg_school_cls" "current_state w m \<noteq> Some Reg_email" by auto
        have d: "dispatch E u w =
           (if m_command m = Some ''who'' \<and> m_chat_type m = PRIVATE then who_cmd_private E m w
            else if m_command m = Some ''remove'' \<and> m_chat_type m = PRIVATE then remove_cmd E m w
            else if m_command m = Some ''info'' then info_cmd E m w
            else if m_command m = Some ''export'' then export_csv E m w
            else if m_command m = Some ''setup_instructions'' then setup_instructions E m w
            else (w, None))"
          using MessageUpdate ng ns nf' by (simp add: dispatch_message_def)
        show ?thesis
        proof (cases "m_command m = Some ''who'' \<and> m_chat_type m = PRIVATE")
          case True
          with d MessageUpdate show ?thesis by (intro admin[of m who_cmd_private]) simp_all
        next
          case n1: False
          show ?thesis
          proof (cases "m_command m = Some ''remove'' \<and> m_chat_type m = PRIVATE")
            case True
            with d n1 MessageUpdate show ?thesis by (intro remove[of m]) simp_all
          next
            case n2: False
            show ?thesis
            proof (cases "m_command m = Some ''info''")
              case True
              with d n1 n2 MessageUpdate show ?thesis by (intro admin[of m info_cmd]) simp_all
            next
              case n3: False
              show ?thesis
              proof (cases "m_command m = Some ''export''")
                case True
                with d n1 n2 n3 MessageUpdate show ?thesis by (intro admin[of m export_csv]) simp_all
              next
                case n4: False
                show ?thesis
                proof (cases "m_command m = Some ''setup_instructions''")
                  case True
                  with d n1 n2 n3 n4 MessageUpdate show ?thesis
                    by (intro admin[of m setup_instructions]) simp_all
                next
                  case False
                  with d n1 n2 n3 n4 have "dispatch E u w = (w, None)" by simp
                  then show ?thesis by (rule unhandled)
                qed
              qed
            qed
          qed
        qed
      qed
    qed
  qed
next
  case (CallbackUpdate cb)
  show ?thesis
  proof (cases "s_state (fsm w (cb_chat_id cb, cb_from_user_id cb)) = Some Reg_confirm")
    case False
    with CallbackUpdate have "dispatch E u w = (w, None)" by (simp add: dispatch_callback_def)
    then show ?thesis by (rule unhandled)
  next
    case True
    consider (a) "cb_data cb = ''edit_first''" | (b) "cb_data cb \<noteq> ''edit_first''" "cb_data cb = ''edit_last''"
      | (c) "cb_data cb \<noteq> ''edit_first''" "cb_data cb \<noteq> ''edit_last''" "cb_data cb = ''edit_cls''"
      | (d) "cb_data cb \<noteq> ''edit_first''" "cb_data cb \<noteq> ''edit_last''" "cb_data cb \<noteq> ''edit_cls''"
            "cb_data cb = ''edit_email''"
      | (e) "cb_data cb \<noteq> ''edit_first''" "cb_data cb \<noteq> ''edit_last''" "cb_data cb \<noteq> ''edit_cls''"
            "cb_data cb \<noteq> ''edit_email''" "cb_data cb = ''confirm''"
      | (f) "cb_data cb \<noteq> ''edit_first''" "cb_data cb \<noteq> ''edit_last''" "cb_data cb \<noteq> ''edit_cls''"
            "cb_data cb \<noteq> ''edit_email''" "cb_data cb \<noteq> ''confirm''"
      by blast
    then show ?thesis
    proof cases
      case a with CallbackUpdate True show ?thesis
        by (intro edit[of cb ReenterFirstName Reg_first_name]) (simp_all add: dispatch_callback_def edit_first_def)
    next
      case b with CallbackUpdate True show ?thesis
        by (intro edit[of cb ReenterLastName Reg_last_name]) (simp_all add: dispatch_callback_def edit_last_def)
    next
      case c with CallbackUpdate True show ?thesis
        by (intro edit[of cb ReenterClass Reg_school_cls]) (simp_all add: dispatch_callback_def edit_cls_def)
    next
      case d with CallbackUpdate True show ?thesis
        by (intro edit[of cb ReenterEmail Reg_email]) (simp_all add: dispatch_callback_def edit_email_def)
    next
      case e with CallbackUpdate True show ?thesis
        by (intro confirm[of cb]) (simp_all add: dispatch_callback_def)
    next
      case f with CallbackUpdate True have "dispatch E u w = (w, None)"
        by (simp add: dispatch_callback_def)
      then show ?thesis by (rule unhandled)
    qed
  qed
next
  case (ChatMemberUpdate ev)
  show ?thesis
  proof (cases "j_new_status ev = ''member''")
    case True
    with ChatMemberUpdate show ?thesis by (intro join[of ev]) (simp_all add: dispatch_chat_member_def)
  next
    case False
    with ChatMemberUpdate have "dispatch E u w = (w, None)" by (simp add: dispatch_chat_member_def)
    then show ?thesis by (rule unhandled)
  qed
qed

section \<open>What each handler may change\<close>

lemma locked_not_open [simp]: "locked_perms \<noteq> open_perms" "open_perms \<noteq> locked_perms"
  by (simp_all add: locked_perms_def open_perms_def)

lemma throttle_notice_quiet [simp]:
  "fsm (fst (throttle_notice E c u w)) = fsm w"
  "db (fst (throttle_notice E c u w)) = db w"
  "chat_perms (fst (throttle_notice E c u w)) = chat_perms w"
  by (simp_all add: throttle_notice_fst)

lemma dm_or_notice_quiet [simp]:
  "fsm (fst (dm_or_notice E c u w)) = fsm w"
  "db (fst (dm_or_notice E c u w)) = db w"
  "chat_perms (fst (dm_or_notice E c u w)) = chat_perms w"
  by (simp_all add: dm_or_notice_fst split: option.splits)

lemma add_pending_profiles [simp]: "profiles (add_pending now u c d) = profiles d"
  by (simp add: add_pending_def)

lemma guard_step:
  "fsm (fst (guard_group_messages E m w)) = fsm w"
  "profiles (db (fst (guard_group_messages E m w))) = profiles (db w)"
  "chat_perms (fst (guard_group_messages E m w)) k = Some open_perms \<Longrightarrow> chat_perms w k = Some open_perms"
  by (auto simp add: guard_fst record_pending_def lock_member_def split: option.splits if_splits)

lemma join_step:
  "fsm (fst (on_user_join E ev w)) = fsm w"
  "profiles (db (fst (on_user_join E ev w))) = profiles (db w)"
  "chat_perms (fst (on_user_join E ev w)) k = Some open_perms \<Longrightarrow> chat_perms w k = Some open_perms"
  by (auto simp add: on_user_join_def record_pending_def lock_member_def split: option.splits if_splits)

lemma field_step:
  assumes "h \<in> {reg_first_name, reg_last_name, reg_class, reg_email}"
  shows "k \<noteq> key \<Longrightarrow> fsm (fst (h E key m w)) k = fsm w k"
    and "db (fst (h E key m w)) = db w"
    and "chat_perms (fst (h E key m w)) = chat_perms w"
    and "LAST_NOTICE_AT (fst (h E key m w)) = LAST_NOTICE_AT w"
  using assms
  by (auto simp add: reg_first_name_def reg_last_name_def reg_class_def reg_email_def Let_def
      update_data_def set_state_def)

lemma edit_step:
  "k \<noteq> (cb_chat_id cb, cb_from_user_id cb) \<Longrightarrow> fsm (fst (edit_field E cb p st w)) k = fsm w k"
  "db (fst (edit_field E cb p st w)) = db w"
  "chat_perms (fst (edit_field E cb p st w)) = chat_perms w"
  by (simp_all add: edit_field_def set_state_def)

lemma remove_step:
  "fsm (fst (remove_cmd E m w)) = fsm w"
  "chat_perms (fst (remove_cmd E m w)) = chat_perms w"
  "is_registered v (db (fst (remove_cmd E m w))) \<Longrightarrow> is_registered v (db w)"
  by (auto simp add: remove_cmd_def delete_profile_def is_registered_def list_ex_iff
      split: sum.splits bool.splits option.splits if_splits)


lemma start_step:
  assumes fu: "m_from_user m = Some (u, b)"
  shows "k \<noteq> (m_chat_id m, u) \<Longrightarrow> fsm (fst (start E m w)) k = fsm w k"
    and "is_registered u (db w) \<Longrightarrow> fsm (fst (start E m w)) = fsm w"
    and "profiles (db (fst (start E m w))) = profiles (db w)"
    and "chat_perms (fst (start E m w)) (c, v) = Some open_perms \<Longrightarrow>
           chat_perms w (c, v) = Some open_perms \<or> (v = u \<and> is_registered u (db w))"
proof -
  show "k \<noteq> (m_chat_id m, u) \<Longrightarrow> fsm (fst (start E m w)) k = fsm w k"
  proof (cases rule: start_cases[of m E w])
    case (registered u' b' d chat)
    then show ?thesis by (cases "truthy chat") simp_all
  next
    case (fresh u' b' payload)
    assume "k \<noteq> (m_chat_id m, u)"
    with fresh fu show ?thesis by (simp add: set_state_def)
  qed (simp_all split: if_splits)
  show "is_registered u (db w) \<Longrightarrow> fsm (fst (start E m w)) = fsm w"
  proof (cases rule: start_cases[of m E w])
    case (registered u' b' d chat)
    then show ?thesis by (cases "truthy chat") simp_all
  next
    case (fresh u' b' payload)
    assume "is_registered u (db w)"
    with fresh fu show ?thesis by simp
  qed (simp_all split: if_splits)
  show "profiles (db (fst (start E m w))) = profiles (db w)"
  proof (cases rule: start_cases[of m E w])
    case (registered u' b' d chat)
    then show ?thesis
      using consume_pending_profiles[of u' "db w" d chat] by (cases "truthy chat") simp_all
  qed (simp_all split: if_splits)
  show "chat_perms (fst (start E m w)) (c, v) = Some open_perms \<Longrightarrow>
           chat_perms w (c, v) = Some open_perms \<or> (v = u \<and> is_registered u (db w))"
  proof (cases rule: start_cases[of m E w])
    case (registered u' b' d chat)
    assume "chat_perms (fst (start E m w)) (c, v) = Some open_perms"
    with registered fu show ?thesis
      by (cases "truthy chat") (auto split: if_splits)
  qed (simp_all split: if_splits)
qed

lemma start_anonymous: "m_from_user m = None \<Longrightarrow> fst (start E m w) = w"
  by (simp add: start_def Let_def)

lemma confirm_step:
  "k \<noteq> (cb_chat_id cb, cb_from_user_id cb) \<Longrightarrow> fsm (fst (confirm E cb w)) k = fsm w k"
  "is_registered v (db (fst (confirm E cb w))) \<Longrightarrow> is_registered v (db w) \<or> v = cb_from_user_id cb"
  "s_state (fsm (fst (confirm E cb w)) (cb_chat_id cb, cb_from_user_id cb)) \<noteq> None \<Longrightarrow>
     profiles (db (fst (confirm E cb w))) = profiles (db w)"
  "chat_perms (fst (confirm E cb w)) (c, v) = Some open_perms \<Longrightarrow>
     chat_perms w (c, v) = Some open_perms \<or> v = cb_from_user_id cb"
proof -
  show "k \<noteq> (cb_chat_id cb, cb_from_user_id cb) \<Longrightarrow> fsm (fst (confirm E cb w)) k = fsm w k"
  proof (cases rule: confirm_cases[of E cb w])
    case invalid
    assume "k \<noteq> (cb_chat_id cb, cb_from_user_id cb)"
    with invalid show ?thesis by (simp add: set_state_def)
  next
    case (saved d d' chat)
    assume "k \<noteq> (cb_chat_id cb, cb_from_user_id cb)"
    with confirm_saved(2)[OF saved] show ?thesis by simp
  qed (simp_all split: if_splits)
  show "is_registered v (db (fst (confirm E cb w))) \<Longrightarrow> is_registered v (db w) \<or> v = cb_from_user_id cb"
  proof (cases rule: confirm_cases[of E cb w])
    case (saved d d' chat)
    assume a: "is_registered v (db (fst (confirm E cb w)))"
    have "profiles d' = profiles d" by (rule consume_pending_profiles[OF saved(2)])
    with a confirm_saved(1)[OF saved] have "is_registered v d" by (simp add: is_registered_def)
    with save_profile_registers(1)[OF saved(1)] show ?thesis by auto
  qed (simp_all split: if_splits)
  show "s_state (fsm (fst (confirm E cb w)) (cb_chat_id cb, cb_from_user_id cb)) \<noteq> None \<Longrightarrow>
     profiles (db (fst (confirm E cb w))) = profiles (db w)"
  proof (cases rule: confirm_cases[of E cb w])
    case (saved d d' chat)
    assume "s_state (fsm (fst (confirm E cb w)) (cb_chat_id cb, cb_from_user_id cb)) \<noteq> None"
    with confirm_saved(2)[OF saved] show ?thesis by simp
  qed (simp_all split: if_splits)
  show "chat_perms (fst (confirm E cb w)) (c, v) = Some open_perms \<Longrightarrow>
     chat_perms w (c, v) = Some open_perms \<or> v = cb_from_user_id cb"
  proof (cases rule: confirm_cases[of E cb w])
    case (saved d d' chat)
    assume "chat_perms (fst (confirm E cb w)) (c, v) = Some open_perms"
    with confirm_saved(4)[OF saved] show ?thesis
      by (cases "truthy chat") (auto split: if_splits)
  qed (simp_all split: if_splits)
qed

section \<open>The form contexts belong to unregistered users\<close>

text \<open>
  A form context is opened by \<open>/start\<close> in a private chat, where the chat identifier is
  the user's, and only for a user without a profile; the one handler that stores a
  profile clears the context. So \<open>form_inv\<close> holds at the start and after every update
  of a private chat or a group.
\<close>

lemma form_invI:
  assumes "\<And>c v. s_state (fsm w (c, v)) \<noteq> None \<Longrightarrow> c = v \<and> \<not> is_registered v (db w)"
  shows "form_inv w"
  using assms by (simp add: form_inv_def)

lemma form_invD:
  "form_inv w \<Longrightarrow> s_state (fsm w (c, v)) \<noteq> None \<Longrightarrow> c = v \<and> \<not> is_registered v (db w)"
  by (simp add: form_inv_def)

lemma form_inv_same:
  "form_inv w \<Longrightarrow> fsm w' = fsm w \<Longrightarrow> (\<And>v. is_registered v (db w') \<Longrightarrow> is_registered v (db w))
     \<Longrightarrow> form_inv w'"
  by (auto simp add: form_inv_def)

lemma form_inv_key:
  assumes inv: "form_inv w"
    and others: "\<And>k. k \<noteq> (c, c) \<Longrightarrow> fsm w' k = fsm w k"
    and reg: "\<And>v. is_registered v (db w') \<Longrightarrow> is_registered v (db w)"
    and key: "s_state (fsm w' (c, c)) \<noteq> None \<Longrightarrow> \<not> is_registered c (db w)"
  shows "form_inv w'"
proof (rule form_invI)
  fix c' v assume st: "s_state (fsm w' (c', v)) \<noteq> None"
  show "c' = v \<and> \<not> is_registered v (db w')"
  proof (cases "(c', v) = (c, c)")
    case True
    with st key reg show ?thesis by auto
  next
    case False
    with st others[OF False] have "s_state (fsm w (c', v)) \<noteq> None" by simp
    with form_invD[OF inv] reg show ?thesis by blast
  qed
qed

lemma dispatch_inv:
  assumes inv: "form_inv w" and wf: "wf_update u"
  shows "form_inv (fst (dispatch E u w))"
proof (cases rule: dispatch_which[of E u w])
  case unhandled
  with inv show ?thesis by simp
next
  case (guard m)
  show ?thesis
    by (rule form_inv_same[OF inv]) (simp_all add: guard(3) guard_step is_registered_def)
next
  case (start m)
  from wf start obtain b where fu: "m_from_user m = Some (m_chat_id m, b)" by (cases "m_chat_type m") auto
  note ss = start_step[OF fu]
  show ?thesis
  proof (rule form_inv_key[OF inv, of "m_chat_id m"])
    fix k :: "int \<times> int" assume "k \<noteq> (m_chat_id m, m_chat_id m)"
    then show "fsm (fst (dispatch E u w)) k = fsm w k" by (simp add: start(5) ss(1))
  next
    fix v assume "is_registered v (db (fst (dispatch E u w)))"
    then show "is_registered v (db w)" by (simp add: start(5) ss(3) is_registered_def)
  next
    assume st: "s_state (fsm (fst (dispatch E u w)) (m_chat_id m, m_chat_id m)) \<noteq> None"
    show "\<not> is_registered (m_chat_id m) (db w)"
    proof
      assume r: "is_registered (m_chat_id m) (db w)"
      with st have "s_state (fsm w (m_chat_id m, m_chat_id m)) \<noteq> None"
        by (simp add: start(5) ss(2))
      with form_invD[OF inv] r show False by blast
    qed
  qed
next
  case (field m uid b h)
  from form_invD[OF inv field(5)] have c: "m_chat_id m = uid" and nr: "\<not> is_registered uid (db w)"
    by auto
  note fs = field_step[OF field(7)]
  show ?thesis
  proof (rule form_inv_key[OF inv, of uid])
    fix k :: "int \<times> int" assume "k \<noteq> (uid, uid)"
    then show "fsm (fst (dispatch E u w)) k = fsm w k" using fs(1)[of k "(m_chat_id m, uid)"] by (simp add: field(8) c)
  next
    fix v assume "is_registered v (db (fst (dispatch E u w)))"
    then show "is_registered v (db w)" by (simp add: field(8) fs(2))
  next
    show "\<not> is_registered uid (db w)" by (rule nr)
  qed
next
  case (admin m h)
  have "talk_only w (fst (h E m w))"
    using admin(2) by (auto simp add: talk_only_who talk_only_info talk_only_export talk_only_setup)
  then show ?thesis
    by (intro form_inv_same[OF inv]) (simp_all add: admin(3) talk_only_def)
next
  case (remove m)
  show ?thesis
    by (rule form_inv_same[OF inv]) (simp_all add: remove(2) remove_step)
next
  case (edit cb prompt st)
  from wf edit have c: "cb_chat_id cb = cb_from_user_id cb" by simp
  from form_invD[OF inv, of "cb_chat_id cb" "cb_from_user_id cb"] edit(2)
  have nr: "\<not> is_registered (cb_from_user_id cb) (db w)" by simp
  show ?thesis
  proof (rule form_inv_key[OF inv, of "cb_from_user_id cb"])
    fix k :: "int \<times> int" assume "k \<noteq> (cb_from_user_id cb, cb_from_user_id cb)"
    then show "fsm (fst (dispatch E u w)) k = fsm w k" using edit_step(1)[of k cb] by (simp add: edit(3) c)
  next
    fix v assume "is_registered v (db (fst (dispatch E u w)))"
    then show "is_registered v (db w)" by (simp add: edit(3) edit_step(2))
  next
    show "\<not> is_registered (cb_from_user_id cb) (db w)" by (rule nr)
  qed
next
  case (confirm cb)
  from wf confirm have c: "cb_chat_id cb = cb_from_user_id cb" by simp
  from form_invD[OF inv, of "cb_chat_id cb" "cb_from_user_id cb"] confirm(2)
  have nr: "\<not> is_registered (cb_from_user_id cb) (db w)" by simp
  let ?w' = "fst (confirm E cb w)"
  have "form_inv ?w'"
  proof (rule form_invI)
    fix c' v assume st: "s_state (fsm ?w' (c', v)) \<noteq> None"
    show "c' = v \<and> \<not> is_registered v (db ?w')"
    proof (cases "(c', v) = (cb_chat_id cb, cb_from_user_id cb)")
      case True
      with st have "profiles (db ?w') = profiles (db w)" by (simp add: confirm_step(3))
      then have "is_registered v (db ?w') = is_registered v (db w)" by (simp add: is_registered_def)
      with True c nr show ?thesis by simp
    next
      case False
      with st confirm_step(1)[OF False] have "s_state (fsm w (c', v)) \<noteq> None" by simp
      from form_invD[OF inv this] have cv: "c' = v" and nrv: "\<not> is_registered v (db w)" by auto
      have "\<not> is_registered v (db ?w')"
      proof
        assume "is_registered v (db ?w')"
        from confirm_step(2)[OF this] nrv have "v = cb_from_user_id cb" by simp
        with cv c False show False by simp
      qed
      with cv show ?thesis by simp
    qed
  qed
  then show ?thesis by (simp add: confirm(3))
next
  case (join ev)
  show ?thesis
    by (rule form_inv_same[OF inv]) (simp_all add: join(2) join_step is_registered_def)
qed

lemma form_inv_initial: "form_inv initial_world"
  by (simp add: form_inv_def initial_world_def)

lemma run_inv:
  "form_inv w \<Longrightarrow> list_all (\<lambda>p. wf_update (snd p)) us \<Longrightarrow> form_inv (run us w)"
proof (induction us arbitrary: w)
  case Nil
  then show ?case by simp
next
  case (Cons p us)
  obtain E u where p: "p = (E, u)" by (cases p)
  from Cons.prems have "form_inv (fst (dispatch E u w))"
    by (simp add: p dispatch_inv)
  with Cons show ?case by (simp add: p)
qed

section \<open>A registered user sends /start\<close>

lemma start_registered_eq:
  assumes fu: "m_from_user m = Some (uid, b)" and reg: "is_registered uid (db w)"
    and cons: "consume_pending uid (db w) = (d, chat)"
  shows "start E m w =
           (case truthy chat of
              Some chat_id \<Rightarrow> run_steps [unlock_user_in_chat E chat_id uid, answer E m (AlreadyRegistered True)]
                                (w\<lparr>db := d\<rparr>)
            | None \<Rightarrow> answer E m (AlreadyRegistered False) (w\<lparr>db := d\<rparr>))"
  using assms by (simp add: start_def Let_def)

lemma start_registered:
  assumes fu: "m_from_user m = Some (uid, b)" and reg: "is_registered uid (db w)"
    and cons: "consume_pending uid (db w) = (d, chat)"
  shows "db (fst (start E m w)) = d"
    and "restrict_calls w (fst (start E m w)) =
           (case truthy chat of None \<Rightarrow> []
            | Some c \<Rightarrow> [RestrictChatMember c uid open_perms])"
    and "chat_perms (fst (start E m w)) =
           (case truthy chat of None \<Rightarrow> chat_perms w
            | Some c \<Rightarrow>
                if telegram E (RestrictChatMember c uid open_perms) = None
                then (chat_perms w)((c, uid) \<mapsto> open_perms) else chat_perms w)"
proof -
  note eq = start_registered_eq[OF fu reg cons]
  show "db (fst (start E m w)) = d"
    by (cases "truthy chat") (simp_all add: eq)
  show "restrict_calls w (fst (start E m w)) =
           (case truthy chat of None \<Rightarrow> []
            | Some c \<Rightarrow> [RestrictChatMember c uid open_perms])"
    by (cases "truthy chat") (simp_all add: eq restrict_calls_def new_calls_def)
  show "chat_perms (fst (start E m w)) =
           (case truthy chat of None \<Rightarrow> chat_perms w
            | Some c \<Rightarrow>
                if telegram E (RestrictChatMember c uid open_perms) = None
                then (chat_perms w)((c, uid) \<mapsto> open_perms) else chat_perms w)"
    by (cases "truthy chat") (simp_all add: eq)
qed

lemma start_consumes_latest_row:
  assumes fu: "m_from_user m = Some (uid, b)" and reg: "is_registered uid (db w)"
    and pk: "pending_key_unique (db w)"
    and ne: "pending_of uid (db w) \<noteq> []"
    and w': "w' = fst (start E m w)"
  shows "\<exists>row \<in> set (pending_of uid (db w)).
           (\<forall>r \<in> set (pending_of uid (db w)). q_created_at r \<le> q_created_at row)
           \<and> db w' = (db w)\<lparr>pending := remove1 row (pending (db w))\<rparr>
           \<and> restrict_calls w w' =
               (if q_chat_id row = 0 then [] else [RestrictChatMember (q_chat_id row) uid open_perms])
           \<and> (q_chat_id row \<noteq> 0
                \<and> telegram E (RestrictChatMember (q_chat_id row) uid open_perms) = None
                \<longrightarrow> chat_perms w' (q_chat_id row, uid) = Some open_perms)
           \<and> (q_chat_id row = 0 \<longrightarrow> chat_perms w' = chat_perms w)
           \<and> (\<forall>c. c \<noteq> q_chat_id row \<longrightarrow> chat_perms w' (c, uid) = chat_perms w (c, uid))"
proof -
  from ne obtain d c where cons: "consume_pending uid (db w) = (d, Some c)"
    using consume_pending_nonempty[of uid "db w"] by auto
  from consume_pending_Some[OF cons pk] obtain row where
    mem: "row \<in> set (pending_of uid (db w))" and c: "q_chat_id row = c"
    and mx: "\<forall>r \<in> set (pending_of uid (db w)). q_created_at r \<le> q_created_at row"
    and d: "d = (db w)\<lparr>pending := remove1 row (pending (db w))\<rparr>"
    by blast
  have tr: "truthy (Some c) = (if c = 0 then None else Some c)" by (simp add: truthy_def)
  note sr = start_registered[OF fu reg cons, of E, unfolded tr, folded w']
  have p1: "db w' = (db w)\<lparr>pending := remove1 row (pending (db w))\<rparr>"
    using sr(1) d by simp
  have p2: "restrict_calls w w' =
               (if q_chat_id row = 0 then [] else [RestrictChatMember (q_chat_id row) uid open_perms])"
    using sr(2) c by simp
  have p3: "q_chat_id row \<noteq> 0
                \<and> telegram E (RestrictChatMember (q_chat_id row) uid open_perms) = None
                \<longrightarrow> chat_perms w' (q_chat_id row, uid) = Some open_perms"
    using sr(3) c by simp
  have p4: "q_chat_id row = 0 \<longrightarrow> chat_perms w' = chat_perms w"
    using sr(3) c by simp
  have p5: "\<forall>c'. c' \<noteq> q_chat_id row \<longrightarrow> chat_perms w' (c', uid) = chat_perms w (c', uid)"
    using sr(3) c by simp
  show ?thesis
    by (rule bexI[OF _ mem]) (intro conjI mx p1 p2 p3 p4 p5)
qed

lemma start_nothing_pending:
  assumes fu: "m_from_user m = Some (uid, b)" and reg: "is_registered uid (db w)"
    and em: "pending_of uid (db w) = []"
  shows "db (fst (start E m w)) = db w" and "chat_perms (fst (start E m w)) = chat_perms w"
    and "restrict_calls w (fst (start E m w)) = []"
proof -
  obtain d chat where cons: "consume_pending uid (db w) = (d, chat)"
    by (cases "consume_pending uid (db w)") auto
  have "chat = None"
  proof (cases chat)
    case (Some c)
    with cons consume_pending_Some[of uid "db w" d c] show ?thesis
      using em by (auto simp add: consume_pending_def pending_of_def split: option.splits)
  qed simp
  with cons consume_pending_None[of uid "db w" d] have d: "d = db w" and cn: "consume_pending uid (db w) = (d, None)"
    by auto
  note sr = start_registered[OF fu reg cn, of E]
  show "db (fst (start E m w)) = db w" using sr(1) d by simp
  show "chat_perms (fst (start E m w)) = chat_perms w" using sr(3) by (simp add: truthy_def)
  show "restrict_calls w (fst (start E m w)) = []" using sr(2) by (simp add: truthy_def)
qed

lemma dispatch_start_dm:
  "m_chat_type m = PRIVATE \<Longrightarrow> m_command m = Some ''start'' \<Longrightarrow>
     dispatch E (MessageUpdate m) w = start E m w"
  by (simp add: dispatch_message_def)

lemma dispatch_only_start:
  assumes inv: "form_inv w" and wf: "wf_update u" and reg: "is_registered uid (db w)"
    and opened: "chat_perms (fst (dispatch E u w)) (c, uid) = Some open_perms"
    and closed: "chat_perms w (c, uid) \<noteq> Some open_perms"
  shows "start_from uid u"
proof (cases rule: dispatch_which[of E u w])
  case unhandled
  with opened closed show ?thesis by simp
next
  case (guard m)
  from opened closed guard_step(3)[of E m w "(c, uid)"] show ?thesis by (simp add: guard(3))
next
  case (start m)
  from wf start obtain b where fu: "m_from_user m = Some (m_chat_id m, b)"
    by (cases "m_chat_type m") auto
  from opened closed start_step(4)[OF fu, of E w c uid] have "uid = m_chat_id m"
    by (simp add: start(5))
  with start fu show ?thesis by simp
next
  case (field m v b h)
  from opened closed field_step(3)[OF field(7), of E "(m_chat_id m, v)" m w] show ?thesis
    by (simp add: field(8))
next
  case (admin m h)
  have "talk_only w (fst (h E m w))"
    using admin(2) by (auto simp add: talk_only_who talk_only_info talk_only_export talk_only_setup)
  with opened closed show ?thesis by (simp add: admin(3) talk_only_def)
next
  case (remove m)
  from opened closed show ?thesis by (simp add: remove(2) remove_step)
next
  case (edit cb prompt st)
  from opened closed show ?thesis by (simp add: edit(3) edit_step)
next
  case (confirm cb)
  from wf confirm have c: "cb_chat_id cb = cb_from_user_id cb" by simp
  from form_invD[OF inv, of "cb_chat_id cb" "cb_from_user_id cb"] confirm(2)
  have nr: "\<not> is_registered (cb_from_user_id cb) (db w)" by simp
  from opened closed confirm_step(4)[of E cb w c uid] have "uid = cb_from_user_id cb"
    by (simp add: confirm(3))
  with nr reg show ?thesis by simp
next
  case (join ev)
  from opened closed join_step(3)[of E ev w "(c, uid)"] show ?thesis by (simp add: join(2))
qed

lemma two_confirmed_inv: "form_inv w_two_confirmed"
proof -
  have "form_inv w_two_pending"
    by (simp add: form_inv_def w_two_pending_def initial_world_def d_two_pending_def is_registered_def)
  moreover have "s_state (fsm w_two_pending (7, 7)) = Some Reg_confirm"
    by (simp add: w_two_pending_def)
  ultimately show ?thesis
    using dispatch_inv[of w_two_pending "CallbackUpdate (press 7 ''confirm'')" "E_at t3"]
      dispatch_confirm[of w_two_pending 7 "E_at t3"]
    by (simp add: w_two_confirmed_def press_def)
qed

text \<open>
  C9, as amended. A user with a profile sends \<open>/start\<close> in a private chat. No form
  context is changed, so no registration session is started, and the user has none
  afterwards; the profiles stay as they are. When the user has pending entries (in
  distinct chats, the table's key), exactly one is removed, one whose \<open>created_at\<close> is
  greatest among the user's. If its chat identifier is not zero, the only change of
  permissions requested is the opening of that chat, which is open afterwards when the
  platform accepts the request; if it is zero, which the source reads as no chat, the
  entry is removed and nothing is requested. The user's permissions in every other chat
  are as before. With no pending entry nothing is consumed and no permission changes.
  And this is the only path: whenever an update of a private chat or a group turns a
  chat of the registered user from not open to open, that update is a \<open>/start\<close> sent by
  this user outside the groups.
\<close>

theorem registered_start_consumes_latest:
  assumes reg: "is_registered uid (db w)"
    and dm: "m_chat_type m = PRIVATE"
    and fu: "m_from_user m = Some (uid, b)"
    and cmd: "m_command m = Some ''start''"
    and pk: "pending_key_unique (db w)"
    and inv: "form_inv w"
    and w': "w' = fst (dispatch E (MessageUpdate m) w)"
  shows "fsm w' = fsm w
         \<and> s_state (fsm w' (m_chat_id m, uid)) = None
         \<and> profiles (db w') = profiles (db w)
         \<and> (pending_of uid (db w) \<noteq> [] \<longrightarrow>
              (\<exists>row \<in> set (pending_of uid (db w)).
                 (\<forall>r \<in> set (pending_of uid (db w)). q_created_at r \<le> q_created_at row)
                 \<and> db w' = (db w)\<lparr>pending := remove1 row (pending (db w))\<rparr>
                 \<and> restrict_calls w w' =
                     (if q_chat_id row = 0 then []
                      else [RestrictChatMember (q_chat_id row) uid open_perms])
                 \<and> (q_chat_id row \<noteq> 0
                      \<and> telegram E (RestrictChatMember (q_chat_id row) uid open_perms) = None
                      \<longrightarrow> chat_perms w' (q_chat_id row, uid) = Some open_perms)
                 \<and> (q_chat_id row = 0 \<longrightarrow> chat_perms w' = chat_perms w)
                 \<and> (\<forall>c. c \<noteq> q_chat_id row \<longrightarrow> chat_perms w' (c, uid) = chat_perms w (c, uid))))
         \<and> (pending_of uid (db w) = [] \<longrightarrow>
              db w' = db w \<and> chat_perms w' = chat_perms w \<and> restrict_calls w w' = [])
         \<and> (\<forall>E' u c. wf_update u
                \<and> chat_perms (fst (dispatch E' u w)) (c, uid) = Some open_perms
                \<and> chat_perms w (c, uid) \<noteq> Some open_perms
              \<longrightarrow> start_from uid u)"
proof -
  have eq: "w' = fst (start E m w)"
    using w' dispatch_start_dm[OF dm cmd] by simp
  have a: "fsm w' = fsm w"
    using start_step(2)[OF fu reg] eq by simp
  have b: "s_state (fsm w' (m_chat_id m, uid)) = None"
  proof (rule ccontr)
    assume "s_state (fsm w' (m_chat_id m, uid)) \<noteq> None"
    with a have "s_state (fsm w (m_chat_id m, uid)) \<noteq> None" by simp
    from form_invD[OF inv this] reg show False by simp
  qed
  have c: "profiles (db w') = profiles (db w)"
    using start_step(3)[OF fu] eq by simp
  have d: "pending_of uid (db w) \<noteq> [] \<longrightarrow>
              (\<exists>row \<in> set (pending_of uid (db w)).
                 (\<forall>r \<in> set (pending_of uid (db w)). q_created_at r \<le> q_created_at row)
                 \<and> db w' = (db w)\<lparr>pending := remove1 row (pending (db w))\<rparr>
                 \<and> restrict_calls w w' =
                     (if q_chat_id row = 0 then []
                      else [RestrictChatMember (q_chat_id row) uid open_perms])
                 \<and> (q_chat_id row \<noteq> 0
                      \<and> telegram E (RestrictChatMember (q_chat_id row) uid open_perms) = None
                      \<longrightarrow> chat_perms w' (q_chat_id row, uid) = Some open_perms)
                 \<and> (q_chat_id row = 0 \<longrightarrow> chat_perms w' = chat_perms w)
                 \<and> (\<forall>c. c \<noteq> q_chat_id row \<longrightarrow> chat_perms w' (c, uid) = chat_perms w (c, uid)))"
    using start_consumes_latest_row[OF fu reg pk _ eq] by blast
  have e: "pending_of uid (db w) = [] \<longrightarrow>
              db w' = db w \<and> chat_perms w' = chat_perms w \<and> restrict_calls w w' = []"
    using start_nothing_pending[OF fu reg, of E] eq by simp
  have f: "\<forall>E' u c. wf_update u
                \<and> chat_perms (fst (dispatch E' u w)) (c, uid) = Some open_perms
                \<and> chat_perms w (c, uid) \<noteq> Some open_perms
              \<longrightarrow> start_from uid u"
    using dispatch_only_start[OF inv _ reg] by blast
  from a b c d e f show ?thesis by (intro conjI)
qed

theorem registered_start_consumes_latest_witness:
  "is_registered 7 (db w_two_confirmed)
   \<and> pending_key_unique (db w_two_confirmed)
   \<and> form_inv w_two_confirmed
   \<and> pending_of 7 (db w_two_confirmed)
       = [\<lparr>q_user_id = 7, q_chat_id = - 100, q_created_at = ascii ''2024-05-01T10:00:00''\<rparr>]
   \<and> chat_perms w_two_confirmed (- 100, 7) = Some locked_perms
   \<and> fsm w_two_restarted = fsm w_two_confirmed
   \<and> s_state (fsm w_two_restarted (7, 7)) = None
   \<and> pending (db w_two_restarted) = []
   \<and> restrict_calls w_two_confirmed w_two_restarted = [RestrictChatMember (- 100) 7 open_perms]
   \<and> chat_perms w_two_restarted (- 100, 7) = Some open_perms
   \<and> start_from 7 (MessageUpdate (cmd_msg 7 ''start'' ''/start''))"
proof -
  let ?m = "cmd_msg 7 ''start'' ''/start''"
  have reg: "is_registered 7 (db w_two_confirmed)"
    by (simp add: two_confirmed is_registered_def)
  have pk: "pending_key_unique (db w_two_confirmed)"
    by (simp add: two_confirmed pending_key_unique_def)
  have po: "pending_of 7 (db w_two_confirmed)
       = [\<lparr>q_user_id = 7, q_chat_id = - 100, q_created_at = ascii ''2024-05-01T10:00:00''\<rparr>]"
    by (simp add: two_confirmed pending_of_def)
  have pd: "pending (db w_two_confirmed)
       = [\<lparr>q_user_id = 7, q_chat_id = - 100, q_created_at = ascii ''2024-05-01T10:00:00''\<rparr>]"
    by (simp add: two_confirmed)
  have lk: "chat_perms w_two_confirmed (- 100, 7) = Some locked_perms"
    by (simp add: two_confirmed)
  have ok: "telegram (E_at t3) (RestrictChatMember (- 100) 7 open_perms) = None"
    by (simp add: E_at_def accept_all_def)
  have wf: "wf_update (MessageUpdate ?m)" by auto
  have nopen: "chat_perms w_two_confirmed (- 100, 7) \<noteq> Some open_perms"
    by (simp add: lk locked_not_open)
  note th = registered_start_consumes_latest[OF reg _ _ _ pk two_confirmed_inv w_two_restarted_def,
      of False, simplified, unfolded po, simplified, unfolded pd, simplified]
  from th have t1: "fsm w_two_restarted = fsm w_two_confirmed"
    and t2: "s_state (fsm w_two_restarted (7, 7)) = None"
    and t3: "db w_two_restarted = (db w_two_confirmed)\<lparr>pending := []\<rparr>"
    and t4: "restrict_calls w_two_confirmed w_two_restarted = [RestrictChatMember (- 100) 7 open_perms]"
    by blast+
  from t3 have t5: "pending (db w_two_restarted) = []" by simp
  from th ok have opened: "chat_perms w_two_restarted (- 100, 7) = Some open_perms" by blast
  from th wf opened nopen have t6: "start_from 7 (MessageUpdate ?m)"
    unfolding w_two_restarted_def by blast
  show ?thesis
    by (intro conjI reg pk two_confirmed_inv po lk t1 t2 t5 t4 opened t6)
qed

text \<open>
  The entry with the chat identifier zero arises from the payload \<open>verify_0\<close>. User 7
  opens the form with \<open>/start verify_0\<close>, writes in the group \<open>-100\<close>, fills in the form
  and confirms: the confirmation consumes the entry of \<open>-100\<close>, the later one, and the
  entry of chat zero stays. The \<open>/start\<close> of the now registered user consumes it and
  requests no unlocking.
\<close>

lemma verify_zero_payload:
  "db (fst (dispatch (E_at t1) (MessageUpdate (cmd_msg 7 ''start'' ''/start verify_0'')) initial_world))
     = (db initial_world)\<lparr>pending := [\<lparr>q_user_id = 7, q_chat_id = 0, q_created_at = t1\<rparr>]\<rparr>"
  "fsm (fst (dispatch (E_at t1) (MessageUpdate (cmd_msg 7 ''start'' ''/start verify_0'')) initial_world))
     = (fsm initial_world)((7, 7) := \<lparr>s_state = Some Reg_first_name, s_data = Map.empty\<rparr>)"
  "chat_perms (fst (dispatch (E_at t1) (MessageUpdate (cmd_msg 7 ''start'' ''/start verify_0'')) initial_world))
     = Map.empty"
proof -
  have a: "py_split_max1 (ascii ''/start verify_0'') = [ascii ''/start'', ascii ''verify_0'']"
    by (simp add: py_split_max1_def ascii_def py_isspace_def Let_def)
  have b: "py_startswith (ascii ''verify_0'') (ascii ''verify_'')"
    by (simp add: py_startswith_def ascii_def)
  have c: "py_split_sep1 95 (ascii ''verify_0'') = [ascii ''verify'', ascii ''0'']"
    by (simp add: py_split_sep1_def ascii_def)
  have d: "py_int (unicode (E_at t1)) (ascii ''0'') = Some 0"
    by (simp add: py_int_def ascii_int_def ascii_def c_isspace_def is_ascii_digit_def
        digits_value_def Let_def)
  have nr: "\<not> is_registered 7 (db initial_world)"
    by (simp add: initial_world_def is_registered_def init_db_def ensure_schema_upgrade_def empty_database_def)
  have pe: "pending (db initial_world) = []"
    by (simp add: initial_world_def init_db_def ensure_schema_upgrade_def empty_database_def stored_emails_def
        List.map_filter_def)
  let ?E = "E_at t1" and ?m = "cmd_msg 7 ''start'' ''/start verify_0''"
  have vp: "verify_payload ?E 7 (ascii ''verify_0'') initial_world
      = initial_world\<lparr>db := add_pending (utcnow ?E) 7 0 (db initial_world)\<rparr>"
    by (simp add: verify_payload_def b c d sqlite_int_ok_def)
  have st: "start ?E ?m initial_world =
      run_steps [pure (verify_payload ?E 7 (ascii ''verify_0'')),
                 pure (set_state (7, 7) (Some Reg_first_name)),
                 answer ?E ?m AskFirstName] initial_world"
    using nr by (simp add: start_def Let_def a)
  have now: "utcnow ?E = t1" by (simp add: E_at_def)
  have ok: "telegram ?E = accept_all" by (simp add: E_at_def)
  show "db (fst (dispatch ?E (MessageUpdate ?m) initial_world))
     = (db initial_world)\<lparr>pending := [\<lparr>q_user_id = 7, q_chat_id = 0, q_created_at = t1\<rparr>]\<rparr>"
    by (simp add: dispatch_message_def st vp add_pending_def pe now)
  show "fsm (fst (dispatch ?E (MessageUpdate ?m) initial_world))
     = (fsm initial_world)((7, 7) := \<lparr>s_state = Some Reg_first_name, s_data = Map.empty\<rparr>)"
    by (simp add: dispatch_message_def st vp set_state_def) (simp add: initial_world_def)
  show "chat_perms (fst (dispatch ?E (MessageUpdate ?m) initial_world)) = Map.empty"
    by (simp add: dispatch_message_def st vp ok accept_all_def) (simp add: initial_world_def)
qed

lemma zero_registered:
  "db w_zero_registered =
     (db initial_world)
       \<lparr>profiles := [\<lparr>p_user_id = 7, p_first_name = ascii ''Ivan'', p_last_name = ascii ''Petrov'',
                      p_school_cls = ascii ''10B'', p_email = Some (ascii ''ivan.petrov@fizmat.kz''),
                      p_created_at = t3\<rparr>],
        pending := [\<lparr>q_user_id = 7, q_chat_id = 0, q_created_at = t1\<rparr>]\<rparr>"
proof -
  let ?s = "MessageUpdate (cmd_msg 7 ''start'' ''/start verify_0'')"
  let ?g = "group_msg (- 100) 7 ''hello''"
  define wa where "wa = fst (dispatch (E_at t1) ?s initial_world)"
  define wb where "wb = fst (dispatch (E_at t2) (MessageUpdate ?g) wa)"
  note za = verify_zero_payload[folded wa_def]
  have pi: "profiles (db initial_world) = []" "idx_profiles_email_unique (db initial_world)"
    by (simp_all add: initial_world_def init_db_def ensure_schema_upgrade_def empty_database_def
        stored_emails_def List.map_filter_def)
  have nra: "\<not> is_registered 7 (db wa)" by (simp add: za is_registered_def pi)
  have gb: "wb = fst (run_steps
                 [record_pending (E_at t2) 7 (- 100), lock_member (E_at t2) (- 100) 7,
                  attempt (E_at t2) (DeleteMessage (- 100) Incoming) caught3,
                  dm_or_notice (E_at t2) (- 100) 7] wa)"
    using nra by (simp add: wb_def dispatch_message_def group_msg_def guard_fst)
  have ok: "telegram (E_at t2) c = None" for c by (simp add: E_at_def accept_all_def)
  have now2: "utcnow (E_at t2) = t2" by (simp add: E_at_def)
  have dbb: "db wb = (db initial_world)
       \<lparr>pending := [\<lparr>q_user_id = 7, q_chat_id = 0, q_created_at = t1\<rparr>,
                     \<lparr>q_user_id = 7, q_chat_id = - 100, q_created_at = t2\<rparr>]\<rparr>"
    by (simp add: gb record_pending_def lock_member_def dm_or_notice_fst ok za add_pending_def now2)
  have fb: "fsm wb = fsm wa"
    by (simp add: gb record_pending_def lock_member_def dm_or_notice_fst ok)
  have stb: "s_state (fsm wb (7, 7)) = Some Reg_first_name" by (simp add: fb za)
  have free: "\<not> (idx_profiles_email_unique (db wb)
                   \<and> email_taken 7 (ascii ''ivan.petrov@fizmat.kz'') (db wb))"
    by (simp add: dbb email_taken_def pi)
  define w4 where "w4 = run [(E_at t3, MessageUpdate (dm 7 ''Ivan'')), (E_at t3, MessageUpdate (dm 7 ''Petrov'')),
                 (E_at t3, MessageUpdate (dm 7 ''10B'')),
                 (E_at t3, MessageUpdate (dm 7 ''ivan.petrov@fizmat.kz''))] wb"
  have w': "w_zero_registered = run [(E_at t3, MessageUpdate (dm 7 ''Ivan'')), (E_at t3, MessageUpdate (dm 7 ''Petrov'')),
                 (E_at t3, MessageUpdate (dm 7 ''10B'')),
                 (E_at t3, MessageUpdate (dm 7 ''ivan.petrov@fizmat.kz'')),
                 (E_at t3, CallbackUpdate (press 7 ''confirm''))] wb"
    by (simp add: w_zero_registered_def zero_script_def ivan_script_def wa_def wb_def)
  note ir = ivan_run[OF stb free w4_def w' refl]
  have up: "upsert_profile r (profiles (db wb)) = [r]" for r
    by (simp add: dbb pi upsert_profile_def)
  have now: "utcnow (E_at t3) = t3" by (simp add: E_at_def)
  let ?d = "(db wb)\<lparr>profiles := [\<lparr>p_user_id = 7, p_first_name = ascii ''Ivan'', p_last_name = ascii ''Petrov'',
                      p_school_cls = ascii ''10B'', p_email = Some (ascii ''ivan.petrov@fizmat.kz''),
                      p_created_at = t3\<rparr>]\<rparr>"
  have cons: "consume_pending (cb_from_user_id (press 7 ''confirm'')) ?d
      = (?d\<lparr>pending := [\<lparr>q_user_id = 7, q_chat_id = 0, q_created_at = t1\<rparr>]\<rparr>, Some (- 100))"
    by (simp add: consume_pending_def dbb t1_def t2_def ascii_def)
  have saved: "save_profile (unicode (E_at t3)) (utcnow (E_at t3)) (cb_from_user_id (press 7 ''confirm''))
           (dict_get (s_data (fsm w4 (cb_chat_id (press 7 ''confirm''), cb_from_user_id (press 7 ''confirm'')))) ''first_name'' [])
           (dict_get (s_data (fsm w4 (cb_chat_id (press 7 ''confirm''), cb_from_user_id (press 7 ''confirm'')))) ''last_name'' [])
           (dict_get (s_data (fsm w4 (cb_chat_id (press 7 ''confirm''), cb_from_user_id (press 7 ''confirm'')))) ''school_cls'' [])
           (dict_get (s_data (fsm w4 (cb_chat_id (press 7 ''confirm''), cb_from_user_id (press 7 ''confirm'')))) ''email'' [])
           (db w4) = Inr ?d"
    using ir(4) by (simp add: up now)
  from confirm_saved(1)[OF saved cons] ir(1)
  show ?thesis by (simp add: dbb)
qed

theorem chat_zero_consumed_without_unlock:
  "is_registered 7 (db w_zero_registered)
   \<and> pending_of 7 (db w_zero_registered) = [\<lparr>q_user_id = 7, q_chat_id = 0, q_created_at = t1\<rparr>]
   \<and> pending (db (fst (dispatch (E_at t3) (MessageUpdate (cmd_msg 7 ''start'' ''/start'')) w_zero_registered))) = []
   \<and> new_calls w_zero_registered
        (fst (dispatch (E_at t3) (MessageUpdate (cmd_msg 7 ''start'' ''/start'')) w_zero_registered))
       = [SendMessage 7 (AlreadyRegistered False)]
   \<and> chat_perms (fst (dispatch (E_at t3) (MessageUpdate (cmd_msg 7 ''start'' ''/start'')) w_zero_registered))
       = chat_perms w_zero_registered"
proof -
  let ?m = "cmd_msg 7 ''start'' ''/start''"
  have reg: "is_registered 7 (db w_zero_registered)"
    by (simp add: zero_registered is_registered_def)
  have po: "pending_of 7 (db w_zero_registered) = [\<lparr>q_user_id = 7, q_chat_id = 0, q_created_at = t1\<rparr>]"
    by (simp add: zero_registered pending_of_def)
  have cons: "consume_pending 7 (db w_zero_registered) = ((db w_zero_registered)\<lparr>pending := []\<rparr>, Some 0)"
    by (simp add: consume_pending_def zero_registered)
  have d: "dispatch (E_at t3) (MessageUpdate ?m) w_zero_registered = start (E_at t3) ?m w_zero_registered"
    by (rule dispatch_start_dm) simp_all
  have eq: "start (E_at t3) ?m w_zero_registered
      = answer (E_at t3) ?m (AlreadyRegistered False)
          (w_zero_registered\<lparr>db := (db w_zero_registered)\<lparr>pending := []\<rparr>\<rparr>)"
    using start_registered_eq[OF _ reg cons, of ?m False "E_at t3"] by (simp add: truthy_def)
  show ?thesis
    unfolding d eq
    by (intro conjI reg po) (simp_all add: new_calls_def)
qed

section \<open>The throttle of the group notice\<close>

text \<open>
  No handler but the group guard requests the group notice or touches the throttle's
  two tables.
\<close>

lemma noticed_same [simp]: "\<not> noticed c w w"
  by (simp add: noticed_def new_calls_def)

lemma noticed_talk_only: "talk_only w w' \<Longrightarrow> \<not> noticed c w w'"
  by (force simp add: talk_only_def noticed_def new_calls_def)

lemma no_notice_form:
  "\<not> noticed c w (fst (reg_first_name E key m w))"
  "\<not> noticed c w (fst (reg_last_name E key m w))"
  "\<not> noticed c w (fst (reg_class E key m w))"
  "\<not> noticed c w (fst (reg_email E key m w))"
  "p \<noteq> NeedDmNotice \<Longrightarrow> \<not> noticed c w (fst (edit_field E cb p st w))"
  by (simp_all add: reg_first_name_def reg_last_name_def reg_class_def reg_email_def
      edit_field_def Let_def noticed_def new_calls_def)

lemma no_notice_join: "\<not> noticed c w (fst (on_user_join E ev w))"
  by (simp add: on_user_join_def record_pending_def lock_member_def noticed_def new_calls_def)

lemma no_notice_remove: "\<not> noticed c w (fst (remove_cmd E m w))"
  by (simp add: remove_cmd_def noticed_def new_calls_def split: sum.splits bool.splits option.splits)

lemma no_notice_start: "\<not> noticed c w (fst (start E m w))"
proof (cases rule: start_cases[of m E w])
  case (registered u b d chat)
  then show ?thesis by (cases "truthy chat") (simp_all add: noticed_def new_calls_def)
qed (simp_all add: noticed_def new_calls_def)

lemma no_notice_confirm: "\<not> noticed c w (fst (confirm E cb w))"
proof (cases rule: confirm_cases[of E cb w])
  case (saved d d' chat)
  then show ?thesis by (cases "truthy chat") (simp_all add: confirm_saved_eq noticed_def new_calls_def)
qed (simp_all add: noticed_def new_calls_def)

lemma no_notice_count:
  "\<not> noticed c w w' \<Longrightarrow> filter (\<lambda>a. a = SendMessage c NeedDmNotice) (new_calls w w') = []"
  by (auto simp add: noticed_def filter_empty_conv)

lemma throttle_quiet_step:
  assumes nn: "\<not> noticed c w w'"
    and l: "LAST_NOTICE_AT w' = LAST_NOTICE_AT w" and n: "NEED_DM_CACHE w' = NEED_DM_CACHE w"
  shows "(noticed c w w' \<longrightarrow>
            (\<exists>m uid b. u = MessageUpdate m \<and> m_chat_id m = c \<and> m_from_user m = Some (uid, b)
               \<and> (time_time E - last_notice w c \<ge> 60
                    \<or> fcard (finsert uid (NEED_DM_CACHE w c)) \<ge> 20))
            \<and> NEED_DM_CACHE w' c = {||}
            \<and> LAST_NOTICE_AT w' c = Some (time_time E))
         \<and> (\<not> noticed c w w' \<longrightarrow>
              LAST_NOTICE_AT w' c = LAST_NOTICE_AT w c
              \<and> (NEED_DM_CACHE w' c = NEED_DM_CACHE w c
                   \<or> (\<exists>uid. NEED_DM_CACHE w' c = finsert uid (NEED_DM_CACHE w c))))
         \<and> length (filter (\<lambda>a. a = SendMessage c NeedDmNotice) (new_calls w w')) \<le> 1"
  using nn l n by (simp add: no_notice_count)

lemma throttle_guard_step:
  assumes u: "u = MessageUpdate m" and w': "w' = fst (guard_group_messages E m w)"
  shows "(noticed c w w' \<longrightarrow>
            (\<exists>m uid b. u = MessageUpdate m \<and> m_chat_id m = c \<and> m_from_user m = Some (uid, b)
               \<and> (time_time E - last_notice w c \<ge> 60
                    \<or> fcard (finsert uid (NEED_DM_CACHE w c)) \<ge> 20))
            \<and> NEED_DM_CACHE w' c = {||}
            \<and> LAST_NOTICE_AT w' c = Some (time_time E))
         \<and> (\<not> noticed c w w' \<longrightarrow>
              LAST_NOTICE_AT w' c = LAST_NOTICE_AT w c
              \<and> (NEED_DM_CACHE w' c = NEED_DM_CACHE w c
                   \<or> (\<exists>uid. NEED_DM_CACHE w' c = finsert uid (NEED_DM_CACHE w c))))
         \<and> length (filter (\<lambda>a. a = SendMessage c NeedDmNotice) (new_calls w w')) \<le> 1"
  using w'
proof (cases rule: guard_cases)
  case idle
  then show ?thesis by (intro throttle_quiet_step) simp_all
next
  case (stopped xs)
  then show ?thesis by (intro throttle_quiet_step) (simp_all add: noticed_append)
next
  case (quiet uid b xs)
  have nn: "\<not> noticed c w w'" using quiet(2,3) by (simp add: noticed_append)
  have "NEED_DM_CACHE w' c = NEED_DM_CACHE w c
          \<or> (\<exists>uid. NEED_DM_CACHE w' c = finsert uid (NEED_DM_CACHE w c))"
    using quiet(5) by auto
  with nn quiet(6) show ?thesis by (simp add: no_notice_count)
next
  case (notice uid b xs r)
  have nx: "filter (\<lambda>a. a = SendMessage c NeedDmNotice) (map fst xs) = []"
    using notice(3) by (force simp add: filter_empty_conv)
  have nc: "new_calls w w' = map fst xs @ [SendMessage (m_chat_id m) NeedDmNotice]"
    using notice(2) by (simp add: new_calls_def)
  have cnt: "length (filter (\<lambda>a. a = SendMessage c NeedDmNotice) (new_calls w w')) \<le> 1"
    by (simp add: nc nx)
  show ?thesis
  proof (cases "c = m_chat_id m")
    case True
    have yes: "noticed c w w'" using True by (simp add: noticed_def nc)
    have "\<exists>m uid b. u = MessageUpdate m \<and> m_chat_id m = c \<and> m_from_user m = Some (uid, b)
               \<and> (time_time E - last_notice w c \<ge> 60
                    \<or> fcard (finsert uid (NEED_DM_CACHE w c)) \<ge> 20)"
      using u True notice(1,4) by blast
    moreover have "NEED_DM_CACHE w' c = {||}" using notice(5) True by simp
    moreover have "LAST_NOTICE_AT w' c = Some (time_time E)" using notice(6) True by simp
    ultimately show ?thesis using yes cnt by blast
  next
    case False
    have nn: "\<not> noticed c w w'" using False notice(3) by (force simp add: noticed_def nc)
    moreover have "NEED_DM_CACHE w' c = NEED_DM_CACHE w c" using notice(5) False by simp
    moreover have "LAST_NOTICE_AT w' c = LAST_NOTICE_AT w c" using notice(6) False by simp
    ultimately show ?thesis using cnt by simp
  qed
qed

lemma refused_then_throttle:
  assumes fu: "m_from_user m = Some (uid, False)" and nr: "\<not> is_registered uid (db w)"
    and tg: "telegram E = refuse_dm"
  shows "fst (guard_group_messages E m w) =
           fst (throttle_notice E (m_chat_id m) uid
             (fst (api E (SendMessage uid (DmFormInvite (start_link_ok E (m_chat_id m))))
               (fst (api E (DeleteMessage (m_chat_id m) Incoming)
                 (fst (api E (RestrictChatMember (m_chat_id m) uid locked_perms)
                   (w\<lparr>db := add_pending (utcnow E) uid (m_chat_id m) (db w)\<rparr>))))))))"
  using fu nr
  by (simp add: guard_fst record_pending_def lock_member_def dm_or_notice_fst tg refuse_dm_def caught3_def)

lemma w_noticed_facts:
  "noticed (- 100) initial_world w_noticed"
  "profiles (db w_noticed) = []"
  "LAST_NOTICE_AT w_noticed (- 100) = Some 1700000000"
  "NEED_DM_CACHE w_noticed (- 100) = {||}"
proof -
  have nr: "\<not> is_registered 7 (db initial_world)"
    by (simp add: initial_world_def is_registered_def init_db_def ensure_schema_upgrade_def empty_database_def)
  have tg: "telegram (E_closed 1700000000) = refuse_dm" by (simp add: E_closed_def)
  have w: "w_noticed = fst (guard_group_messages (E_closed 1700000000) (group_msg (- 100) 7 ''hello'') initial_world)"
    by (simp add: w_noticed_def dispatch_message_def group_msg_def)
  show "noticed (- 100) initial_world w_noticed"
    unfolding w
    by (subst refused_then_throttle[OF _ nr tg, of _ ])
       (simp_all add: group_msg_def throttle_notice_fst last_notice_def noticed_def new_calls_def
          E_closed_def initial_world_def)
  show "profiles (db w_noticed) = []"
    unfolding w by (simp add: guard_step initial_world_def init_db_def ensure_schema_upgrade_def empty_database_def)
  show "LAST_NOTICE_AT w_noticed (- 100) = Some 1700000000"
    unfolding w
    by (subst refused_then_throttle[OF _ nr tg, of _ ])
       (simp_all add: group_msg_def throttle_notice_fst last_notice_def E_closed_def initial_world_def)
  show "NEED_DM_CACHE w_noticed (- 100) = {||}"
    unfolding w
    by (subst refused_then_throttle[OF _ nr tg, of _ ])
       (simp_all add: group_msg_def throttle_notice_fst last_notice_def E_closed_def initial_world_def)
qed

lemma w_batched_facts:
  "\<not> noticed (- 100) w_noticed w_batched"
  "NEED_DM_CACHE w_batched (- 100) = {|8|}"
proof -
  have nr: "\<not> is_registered 8 (db w_noticed)"
    by (simp add: is_registered_def w_noticed_facts)
  have tg: "telegram (E_closed 1700000030) = refuse_dm" by (simp add: E_closed_def)
  have w: "w_batched = fst (guard_group_messages (E_closed 1700000030) (group_msg (- 100) 8 ''hi'') w_noticed)"
    by (simp add: w_batched_def dispatch_message_def group_msg_def)
  have tt: "time_time (E_closed 1700000030) = 1700000030" by (simp add: E_closed_def)
  show "\<not> noticed (- 100) w_noticed w_batched"
    unfolding w
    by (subst refused_then_throttle[OF _ nr tg, of _ ])
       (simp_all add: group_msg_def throttle_notice_fst last_notice_def noticed_def new_calls_def
          tt w_noticed_facts fcard_finsert_if fcard_fempty)
  show "NEED_DM_CACHE w_batched (- 100) = {|8|}"
    unfolding w
    by (subst refused_then_throttle[OF _ nr tg, of _ ])
       (simp_all add: group_msg_def throttle_notice_fst last_notice_def tt w_noticed_facts fcard_finsert_if fcard_fempty)
qed

text \<open>
  C4. One update is handled, and \<open>c\<close> is any chat. If the group notice is requested in
  \<open>c\<close>, the update is a message of that chat with a sender, and either at least 60 seconds lie between the time recorded for the chat's
  last notice (zero when none is recorded) and now, or the chat's set, with this user
  added, has at least 20 members; afterwards the chat's set is empty and the recorded
  time is now. If no notice is requested in \<open>c\<close>, the recorded time of \<open>c\<close> is unchanged
  and its set is unchanged or has gained one user: so the recorded time is always that of
  the chat's last notice, and the set holds the users refused since then. Hence a
  notice less than 60 seconds after the last one of the chat is one for which the set
  has reached 20. At most one notice is requested per update.
\<close>

theorem notice_throttled:
  assumes w': "w' = fst (dispatch E u w)"
  shows "(noticed c w w' \<longrightarrow>
            (\<exists>m uid b. u = MessageUpdate m \<and> m_chat_id m = c \<and> m_from_user m = Some (uid, b)
               \<and> (time_time E - last_notice w c \<ge> 60
                    \<or> fcard (finsert uid (NEED_DM_CACHE w c)) \<ge> 20))
            \<and> NEED_DM_CACHE w' c = {||}
            \<and> LAST_NOTICE_AT w' c = Some (time_time E))
         \<and> (\<not> noticed c w w' \<longrightarrow>
              LAST_NOTICE_AT w' c = LAST_NOTICE_AT w c
              \<and> (NEED_DM_CACHE w' c = NEED_DM_CACHE w c
                   \<or> (\<exists>uid. NEED_DM_CACHE w' c = finsert uid (NEED_DM_CACHE w c))))
         \<and> (noticed c w w' \<and> time_time E - last_notice w c < 60 \<longrightarrow>
              (\<exists>uid. fcard (finsert uid (NEED_DM_CACHE w c)) \<ge> 20))
         \<and> length (filter (\<lambda>a. a = SendMessage c NeedDmNotice) (new_calls w w')) \<le> 1"
proof -
  have core: "(noticed c w w' \<longrightarrow>
            (\<exists>m uid b. u = MessageUpdate m \<and> m_chat_id m = c \<and> m_from_user m = Some (uid, b)
               \<and> (time_time E - last_notice w c \<ge> 60
                    \<or> fcard (finsert uid (NEED_DM_CACHE w c)) \<ge> 20))
            \<and> NEED_DM_CACHE w' c = {||}
            \<and> LAST_NOTICE_AT w' c = Some (time_time E))
         \<and> (\<not> noticed c w w' \<longrightarrow>
              LAST_NOTICE_AT w' c = LAST_NOTICE_AT w c
              \<and> (NEED_DM_CACHE w' c = NEED_DM_CACHE w c
                   \<or> (\<exists>uid. NEED_DM_CACHE w' c = finsert uid (NEED_DM_CACHE w c))))
         \<and> length (filter (\<lambda>a. a = SendMessage c NeedDmNotice) (new_calls w w')) \<le> 1"
  proof (cases rule: dispatch_which[of E u w])
  case unhandled
  then show ?thesis by (intro throttle_quiet_step) (simp_all add: w')
next
  case (guard m)
  show ?thesis by (rule throttle_guard_step[OF guard(1)]) (simp add: w' guard(3))
next
  case (start m)
  show ?thesis
    by (intro throttle_quiet_step) (simp_all add: w' start(5) no_notice_start throttle_frame_start)
next
  case (field m uid b h)
  from field(7) show ?thesis
    by (intro throttle_quiet_step) (auto simp add: w' field(8) no_notice_form throttle_frame_form)
next
  case (admin m h)
  have "talk_only w (fst (h E m w))"
    using admin(2) by (auto simp add: talk_only_who talk_only_info talk_only_export talk_only_setup)
  then show ?thesis
    by (intro throttle_quiet_step) (simp_all add: w' admin(3) noticed_talk_only, simp_all add: talk_only_def)
next
  case (remove m)
  show ?thesis
    by (intro throttle_quiet_step) (simp_all add: w' remove(2) no_notice_remove throttle_frame_remove)
next
  case (edit cb prompt st)
  from edit(4) have "prompt \<noteq> NeedDmNotice" by auto
  then show ?thesis
    by (intro throttle_quiet_step) (simp_all add: w' edit(3) no_notice_form throttle_frame_form)
next
  case (confirm cb)
  show ?thesis
    by (intro throttle_quiet_step) (simp_all add: w' confirm(3) no_notice_confirm throttle_frame_confirm)
next
  case (join ev)
  show ?thesis
    by (intro throttle_quiet_step) (simp_all add: w' join(2) no_notice_join throttle_frame_join)
  qed
  have window: "noticed c w w' \<and> time_time E - last_notice w c < 60 \<longrightarrow>
              (\<exists>uid. fcard (finsert uid (NEED_DM_CACHE w c)) \<ge> 20)"
  proof
    assume a: "noticed c w w' \<and> time_time E - last_notice w c < 60"
    with core obtain uid where "time_time E - last_notice w c \<ge> 60
                    \<or> fcard (finsert uid (NEED_DM_CACHE w c)) \<ge> 20"
      by blast
    with a have "fcard (finsert uid (NEED_DM_CACHE w c)) \<ge> 20" by simp
    then show "\<exists>uid. fcard (finsert uid (NEED_DM_CACHE w c)) \<ge> 20" ..
  qed
  from core window show ?thesis by (intro conjI) (elim conjE, assumption)+
qed

theorem notice_throttled_witness:
  "noticed (- 100) initial_world w_noticed
   \<and> NEED_DM_CACHE w_noticed (- 100) = {||}
   \<and> LAST_NOTICE_AT w_noticed (- 100) = Some 1700000000
   \<and> \<not> noticed (- 100) w_noticed w_batched
   \<and> LAST_NOTICE_AT w_batched (- 100) = Some 1700000000
   \<and> NEED_DM_CACHE w_batched (- 100) = {|8|}"
proof -
  have tt: "time_time (E_closed 1700000000) = 1700000000" by (simp add: E_closed_def)
  from notice_throttled[OF w_noticed_def, of "- 100"] w_noticed_facts(1)
  have a: "NEED_DM_CACHE w_noticed (- 100) = {||}"
    and b: "LAST_NOTICE_AT w_noticed (- 100) = Some 1700000000"
    unfolding tt by blast+
  from notice_throttled[OF w_batched_def, of "- 100"] w_batched_facts(1)
  have "LAST_NOTICE_AT w_batched (- 100) = LAST_NOTICE_AT w_noticed (- 100)" by blast
  with b have c: "LAST_NOTICE_AT w_batched (- 100) = Some 1700000000" by simp
  show ?thesis
    by (intro conjI w_noticed_facts(1) a b w_batched_facts c)
qed

end
